theory Spec2Isabelle
  imports Complex_Main
begin

section \<open>Python list primitives used by the builders\<close>

text \<open>
  \<^verbatim>\<open>xs[a:b]\<close> for non-negative bounds: both bounds are clipped to the length of the
  list and the slice is empty when \<open>b \<le> a\<close>.
\<close>

definition py_slice :: "'a list \<Rightarrow> nat \<Rightarrow> nat \<Rightarrow> 'a list" where
  "py_slice xs a b = take (b - a) (drop a xs)"

text \<open>
  \<^verbatim>\<open>range(start, stop, step)\<close> for a positive step. Python raises ValueError for a zero
  step; both builders pass the literal 10, so that branch is never taken.
\<close>

function py_range :: "nat \<Rightarrow> nat \<Rightarrow> nat \<Rightarrow> nat list" where
  "py_range i stop step =
     (if step = 0 then []
      else if i < stop then i # py_range (i + step) stop step
      else [])"
  by pat_completeness auto
termination
  by (relation "measure (\<lambda>(i, stop, step). stop - i)") auto

declare py_range.simps [simp del]

section \<open>Variant batch planning\<close>

subsection \<open>Clean builder: \<^verbatim>\<open>core/product_builder.py\<close>, \<^verbatim>\<open>_create_product\<close>\<close>

text \<open>\<^verbatim>\<open>initial_batch = variants[:8]\<close> and \<^verbatim>\<open>remaining = variants[8:]\<close>.\<close>

definition clean_initial_batch :: "'a list \<Rightarrow> 'a list" where
  "clean_initial_batch variants = py_slice variants 0 8"

definition clean_remaining :: "'a list \<Rightarrow> 'a list" where
  "clean_remaining variants = drop 8 variants"

text \<open>
  \<^verbatim>\<open>if remaining: batch_size = 10; for i in range(0, len(remaining), batch_size):
  batch = remaining[i:i + batch_size]\<close>
\<close>

definition clean_batch_starts :: "'a list \<Rightarrow> nat list" where
  "clean_batch_starts remaining =
     (if remaining = [] then [] else py_range 0 (length remaining) 10)"

definition clean_batch :: "'a list \<Rightarrow> nat \<Rightarrow> 'a list" where
  "clean_batch remaining i = py_slice remaining i (i + 10)"

definition clean_append_batches :: "'a list \<Rightarrow> 'a list list" where
  "clean_append_batches remaining = map (clean_batch remaining) (clean_batch_starts remaining)"

subsection \<open>Modular builder: \<^verbatim>\<open>modules/product_creator/product_builder.py\<close>\<close>

text \<open>
  \<^verbatim>\<open>max_initial = 20; initial_variants = variants[:max_initial];
  remaining_variants = variants[max_initial:]\<close> in \<^verbatim>\<open>build_single_product\<close>.
\<close>

definition modular_initial_variants :: "'a list \<Rightarrow> 'a list" where
  "modular_initial_variants variants = py_slice variants 0 20"

definition modular_remaining_variants :: "'a list \<Rightarrow> 'a list" where
  "modular_remaining_variants variants = drop 20 variants"

text \<open>
  \<^verbatim>\<open>batch_size = 10; total_batches = (len(remaining_variants) + batch_size - 1) // batch_size\<close>
  and, for each \<^verbatim>\<open>batch_num in range(total_batches)\<close>,
  \<^verbatim>\<open>start_idx = batch_num * batch_size; end_idx = min(start_idx + batch_size, len(remaining_variants));
  batch_variants = remaining_variants[start_idx:end_idx]\<close>.
\<close>

definition total_batches :: "'a list \<Rightarrow> nat" where
  "total_batches remaining = (length remaining + 10 - 1) div 10"

definition modular_batch :: "'a list \<Rightarrow> nat \<Rightarrow> 'a list" where
  "modular_batch remaining batch_num =
     (let start_idx = batch_num * 10;
          end_idx = min (start_idx + 10) (length remaining)
      in py_slice remaining start_idx end_idx)"

definition modular_batch_nums :: "'a list \<Rightarrow> nat list" where
  "modular_batch_nums remaining =
     (if remaining = [] then [] else [0 ..< total_batches remaining])"

definition modular_append_batches :: "'a list \<Rightarrow> 'a list list" where
  "modular_append_batches remaining =
     map (modular_batch remaining) (modular_batch_nums remaining)"


section \<open>Paths\<close>

text \<open>\<^verbatim>\<open>os.path.basename(p)\<close> on POSIX: everything after the last slash.\<close>

definition basename :: "string \<Rightarrow> string" where
  "basename p = rev (takeWhile (\<lambda>c. c \<noteq> CHR ''/'') (rev p))"

text \<open>
  \<^verbatim>\<open>os.path.splitext(p)[0]\<close> on POSIX: the path is cut at the last dot of its final
  component, unless that component has no dot or only dots come before it.
\<close>

definition splitext_root :: "string \<Rightarrow> string" where
  "splitext_root p =
     (let b = basename p;
          dir = take (length p - length b) p;
          stem = rev (tl (dropWhile (\<lambda>c. c \<noteq> CHR ''.'') (rev b)))
      in if CHR ''.'' \<in> set b \<and> (\<exists>c \<in> set stem. c \<noteq> CHR ''.'') then dir @ stem else p)"

definition design_name_of :: "string \<Rightarrow> string" where
  "design_name_of design_file = splitext_root (basename design_file)"

section \<open>Data model\<close>

type_synonym url = string

text \<open>A value of type \<open>Optional[str]\<close> used as a condition: \<open>None\<close> and the empty string are false.\<close>

definition truthy :: "string option \<Rightarrow> bool" where
  "truthy u = (case u of None \<Rightarrow> False | Some s \<Rightarrow> s \<noteq> [])"

text \<open>A standardised variant of the variant catalog (\<^verbatim>\<open>VariantLoader._standardize_variants\<close>).\<close>

record variant =
  variant_id :: "int option"
  size :: string
  color :: string
  price :: real

text \<open>One entry of a product's \<^verbatim>\<open>placements\<close> list.\<close>

record placement =
  ptype :: string
  description :: string
  design_type :: string
  order :: "nat option"

text \<open>The position dictionaries of the placement catalogs.\<close>

record position_box =
  area_width :: real
  area_height :: real
  width :: real
  height :: real
  top :: real
  left :: real
  limit_to_print_area :: bool

text \<open>\<^verbatim>\<open>{"id": "auto_thread_color", "value": True}\<close>\<close>

datatype file_option = AutoThreadColor

record file_config =
  fc_type :: string
  fc_url :: url
  fc_options :: "file_option list option"
  fc_position :: "position_box option"

text \<open>
  The \<^verbatim>\<open>urls\<close> dictionary. \<^verbatim>\<open>logo_black_url\<close> is a key only the clean builder adds; an
  absent key and a key bound to \<open>None\<close> are read alike (\<^verbatim>\<open>urls.get\<close>).
\<close>

record urls =
  design_url :: url
  logo_url :: "url option"
  upscaled_url :: "url option"
  logo_black_url :: "url option"

subsection \<open>Vendor API messages\<close>

text \<open>
  JSON objects of the vendor's replies; a field is \<open>None\<close> when the key is absent.
\<close>

record remote_variant =
  rv_id :: "int option"

record sync_product_info =
  sp_id :: "int option"

record api_result =
  res_id :: "int option"
  res_sync_product :: "sync_product_info option"
  res_sync_variants :: "remote_variant list option"

record response =
  code :: "int option"
  result :: "api_result option"

text \<open>\<^verbatim>\<open>response.get("code") in [200, 201]\<close>\<close>

definition code_ok :: "response \<Rightarrow> bool" where
  "code_ok r = (code r = Some 200 \<or> code r = Some 201)"

text \<open>\<^verbatim>\<open>f"{variant['price']:.2f}"\<close>, kept symbolic: the two-decimal rendering of the price.\<close>

datatype price_text = Fmt2 real

datatype payload_variant =
    ExistingRef "int option"
  | NewVariant (retail_price: price_text) (pv_variant_id: "int option") (files: "file_config list")

record payload =
  pl_name :: string
  pl_thumbnail :: url
  pl_sync_variants :: "payload_variant list"

text \<open>\<^verbatim>\<open>/store/products\<close> and \<^verbatim>\<open>/store/products/{product_id}\<close>.\<close>

datatype endpoint = StoreProducts | StoreProduct int

datatype request = GET endpoint | POST endpoint payload | PUT endpoint payload

subsection \<open>Exceptions\<close>

datatype exn =
    ValueError string
  | KeyError string
  | TypeError string
  | NameError string
  | OverflowError string
  | CreationFailed response
  | FetchFailed response
  | UploadDesignFailed exn
  | BeanieAssetMissing string
  | Raised string

subsection \<open>The world a build runs in\<close>

text \<open>
  Every call that leaves the process is recorded with its outcome: uploads to the asset
  store and requests to the vendor API.
\<close>

datatype event =
    Upload string "exn + url"
  | UploadTransparent string "exn + url"
  | Api request "exn + response"

text \<open>
  \<open>ext\<close> is the state of everything outside the builder (file system, asset store,
  vendor); \<open>cache\<close> is \<^verbatim>\<open>FileManager._cache\<close>.
\<close>

record 's world =
  ext :: 's
  cache :: "string \<rightharpoonup> url"
  trace :: "event list"

text \<open>The collaborators a builder is constructed with or receives as arguments.\<close>

record 's env =
  get_available_products :: "'s \<Rightarrow> string list"
  load_product_variants :: "string \<Rightarrow> 's \<Rightarrow> (exn + variant list) \<times> 's"
  get_product_info_name :: "string \<Rightarrow> 's \<Rightarrow> string option"
  path_exists :: "string \<Rightarrow> 's \<Rightarrow> bool"
  upload_image :: "string \<Rightarrow> 's \<Rightarrow> (exn + url) \<times> 's"
  upload_image_with_transparency :: "string \<Rightarrow> 's \<Rightarrow> (exn + url) \<times> 's"
  create_left_aligned_image :: "string \<Rightarrow> 's \<Rightarrow> (exn + string) \<times> 's"
  scale_and_save :: "string \<Rightarrow> string \<Rightarrow> 's \<Rightarrow> (exn + unit) \<times> 's"
  os_remove :: "string \<Rightarrow> 's \<Rightarrow> (exn + unit) \<times> 's"
  api_request :: "request \<Rightarrow> 's \<Rightarrow> (exn + response) \<times> 's"

type_synonym ('a, 's) io = "'s world \<Rightarrow> (exn + 'a) \<times> 's world"

definition ret :: "'a \<Rightarrow> ('a, 's) io" where
  "ret x w = (Inr x, w)"

definition raise :: "exn \<Rightarrow> ('a, 's) io" where
  "raise e w = (Inl e, w)"

definition lift :: "exn + 'a \<Rightarrow> ('a, 's) io" where
  "lift r w = (r, w)"

definition io_bind :: "('a, 's) io \<Rightarrow> ('a \<Rightarrow> ('b, 's) io) \<Rightarrow> ('b, 's) io" where
  "io_bind m f w = (case m w of (Inl e, w') \<Rightarrow> (Inl e, w') | (Inr x, w') \<Rightarrow> f x w')"

text \<open>\<^verbatim>\<open>try: m  except Exception as e: h(e)\<close>\<close>

definition try_except :: "('a, 's) io \<Rightarrow> (exn \<Rightarrow> ('a, 's) io) \<Rightarrow> ('a, 's) io" where
  "try_except m h w = (case m w of (Inl e, w') \<Rightarrow> h e w' | (Inr x, w') \<Rightarrow> (Inr x, w'))"

text \<open>A call of a collaborator that only touches the outside state.\<close>

definition external :: "('s \<Rightarrow> (exn + 'a) \<times> 's) \<Rightarrow> ('a, 's) io" where
  "external f w = (case f (ext w) of (r, s') \<Rightarrow> (r, w\<lparr>ext := s'\<rparr>))"

definition exists :: "'s env \<Rightarrow> string \<Rightarrow> (bool, 's) io" where
  "exists env path w = (Inr (path_exists env path (ext w)), w)"

definition do_upload :: "'s env \<Rightarrow> string \<Rightarrow> (url, 's) io" where
  "do_upload env path w =
     (case upload_image env path (ext w) of
        (r, s') \<Rightarrow> (r, w\<lparr>ext := s', trace := trace w @ [Upload path r]\<rparr>))"

definition do_upload_transparent :: "'s env \<Rightarrow> string \<Rightarrow> (url, 's) io" where
  "do_upload_transparent env path w =
     (case upload_image_with_transparency env path (ext w) of
        (r, s') \<Rightarrow> (r, w\<lparr>ext := s', trace := trace w @ [UploadTransparent path r]\<rparr>))"

definition api_call :: "'s env \<Rightarrow> request \<Rightarrow> (response, 's) io" where
  "api_call env req w =
     (case api_request env req (ext w) of
        (r, s') \<Rightarrow> (r, w\<lparr>ext := s', trace := trace w @ [Api req r]\<rparr>))"

text \<open>A list built by a loop whose body may raise: the first exception ends the loop.\<close>

fun collect :: "(exn + 'a) list \<Rightarrow> exn + 'a list" where
  "collect [] = Inr []"
| "collect (Inl e # rs) = Inl e"
| "collect (Inr x # rs) = (case collect rs of Inl e \<Rightarrow> Inl e | Inr xs \<Rightarrow> Inr (x # xs))"


section \<open>Placement catalogs\<close>

subsection \<open>\<^verbatim>\<open>config/placements.py\<close> and \<^verbatim>\<open>config/products.py\<close> (clean builder)\<close>

text \<open>Relative position values, as the module writes them.\<close>

definition HAT_PLACEMENTS :: "(string \<times> position_box) list" where
  "HAT_PLACEMENTS =
    [(''embroidery_front'',
      \<lparr>area_width = 12, area_height = 8, width = 5, height = 4, top = 2.5, left = 1.5,
      limit_to_print_area = True\<rparr>),
     (''embroidery_left'',
      \<lparr>area_width = 8, area_height = 6, width = 3, height = 2.5, top = 1.5, left = 2.5,
      limit_to_print_area = True\<rparr>),
     (''embroidery_right'',
      \<lparr>area_width = 8, area_height = 6, width = 3, height = 2.5, top = 1.5, left = 2.5,
      limit_to_print_area = True\<rparr>)]"

text \<open>Sleeve and wrist positions.\<close>

definition SLEEVE_PLACEMENTS :: "(string \<times> position_box) list" where
  "SLEEVE_PLACEMENTS =
    [(''embroidery_sleeve_left_top'',
      \<lparr>area_width = 10, area_height = 15, width = 3, height = 3, top = 9.5, left = 3.5,
      limit_to_print_area = False\<rparr>),
     (''embroidery_sleeve_right_top'',
      \<lparr>area_width = 10, area_height = 15, width = 3, height = 3, top = 9.5, left = 3.5,
      limit_to_print_area = False\<rparr>),
     (''embroidery_wrist_left'',
      \<lparr>area_width = 8, area_height = 12, width = 2.4, height = 2.4, top = 7.6, left = 2.8,
      limit_to_print_area = False\<rparr>),
     (''embroidery_wrist_right'',
      \<lparr>area_width = 8, area_height = 12, width = 2.4, height = 2.4, top = 7.6, left = 2.8,
      limit_to_print_area = False\<rparr>)]"

text \<open>Chest positions.\<close>

definition CHEST_PLACEMENTS :: "(string \<times> position_box) list" where
  "CHEST_PLACEMENTS =
    [(''embroidery_chest_left'',
      \<lparr>area_width = 18, area_height = 24, width = 2, height = 2, top = 3, left = 4,
      limit_to_print_area = True\<rparr>),
     (''embroidery_chest_right'',
      \<lparr>area_width = 18, area_height = 24, width = 4, height = 4, top = 3, left = 10,
      limit_to_print_area = True\<rparr>),
     (''embroidery_chest_center'',
      \<lparr>area_width = 18, area_height = 24, width = 5, height = 5, top = 4, left = 6.5,
      limit_to_print_area = True\<rparr>)]"

text \<open>\<^verbatim>\<open>ALL_PLACEMENTS = {**HAT_PLACEMENTS, **SLEEVE_PLACEMENTS, **CHEST_PLACEMENTS}\<close>; the keys are disjoint.\<close>

definition ALL_PLACEMENTS :: "(string \<times> position_box) list" where
  "ALL_PLACEMENTS = HAT_PLACEMENTS @ SLEEVE_PLACEMENTS @ CHEST_PLACEMENTS"

definition get_placement_config :: "string \<Rightarrow> position_box option" where
  "get_placement_config placement_type = map_of ALL_PLACEMENTS placement_type"

text \<open>
  \<^verbatim>\<open>apply_position\<close>, read by value: \<^verbatim>\<open>if position: file_config["position"] = position.copy()\<close>.
  Every catalog dictionary has seven keys, so it is true as a condition.
\<close>

definition apply_position :: "string \<Rightarrow> file_config \<Rightarrow> file_config" where
  "apply_position placement_type file_config =
     (case get_placement_config placement_type of
        Some position \<Rightarrow> file_config\<lparr>fc_position := Some position\<rparr>
      | None \<Rightarrow> file_config)"

text \<open>Product key, display name and placements (the \<^verbatim>\<open>category\<close> field is not read by the builder).\<close>

definition PRODUCTS :: "(string \<times> string \<times> placement list) list" where
  "PRODUCTS =
    [(''gildan_5000'', ''Gildan 5000 - T-shirt'',
       [\<lparr>ptype = ''embroidery_chest_left'', description = ''Ricamo petto sinistro'', design_type = ''embroidery'', order = Some 1\<rparr>,
        \<lparr>ptype = ''embroidery_sleeve_left_top'', description = ''Ricamo manica sinistra'', design_type = ''embroidery'', order = Some 2\<rparr>,
        \<lparr>ptype = ''back'', description = ''Stampa DTG retro'', design_type = ''dtg'', order = Some 3\<rparr>]),
     (''gildan_18000'', ''Gildan 18000 - Felpa'',
       [\<lparr>ptype = ''embroidery_chest_left'', description = ''Ricamo petto sinistro'', design_type = ''embroidery'', order = Some 1\<rparr>,
        \<lparr>ptype = ''embroidery_wrist_left'', description = ''Ricamo polso sinistro'', design_type = ''embroidery'', order = Some 2\<rparr>,
        \<lparr>ptype = ''back'', description = ''Stampa DTG retro'', design_type = ''dtg'', order = Some 3\<rparr>]),
     (''gildan_18500'', ''Gildan 18500 - Felpa con Cappuccio'',
       [\<lparr>ptype = ''embroidery_chest_left'', description = ''Ricamo petto sinistro'', design_type = ''embroidery'', order = Some 1\<rparr>,
        \<lparr>ptype = ''embroidery_wrist_left'', description = ''Ricamo polso sinistro'', design_type = ''embroidery'', order = Some 2\<rparr>,
        \<lparr>ptype = ''back'', description = ''Stampa DTG retro'', design_type = ''dtg'', order = Some 3\<rparr>]),
     (''as_colour_1120'', ''AS Colour 1120 - Beanie'',
       [\<lparr>ptype = ''embroidery_front'', description = ''Ricamo frontale'', design_type = ''embroidery'', order = Some 1\<rparr>]),
     (''yupoong_6089m'', ''Yupoong 6089M - Cappello'',
       [\<lparr>ptype = ''embroidery_front'', description = ''Ricamo frontale'', design_type = ''embroidery'', order = Some 1\<rparr>,
        \<lparr>ptype = ''embroidery_left'', description = ''Ricamo lato sinistro'', design_type = ''embroidery'', order = Some 2\<rparr>])]"

definition get_product :: "string \<Rightarrow> exn + string \<times> placement list" where
  "get_product product_type =
     (case map_of PRODUCTS product_type of
        None \<Rightarrow> Inl (ValueError product_type)
      | Some p \<Rightarrow> Inr p)"

definition get_product_name :: "string \<Rightarrow> exn + string" where
  "get_product_name product_type = map_sum id fst (get_product product_type)"

definition get_product_placements :: "string \<Rightarrow> exn + placement list" where
  "get_product_placements product_type = map_sum id snd (get_product product_type)"

subsection \<open>\<^verbatim>\<open>placement_config.py\<close> (modular builder)\<close>

text \<open>Sleeve and wrist offsets.\<close>

definition UNIVERSAL_SLEEVE_OFFSET :: "(string \<times> position_box) list" where
  "UNIVERSAL_SLEEVE_OFFSET =
    [(''embroidery_sleeve_left_top'',
      \<lparr>area_width = 10, area_height = 15, width = 3, height = 3, top = 9.5, left = 3.5,
      limit_to_print_area = False\<rparr>),
     (''embroidery_sleeve_right_top'',
      \<lparr>area_width = 10, area_height = 15, width = 3, height = 3, top = 9.5, left = 3.5,
      limit_to_print_area = False\<rparr>),
     (''embroidery_wrist_left'',
      \<lparr>area_width = 8, area_height = 12, width = 2.4, height = 2.4, top = 7.6, left = 2.8,
      limit_to_print_area = False\<rparr>),
     (''embroidery_wrist_right'',
      \<lparr>area_width = 8, area_height = 12, width = 2.4, height = 2.4, top = 7.6, left = 2.8,
      limit_to_print_area = False\<rparr>)]"

text \<open>Chest offsets.\<close>

definition UNIVERSAL_CHEST_OFFSET :: "(string \<times> position_box) list" where
  "UNIVERSAL_CHEST_OFFSET =
    [(''embroidery_chest_left'',
      \<lparr>area_width = 18, area_height = 24, width = 2, height = 2, top = 3, left = 4,
      limit_to_print_area = True\<rparr>),
     (''embroidery_chest_right'',
      \<lparr>area_width = 18, area_height = 24, width = 4, height = 4, top = 3, left = 10,
      limit_to_print_area = True\<rparr>),
     (''embroidery_chest_center'',
      \<lparr>area_width = 18, area_height = 24, width = 5, height = 5, top = 4, left = 6.5,
      limit_to_print_area = True\<rparr>)]"

text \<open>Product key, display name and placements; these entries have no \<^verbatim>\<open>order\<close> key.\<close>

definition PRODUCT_PLACEMENTS :: "(string \<times> string \<times> placement list) list" where
  "PRODUCT_PLACEMENTS =
    [(''gildan_5000'', ''Gildan 5000 - T-shirt'',
       [\<lparr>ptype = ''embroidery_chest_left'', description = ''Ricamo petto sinistro'', design_type = ''embroidery'', order = None\<rparr>,
        \<lparr>ptype = ''embroidery_sleeve_left_top'', description = ''Ricamo manica sinistra'', design_type = ''embroidery'', order = None\<rparr>,
        \<lparr>ptype = ''back'', description = ''Stampa DTG retro'', design_type = ''dtg'', order = None\<rparr>]),
     (''gildan_18000'', ''Gildan 18000 - Felpa'',
       [\<lparr>ptype = ''embroidery_chest_left'', description = ''Ricamo petto sinistro'', design_type = ''embroidery'', order = None\<rparr>,
        \<lparr>ptype = ''embroidery_wrist_left'', description = ''Ricamo polso sinistro'', design_type = ''embroidery'', order = None\<rparr>,
        \<lparr>ptype = ''back'', description = ''Stampa DTG retro'', design_type = ''dtg'', order = None\<rparr>]),
     (''gildan_18500'', ''Gildan 18500 - Felpa con Cappuccio'',
       [\<lparr>ptype = ''embroidery_chest_left'', description = ''Ricamo petto sinistro'', design_type = ''embroidery'', order = None\<rparr>,
        \<lparr>ptype = ''embroidery_wrist_left'', description = ''Ricamo polso sinistro'', design_type = ''embroidery'', order = None\<rparr>,
        \<lparr>ptype = ''back'', description = ''Stampa DTG retro'', design_type = ''dtg'', order = None\<rparr>]),
     (''as_colour_1120'', ''AS Colour 1120 - T-shirt'',
       [\<lparr>ptype = ''embroidery_chest_left'', description = ''Ricamo petto sinistro'', design_type = ''embroidery'', order = None\<rparr>,
        \<lparr>ptype = ''embroidery_sleeve_left_top'', description = ''Ricamo manica sinistra'', design_type = ''embroidery'', order = None\<rparr>,
        \<lparr>ptype = ''back'', description = ''Stampa DTG retro'', design_type = ''dtg'', order = None\<rparr>]),
     (''yupoong_6089m'', ''Yupoong 6089M - Cappello'',
       [\<lparr>ptype = ''embroidery_front'', description = ''Ricamo frontale'', design_type = ''embroidery'', order = None\<rparr>,
        \<lparr>ptype = ''embroidery_left'', description = ''Ricamo lato sinistro'', design_type = ''embroidery'', order = None\<rparr>])]"

definition get_product_placements_m :: "string \<Rightarrow> exn + placement list" where
  "get_product_placements_m product_type =
     (case map_of PRODUCT_PLACEMENTS product_type of
        None \<Rightarrow> Inl (ValueError product_type)
      | Some p \<Rightarrow> Inr (snd p))"

text \<open>\<^verbatim>\<open>apply_universal_positioning\<close>, read by value.\<close>

definition apply_universal_positioning :: "string \<Rightarrow> file_config \<Rightarrow> file_config" where
  "apply_universal_positioning placement_type file_config =
     (case map_of UNIVERSAL_SLEEVE_OFFSET placement_type of
        Some position_config \<Rightarrow> file_config\<lparr>fc_position := Some position_config\<rparr>
      | None \<Rightarrow>
          (case map_of UNIVERSAL_CHEST_OFFSET placement_type of
             Some position_config \<Rightarrow> file_config\<lparr>fc_position := Some position_config\<rparr>
           | None \<Rightarrow> file_config))"

section \<open>Placement resolution\<close>

text \<open>The base dictionary of a slot and its embroidery option.\<close>

definition base_file_config :: "placement \<Rightarrow> url \<Rightarrow> file_config" where
  "base_file_config placement u =
     \<lparr>fc_type = ptype placement, fc_url = u,
      fc_options = (if design_type placement = ''embroidery'' then Some [AutoThreadColor] else None),
      fc_position = None\<rparr>"

subsection \<open>\<^verbatim>\<open>create_variant_files_config\<close> (modular builder)\<close>

text \<open>The URL chosen for slot \<open>i\<close>, or \<open>None\<close> when the loop body runs \<^verbatim>\<open>continue\<close>.\<close>

definition slot_url :: "nat \<Rightarrow> placement \<Rightarrow> url \<Rightarrow> url option \<Rightarrow> url option \<Rightarrow> url option" where
  "slot_url i placement d logo upscaled =
     (if i = 0 then Some d
      else if i = 1 \<and> truthy logo then logo
      else if ptype placement = ''back'' \<and> truthy upscaled then upscaled
      else None)"

definition variant_file_for :: "url \<Rightarrow> url option \<Rightarrow> url option \<Rightarrow> nat \<times> placement \<Rightarrow> file_config option" where
  "variant_file_for d logo upscaled ip =
     (case slot_url (fst ip) (snd ip) d logo upscaled of
        None \<Rightarrow> None
      | Some u \<Rightarrow> Some (apply_universal_positioning (ptype (snd ip)) (base_file_config (snd ip) u)))"

definition variant_files_of :: "placement list \<Rightarrow> url \<Rightarrow> url option \<Rightarrow> url option \<Rightarrow> file_config list" where
  "variant_files_of placements d logo upscaled =
     List.map_filter (variant_file_for d logo upscaled) (List.enumerate 0 placements)"

definition create_variant_files_config ::
  "string \<Rightarrow> url \<Rightarrow> url option \<Rightarrow> url option \<Rightarrow> exn + file_config list" where
  "create_variant_files_config product_type d logo upscaled =
     (case get_product_placements_m product_type of
        Inl e \<Rightarrow> Inl e
      | Inr placements \<Rightarrow> Inr (variant_files_of placements d logo upscaled))"

subsection \<open>\<^verbatim>\<open>ProductBuilder._build_files_config\<close> (clean builder)\<close>

text \<open>\<^verbatim>\<open>a or b\<close> on optional strings.\<close>

definition py_or :: "string option \<Rightarrow> string option \<Rightarrow> string option" where
  "py_or a b = (if truthy a then a else b)"

definition clean_slot_url :: "string \<Rightarrow> urls \<Rightarrow> nat \<Rightarrow> placement \<Rightarrow> url option" where
  "clean_slot_url product_type us i placement =
     (if product_type = ''yupoong_6089m'' then
        (if ptype placement = ''embroidery_front'' then Some (design_url us)
         else if ptype placement = ''embroidery_left'' then
           (let u = py_or (logo_black_url us) (logo_url us) in if \<not> truthy u then None else u)
         else None)
      else if product_type = ''as_colour_1120'' then
        (if ptype placement = ''embroidery_front'' then Some (design_url us) else None)
      else
        (if i = 0 then Some (design_url us)
         else if i = 1 \<and> truthy (logo_url us) then logo_url us
         else if ptype placement = ''back'' \<and> truthy (upscaled_url us) then upscaled_url us
         else None))"

definition clean_file_for :: "string \<Rightarrow> urls \<Rightarrow> nat \<times> placement \<Rightarrow> file_config option" where
  "clean_file_for product_type us ip =
     (case clean_slot_url product_type us (fst ip) (snd ip) of
        None \<Rightarrow> None
      | Some u \<Rightarrow> Some (apply_position (ptype (snd ip)) (base_file_config (snd ip) u)))"

definition files_of :: "string \<Rightarrow> urls \<Rightarrow> placement list \<Rightarrow> file_config list" where
  "files_of product_type us placements =
     List.map_filter (clean_file_for product_type us) (List.enumerate 0 placements)"

definition build_files_config :: "string \<Rightarrow> urls \<Rightarrow> exn + file_config list" where
  "build_files_config product_type us =
     (case get_product_placements product_type of
        Inl e \<Rightarrow> Inl e
      | Inr placements \<Rightarrow> Inr (files_of product_type us placements))"


section \<open>Modular builder: \<^verbatim>\<open>modules/product_creator/product_builder.py\<close>\<close>

text \<open>
  \<^verbatim>\<open>_prepare_product_urls\<close>: the primary upload is mandatory; a failed logo or upscaled
  upload is only printed.
\<close>

definition optional_upload :: "'s env \<Rightarrow> ('s env \<Rightarrow> string \<Rightarrow> (url, 's) io) \<Rightarrow> string \<Rightarrow> (url option, 's) io" where
  "optional_upload env up path =
     io_bind (exists env path) (\<lambda>present.
       if present
       then try_except (io_bind (up env path) (\<lambda>u. ret (Some u))) (\<lambda>e. ret None)
       else ret None)"

definition prepare_product_urls :: "'s env \<Rightarrow> string \<Rightarrow> (urls, 's) io" where
  "prepare_product_urls env design_file =
     io_bind (try_except (do_upload env design_file) (\<lambda>e. raise (UploadDesignFailed e))) (\<lambda>d.
     io_bind (optional_upload env do_upload ''generate/universal_logo.png'') (\<lambda>logo.
     io_bind (optional_upload env do_upload_transparent
                (''upscaled/'' @ design_name_of design_file @ ''.png'')) (\<lambda>upscaled.
     ret \<lparr>design_url = d, logo_url = logo, upscaled_url = upscaled, logo_black_url = None\<rparr>)))"

text \<open>\<^verbatim>\<open>_create_variant_payload\<close>\<close>

definition create_variant_payload :: "variant \<Rightarrow> string \<Rightarrow> urls \<Rightarrow> exn + payload_variant" where
  "create_variant_payload v product_type us =
     (case create_variant_files_config product_type (design_url us) (logo_url us) (upscaled_url us) of
        Inl e \<Rightarrow> Inl e
      | Inr files_config \<Rightarrow> Inr (NewVariant (Fmt2 (price v)) (variant_id v) files_config))"

text \<open>\<^verbatim>\<open>_create_initial_product\<close>\<close>

definition create_initial_product ::
  "'s env \<Rightarrow> string \<Rightarrow> url \<Rightarrow> variant list \<Rightarrow> string \<Rightarrow> urls \<Rightarrow> (response, 's) io" where
  "create_initial_product env product_name d initial_variants product_type us =
     io_bind (lift (collect (map (\<lambda>v. create_variant_payload v product_type us) initial_variants)))
       (\<lambda>sync_variants.
     io_bind (api_call env (POST StoreProducts
                \<lparr>pl_name = product_name, pl_thumbnail = d, pl_sync_variants = sync_variants\<rparr>))
       (\<lambda>response.
     if \<not> code_ok response then raise (CreationFailed response) else ret response))"

text \<open>\<^verbatim>\<open>info["result"].get("sync_variants", [])\<close>\<close>

definition result_sync_variants :: "response \<Rightarrow> exn + remote_variant list" where
  "result_sync_variants info =
     (case result info of
        None \<Rightarrow> Inl (KeyError ''result'')
      | Some r \<Rightarrow> Inr (case res_sync_variants r of None \<Rightarrow> [] | Some vs \<Rightarrow> vs))"

text \<open>
  The loop of \<^verbatim>\<open>_add_remaining_variants_batch\<close> over the batch numbers still to run, with
  \<^verbatim>\<open>current_variants\<close> as its loop variable.
\<close>

fun append_loop ::
  "'s env \<Rightarrow> int \<Rightarrow> variant list \<Rightarrow> string \<Rightarrow> urls \<Rightarrow> string \<Rightarrow> url \<Rightarrow> nat list \<Rightarrow>
   remote_variant list \<Rightarrow> (remote_variant list, 's) io" where
  "append_loop env product_id remaining product_type us product_name d [] current_variants =
     ret current_variants"
| "append_loop env product_id remaining product_type us product_name d (batch_num # rest) current_variants =
     io_bind (lift (collect (map (\<lambda>v. create_variant_payload v product_type us)
                              (modular_batch remaining batch_num))))
       (\<lambda>batch_sync_variants.
     let existing_refs = map (\<lambda>v. ExistingRef (rv_id v)) current_variants;
         combined_variants = existing_refs @ batch_sync_variants;
         update_data = \<lparr>pl_name = product_name, pl_thumbnail = d,
                        pl_sync_variants = combined_variants\<rparr>
     in
     io_bind (api_call env (PUT (StoreProduct product_id) update_data)) (\<lambda>batch_response.
     if \<not> code_ok batch_response
     then append_loop env product_id remaining product_type us product_name d rest current_variants
     else
       io_bind (api_call env (GET (StoreProduct product_id))) (\<lambda>updated_info.
       if code_ok updated_info
       then io_bind (lift (result_sync_variants updated_info)) (\<lambda>vs.
              append_loop env product_id remaining product_type us product_name d rest vs)
       else append_loop env product_id remaining product_type us product_name d rest
              current_variants)))"

definition add_remaining_variants_batch ::
  "'s env \<Rightarrow> int \<Rightarrow> variant list \<Rightarrow> string \<Rightarrow> urls \<Rightarrow> string \<Rightarrow> url \<Rightarrow>
   (remote_variant list, 's) io" where
  "add_remaining_variants_batch env product_id remaining_variants product_type us product_name d =
     (if remaining_variants = [] then ret []
      else
        io_bind (api_call env (GET (StoreProduct product_id))) (\<lambda>current_info.
        if \<not> code_ok current_info then raise (FetchFailed current_info)
        else
          io_bind (lift (result_sync_variants current_info)) (\<lambda>current_variants.
          append_loop env product_id remaining_variants product_type us product_name d
            [0 ..< total_batches remaining_variants] current_variants)))"

text \<open>The dictionary \<^verbatim>\<open>build_single_product\<close> returns.\<close>

datatype failure =
    NotCompatible exn
  | FinalStateError response
  | Uncaught exn

datatype build_result =
    BuildSucceeded (product_id: int) (sync_variants: "remote_variant list")
      (total_variants_requested: nat) (total_variants_created: nat)
  | BuildFailed (error: failure)

fun success :: "build_result \<Rightarrow> bool" where
  "success (BuildSucceeded pid vs requested created) = True"
| "success (BuildFailed e) = False"

text \<open>
  \<^verbatim>\<open>validate_product_compatibility(product_type, has_logo=True, has_dtg=True)\<close>: with both
  flags set no warning is computed, and the outcome is whether the product is configured.
\<close>

definition validate_product_compatibility :: "string \<Rightarrow> exn option" where
  "validate_product_compatibility product_type =
     (case get_product_placements_m product_type of Inl e \<Rightarrow> Some e | Inr ps \<Rightarrow> None)"

text \<open>\<^verbatim>\<open>creation_response["result"]["sync_product"]["id"]\<close>\<close>

definition created_product_id :: "response \<Rightarrow> exn + int" where
  "created_product_id creation_response =
     (case result creation_response of
        None \<Rightarrow> Inl (KeyError ''result'')
      | Some r \<Rightarrow>
          (case res_sync_product r of
             None \<Rightarrow> Inl (KeyError ''sync_product'')
           | Some sp \<Rightarrow> (case sp_id sp of None \<Rightarrow> Inl (KeyError ''id'') | Some i \<Rightarrow> Inr i)))"

text \<open>The body of the \<^verbatim>\<open>try\<close> block of \<^verbatim>\<open>build_single_product\<close>.\<close>

definition build_single_product_body :: "'s env \<Rightarrow> string \<Rightarrow> string \<Rightarrow> (build_result, 's) io" where
  "build_single_product_body env design_file product_type =
     (let design_name = design_name_of design_file in
      io_bind (external (load_product_variants env product_type)) (\<lambda>variants.
      io_bind (\<lambda>w. ret (get_product_info_name env product_type (ext w)) w) (\<lambda>product_info.
      case validate_product_compatibility product_type of
        Some e \<Rightarrow> ret (BuildFailed (NotCompatible e))
      | None \<Rightarrow>
          io_bind (prepare_product_urls env design_file) (\<lambda>us.
          let initial_variants = modular_initial_variants variants;
              remaining_variants = modular_remaining_variants variants
          in
          io_bind (lift (case product_info of
                           None \<Rightarrow> Inl (TypeError ''product_info'')
                         | Some name \<Rightarrow> Inr (design_name @ '' - '' @ name))) (\<lambda>product_name.
          io_bind (create_initial_product env product_name (design_url us) initial_variants
                     product_type us) (\<lambda>creation_response.
          io_bind (lift (created_product_id creation_response)) (\<lambda>pid.
          io_bind (if remaining_variants \<noteq> []
                   then add_remaining_variants_batch env pid remaining_variants product_type us
                          product_name (design_url us)
                   else ret []) (\<lambda>batch_variants.
          io_bind (api_call env (GET (StoreProduct pid))) (\<lambda>final_info.
          if \<not> code_ok final_info then ret (BuildFailed (FinalStateError final_info))
          else
            io_bind (lift (result_sync_variants final_info)) (\<lambda>vs.
            ret (BuildSucceeded pid vs (length variants) (length vs))))))))))))"

definition build_single_product :: "'s env \<Rightarrow> string \<Rightarrow> string \<Rightarrow> 's world \<Rightarrow> build_result \<times> 's world" where
  "build_single_product env design_file product_type w =
     (case build_single_product_body env design_file product_type w of
        (Inl e, w') \<Rightarrow> (BuildFailed (Uncaught e), w')
      | (Inr r, w') \<Rightarrow> (r, w'))"


section \<open>Clean builder: \<^verbatim>\<open>core/file_manager.py\<close> and \<^verbatim>\<open>core/product_builder.py\<close>\<close>

text \<open>\<^verbatim>\<open>FileManager._upload_with_cache\<close>\<close>

definition upload_with_cache :: "'s env \<Rightarrow> string \<Rightarrow> (url, 's) io" where
  "upload_with_cache env file_path w =
     (case cache w file_path of
        Some u \<Rightarrow> (Inr u, w)
      | None \<Rightarrow>
          io_bind (do_upload env file_path)
            (\<lambda>u w'. (Inr u, w'\<lparr>cache := (cache w')(file_path \<mapsto> u)\<rparr>)) w)"

text \<open>\<^verbatim>\<open>FileManager.clear_cache\<close>\<close>

definition clear_cache :: "'s world \<Rightarrow> 's world" where
  "clear_cache w = w\<lparr>cache := Map.empty\<rparr>"

text \<open>An optional asset of \<^verbatim>\<open>FileManager.prepare_urls\<close>: uploaded when the file exists.\<close>

definition cached_if_exists :: "'s env \<Rightarrow> string \<Rightarrow> (url option, 's) io" where
  "cached_if_exists env path =
     io_bind (exists env path) (\<lambda>present.
       if present then io_bind (upload_with_cache env path) (\<lambda>u. ret (Some u)) else ret None)"

text \<open>\<^verbatim>\<open>FileManager.prepare_urls\<close>\<close>

definition prepare_urls :: "'s env \<Rightarrow> string \<Rightarrow> (urls, 's) io" where
  "prepare_urls env design_file =
     io_bind (upload_with_cache env design_file) (\<lambda>d.
     io_bind (cached_if_exists env ''generate/universal_logo.png'') (\<lambda>logo.
     io_bind (cached_if_exists env (''upscaled/'' @ design_name_of design_file @ ''.png''))
       (\<lambda>upscaled.
     ret \<lparr>design_url = d, logo_url = logo, upscaled_url = upscaled, logo_black_url = None\<rparr>)))"

text \<open>
  \<^verbatim>\<open>ProductBuilder._prepare_urls_for_product\<close>. In the Yupoong branch the \<^verbatim>\<open>try\<close> block
  swallows every exception, and \<^verbatim>\<open>urls["design_url"]\<close> keeps the new URL when only the
  final \<^verbatim>\<open>os.remove\<close> fails. In the beanie branch the exception is raised again.
\<close>

definition prepare_urls_for_product :: "'s env \<Rightarrow> string \<Rightarrow> string \<Rightarrow> (urls, 's) io" where
  "prepare_urls_for_product env design_file product_type =
     io_bind (prepare_urls env design_file) (\<lambda>us.
     let design_name = design_name_of design_file in
     if product_type = ''yupoong_6089m'' then
       (let hat_optimized_path = ''ricami/'' @ design_name @ ''.png'' in
        io_bind (exists env hat_optimized_path) (\<lambda>optimized.
        let source_file = (if optimized then hat_optimized_path else design_file) in
        io_bind (try_except
                   (io_bind (external (create_left_aligned_image env source_file))
                      (\<lambda>left_aligned_path.
                    io_bind (upload_with_cache env left_aligned_path) (\<lambda>u.
                    try_except
                      (io_bind (external (os_remove env left_aligned_path))
                         (\<lambda>done. ret (us\<lparr>design_url := u\<rparr>)))
                      (\<lambda>e. ret (us\<lparr>design_url := u\<rparr>)))))
                   (\<lambda>e. ret us)) (\<lambda>us1.
        io_bind (exists env ''generate/logo_black.png'') (\<lambda>has_black.
        if has_black
        then io_bind (upload_with_cache env ''generate/logo_black.png'')
               (\<lambda>u. ret (us1\<lparr>logo_black_url := Some u\<rparr>))
        else ret us1))))
     else if product_type = ''as_colour_1120'' then
       (let ricami_path = ''ricami/'' @ design_name @ ''.png'' in
        io_bind (exists env ricami_path) (\<lambda>present.
        if \<not> present then raise (BeanieAssetMissing ricami_path)
        else
          (let temp_path = ''ricami/'' @ design_name @ ''_beanie_scaled.png'' in
           io_bind (external (scale_and_save env ricami_path temp_path)) (\<lambda>saved.
           io_bind (upload_with_cache env temp_path) (\<lambda>u.
           io_bind (external (os_remove env temp_path)) (\<lambda>done.
           ret (us\<lparr>design_url := u\<rparr>)))))))
     else ret us)"

text \<open>\<^verbatim>\<open>ProductBuilder._build_variants_payload\<close>\<close>

definition build_variants_payload :: "string \<Rightarrow> variant list \<Rightarrow> urls \<Rightarrow> exn + payload_variant list" where
  "build_variants_payload product_type variants us =
     collect (map (\<lambda>v. case build_files_config product_type us of
                          Inl e \<Rightarrow> Inl e
                        | Inr files_config \<Rightarrow>
                            Inr (NewVariant (Fmt2 (price v)) (variant_id v) files_config))
                  variants)"

text \<open>\<^verbatim>\<open>[{"id": v["id"]} for v in current["result"]["sync_variants"]]\<close>\<close>

definition existing_ids :: "response \<Rightarrow> exn + payload_variant list" where
  "existing_ids current =
     (case result current of
        None \<Rightarrow> Inl (KeyError ''result'')
      | Some r \<Rightarrow>
          (case res_sync_variants r of
             None \<Rightarrow> Inl (KeyError ''sync_variants'')
           | Some vs \<Rightarrow>
               collect (map (\<lambda>v. case rv_id v of
                                    None \<Rightarrow> Inl (KeyError ''id'')
                                  | Some i \<Rightarrow> Inr (ExistingRef (Some i))) vs)))"

text \<open>\<^verbatim>\<open>ProductBuilder._add_variants_batch\<close>: the reply of the update is not looked at.\<close>

definition add_variants_batch ::
  "'s env \<Rightarrow> int \<Rightarrow> string \<Rightarrow> string \<Rightarrow> variant list \<Rightarrow> urls \<Rightarrow> (unit, 's) io" where
  "add_variants_batch env pid product_name product_type batch us =
     io_bind (api_call env (GET (StoreProduct pid))) (\<lambda>current.
     io_bind (lift (existing_ids current)) (\<lambda>existing.
     io_bind (lift (build_variants_payload product_type batch us)) (\<lambda>new_variants.
     io_bind (api_call env (PUT (StoreProduct pid)
                \<lparr>pl_name = product_name, pl_thumbnail = design_url us,
                 pl_sync_variants = existing @ new_variants\<rparr>)) (\<lambda>reply.
     ret ()))))"

text \<open>The \<^verbatim>\<open>for\<close> loop of phase 2 of \<^verbatim>\<open>_create_product\<close>, over the start indices still to run.\<close>

fun add_batches ::
  "'s env \<Rightarrow> int \<Rightarrow> string \<Rightarrow> string \<Rightarrow> variant list \<Rightarrow> urls \<Rightarrow> nat list \<Rightarrow> (unit, 's) io" where
  "add_batches env pid product_name product_type remaining us [] = ret ()"
| "add_batches env pid product_name product_type remaining us (i # rest) =
     io_bind (add_variants_batch env pid product_name product_type (clean_batch remaining i) us)
       (\<lambda>done. add_batches env pid product_name product_type remaining us rest)"

text \<open>\<^verbatim>\<open>response["result"]["id"]\<close>\<close>

definition response_result_id :: "response \<Rightarrow> exn + int" where
  "response_result_id r =
     (case result r of
        None \<Rightarrow> Inl (KeyError ''result'')
      | Some res \<Rightarrow> (case res_id res of None \<Rightarrow> Inl (KeyError ''id'') | Some i \<Rightarrow> Inr i))"

text \<open>\<^verbatim>\<open>ProductBuilder._create_product\<close>\<close>

definition create_product :: "'s env \<Rightarrow> string \<Rightarrow> string \<Rightarrow> variant list \<Rightarrow> urls \<Rightarrow> (int, 's) io" where
  "create_product env product_name product_type variants us =
     (let initial_batch = clean_initial_batch variants;
          remaining = clean_remaining variants
      in
      io_bind (lift (build_variants_payload product_type initial_batch us)) (\<lambda>initial_variants.
      io_bind (api_call env (POST StoreProducts
                 \<lparr>pl_name = product_name, pl_thumbnail = design_url us,
                  pl_sync_variants = initial_variants\<rparr>)) (\<lambda>response.
      if \<not> code_ok response then raise (CreationFailed response)
      else
        io_bind (lift (response_result_id response)) (\<lambda>pid.
        io_bind (add_batches env pid product_name product_type remaining us
                   (clean_batch_starts remaining)) (\<lambda>done.
        ret pid)))))"

text \<open>The dictionary \<^verbatim>\<open>ProductBuilder.build\<close> returns.\<close>

datatype clean_result =
    CleanSucceeded (cr_product_id: int) (variants_count: nat) (cr_result: api_result)
  | CleanFailed (cr_error: exn)

fun clean_success :: "clean_result \<Rightarrow> bool" where
  "clean_success (CleanSucceeded pid n r) = True"
| "clean_success (CleanFailed e) = False"

text \<open>\<^verbatim>\<open>len(final_product["result"]["sync_variants"])\<close> and \<^verbatim>\<open>final_product["result"]\<close>\<close>

definition final_count :: "response \<Rightarrow> exn + nat \<times> api_result" where
  "final_count final_product =
     (case result final_product of
        None \<Rightarrow> Inl (KeyError ''result'')
      | Some r \<Rightarrow>
          (case res_sync_variants r of
             None \<Rightarrow> Inl (KeyError ''sync_variants'')
           | Some vs \<Rightarrow> Inr (length vs, r)))"

text \<open>The body of the \<^verbatim>\<open>try\<close> block of \<^verbatim>\<open>ProductBuilder.build\<close>.\<close>

definition build_body :: "'s env \<Rightarrow> string \<Rightarrow> string \<Rightarrow> (clean_result, 's) io" where
  "build_body env design_file product_type =
     (let design_name = design_name_of design_file in
      io_bind (lift (get_product_name product_type)) (\<lambda>name.
      let product_name = design_name @ '' - '' @ name in
      io_bind (external (load_product_variants env product_type)) (\<lambda>variant_list.
      io_bind (prepare_urls_for_product env design_file product_type) (\<lambda>us.
      io_bind (create_product env product_name product_type variant_list us) (\<lambda>pid.
      io_bind (api_call env (GET (StoreProduct pid))) (\<lambda>final_product.
      io_bind (lift (final_count final_product)) (\<lambda>nr.
      ret (CleanSucceeded pid (fst nr) (snd nr)))))))))"

definition build :: "'s env \<Rightarrow> string \<Rightarrow> string \<Rightarrow> 's world \<Rightarrow> clean_result \<times> 's world" where
  "build env design_file product_type w =
     (case build_body env design_file product_type w of
        (Inl e, w') \<Rightarrow> (CleanFailed e, w')
      | (Inr r, w') \<Rightarrow> (r, w'))"


section \<open>Modular product creator: \<^verbatim>\<open>product_creator_modular.py\<close>\<close>

text \<open>
  \<^verbatim>\<open>ModularProductCreator._prepare_urls\<close>: the design upload is not guarded; a failed logo or
  upscaled upload is swallowed.
\<close>

definition prepare_urls_creator :: "'s env \<Rightarrow> string \<Rightarrow> (urls, 's) io" where
  "prepare_urls_creator env design_file =
     io_bind (do_upload env design_file) (\<lambda>d.
     io_bind (optional_upload env do_upload ''generate/universal_logo.png'') (\<lambda>logo.
     io_bind (optional_upload env do_upload_transparent
                (''upscaled/'' @ design_name_of design_file @ ''.png'')) (\<lambda>upscaled.
     ret \<lparr>design_url = d, logo_url = logo, upscaled_url = upscaled, logo_black_url = None\<rparr>)))"

text \<open>
  \<^verbatim>\<open>ModularProductCreator._create_initial_product\<close>: the reply is returned as it comes, its
  code is looked at by the caller.
\<close>

definition create_initial_product_creator ::
  "'s env \<Rightarrow> string \<Rightarrow> url \<Rightarrow> variant list \<Rightarrow> string \<Rightarrow> urls \<Rightarrow> (response, 's) io" where
  "create_initial_product_creator env product_name d variants product_type us =
     io_bind (lift (collect (map (\<lambda>v. create_variant_payload v product_type us) variants)))
       (\<lambda>sync_variants.
     api_call env (POST StoreProducts
       \<lparr>pl_name = product_name, pl_thumbnail = d, pl_sync_variants = sync_variants\<rparr>))"

text \<open>\<^verbatim>\<open>response.get("code") in [200, 201] and "result" in response\<close>\<close>

definition ok_with_result :: "response \<Rightarrow> bool" where
  "ok_with_result r = (code_ok r \<and> result r \<noteq> None)"

text \<open>
  \<^verbatim>\<open>creation_response["result"].get('id')\<close> as the condition \<^verbatim>\<open>if not product_id\<close> reads it:
  an absent key and the identifier 0 are both false.
\<close>

definition usable_result_id :: "response \<Rightarrow> int option" where
  "usable_result_id creation_response =
     (case result creation_response of
        None \<Rightarrow> None
      | Some created_product \<Rightarrow>
          (case res_id created_product of
             None \<Rightarrow> None
           | Some i \<Rightarrow> if i = 0 then None else Some i))"

text \<open>
  The loop of phase 2 of \<^verbatim>\<open>ModularProductCreator._build_single_product\<close> over the batch
  numbers still to run, with \<^verbatim>\<open>sync_variants_result\<close> as its loop variable: the list is
  replaced after an update and a read that both came back with a success code.
\<close>

fun append_loop_creator ::
  "'s env \<Rightarrow> int \<Rightarrow> variant list \<Rightarrow> string \<Rightarrow> urls \<Rightarrow> string \<Rightarrow> nat list \<Rightarrow>
   remote_variant list \<Rightarrow> (remote_variant list, 's) io" where
  "append_loop_creator env pid remaining product_type us product_name []
     sync_variants_result = ret sync_variants_result"
| "append_loop_creator env pid remaining product_type us product_name (batch_num # rest)
     sync_variants_result =
     io_bind (lift (collect (map (\<lambda>v. create_variant_payload v product_type us)
                              (modular_batch remaining batch_num))))
       (\<lambda>batch_sync_variants.
     let existing_variant_refs = map (\<lambda>existing. ExistingRef (rv_id existing)) sync_variants_result;
         combined_variants = existing_variant_refs @ batch_sync_variants;
         update_data = \<lparr>pl_name = product_name, pl_thumbnail = design_url us,
                        pl_sync_variants = combined_variants\<rparr>
     in
     io_bind (api_call env (PUT (StoreProduct pid) update_data)) (\<lambda>batch_response.
     if ok_with_result batch_response
     then
       io_bind (api_call env (GET (StoreProduct pid))) (\<lambda>updated_info_response.
       if code_ok updated_info_response
       then io_bind (lift (result_sync_variants updated_info_response)) (\<lambda>vs.
              append_loop_creator env pid remaining product_type us product_name rest vs)
       else append_loop_creator env pid remaining product_type us product_name rest
              sync_variants_result)
     else append_loop_creator env pid remaining product_type us product_name rest
            sync_variants_result))"

text \<open>The dictionary \<^verbatim>\<open>ModularProductCreator._build_single_product\<close> returns.\<close>

datatype creator_failure =
    CreationRejected response
  | ProductIdMissing response
  | ProductInfoFailed response
  | CreatorUncaught exn

datatype creator_result =
    CreatorSucceeded (mc_product_id: int) (mc_sync_variants: "remote_variant list")
      (mc_total_variants_requested: nat) (mc_total_variants_created: nat)
  | CreatorFailed (mc_error: creator_failure)

fun creator_success :: "creator_result \<Rightarrow> bool" where
  "creator_success (CreatorSucceeded pid vs requested created) = True"
| "creator_success (CreatorFailed e) = False"

text \<open>
  The last step of \<^verbatim>\<open>ModularProductCreator._build_single_product\<close>, the final read of
  the product and the two results built from it. When the read comes back with a success
  code, the result carries the variants of its reply; otherwise it is built from
  \<^verbatim>\<open>sync_variants_result\<close>, the list held in memory, and is a success all the same.
\<close>

definition final_state_creator ::
  "'s env \<Rightarrow> int \<Rightarrow> nat \<Rightarrow> remote_variant list \<Rightarrow> (creator_result, 's) io" where
  "final_state_creator env pid requested sync_variants_result =
     io_bind (api_call env (GET (StoreProduct pid))) (\<lambda>final_info_response.
     if code_ok final_info_response
     then io_bind (lift (result_sync_variants final_info_response))
            (\<lambda>final_sync_variants.
          ret (CreatorSucceeded pid final_sync_variants requested
                 (length final_sync_variants)))
     else ret (CreatorSucceeded pid sync_variants_result requested
                 (length sync_variants_result)))"

text \<open>
  The body of the \<^verbatim>\<open>try\<close> block of \<^verbatim>\<open>ModularProductCreator._build_single_product\<close>, up to
  that last step. The initial batch is \<^verbatim>\<open>variants[:8]\<close>.
\<close>

definition build_single_product_creator_body ::
  "'s env \<Rightarrow> string \<Rightarrow> string \<Rightarrow> (creator_result, 's) io" where
  "build_single_product_creator_body env design_file product_type =
     (let design_name = design_name_of design_file in
      io_bind (external (load_product_variants env product_type)) (\<lambda>variants.
      io_bind (\<lambda>w. ret (get_product_info_name env product_type (ext w)) w) (\<lambda>product_info.
      io_bind (prepare_urls_creator env design_file) (\<lambda>us.
      io_bind (lift (case product_info of
                       None \<Rightarrow> Inl (TypeError ''product_info'')
                     | Some name \<Rightarrow> Inr (design_name @ '' - '' @ name))) (\<lambda>product_name.
      let initial_variants = py_slice variants 0 8;
          remaining_variants = drop 8 variants
      in
      io_bind (create_initial_product_creator env product_name (design_url us) initial_variants
                 product_type us) (\<lambda>creation_response.
      if \<not> ok_with_result creation_response
      then ret (CreatorFailed (CreationRejected creation_response))
      else
        (case usable_result_id creation_response of
           None \<Rightarrow> ret (CreatorFailed (ProductIdMissing creation_response))
         | Some pid \<Rightarrow>
             io_bind (api_call env (GET (StoreProduct pid))) (\<lambda>product_info_response.
             if \<not> ok_with_result product_info_response
             then ret (CreatorFailed (ProductInfoFailed product_info_response))
             else
               io_bind (lift (result_sync_variants product_info_response)) (\<lambda>created_variants.
               io_bind (if remaining_variants \<noteq> []
                        then append_loop_creator env pid remaining_variants product_type
                               us product_name [0 ..< total_batches remaining_variants]
                               created_variants
                        else ret created_variants) (\<lambda>sync_variants_result.
               final_state_creator env pid (length variants) sync_variants_result))))))))))"

definition build_single_product_creator ::
  "'s env \<Rightarrow> string \<Rightarrow> string \<Rightarrow> 's world \<Rightarrow> creator_result \<times> 's world" where
  "build_single_product_creator env design_file product_type w =
     (case build_single_product_creator_body env design_file product_type w of
        (Inl e, w') \<Rightarrow> (CreatorFailed (CreatorUncaught e), w')
      | (Inr r, w') \<Rightarrow> (r, w'))"


section \<open>Vendor API gateways\<close>

text \<open>
  What one HTTP attempt can come to: a timeout, another \<^verbatim>\<open>requests\<close> exception, or a
  response with its status, its body when it parses as JSON, and the value of
  \<^verbatim>\<open>int(response.headers.get('Retry-After', 60))\<close>: the integer read from the header, 60
  when the header is absent, \<open>None\<close> when \<^verbatim>\<open>int()\<close> rejects the header. The transport gives
  the outcome of each attempt by its number.
\<close>

datatype 'j http_outcome =
    Timeout
  | RequestException string
  | HttpResponse (status: nat) (json: "'j option") (retry_after: "int option")

definition supported_method :: "string \<Rightarrow> bool" where
  "supported_method method = (method \<in> set [''GET'', ''POST'', ''PUT'', ''DELETE''])"

text \<open>
  \<^verbatim>\<open>time.sleep(secs)\<close> for an integer length: ValueError for a negative length, and
  OverflowError for a length whose nanoseconds do not fit the 64-bit clock of the
  interpreter.
\<close>

definition sleep_max :: int where
  "sleep_max = 9223372036"

definition time_sleep :: "int \<Rightarrow> exn + unit" where
  "time_sleep secs =
     (if secs < 0 then Inl (ValueError ''sleep length must be non-negative'')
      else if sleep_max < secs then Inl (OverflowError ''timestamp too large'')
      else Inr ())"

subsection \<open>\<^verbatim>\<open>modules/product_creator/api_client.py\<close>: \<^verbatim>\<open>make_request\<close>\<close>



subsection \<open>\<^verbatim>\<open>core/api_client.py\<close>: \<^verbatim>\<open>request\<close>\<close>

text \<open>
  A response with status 429 has its \<^verbatim>\<open>Retry-After\<close> header converted by \<^verbatim>\<open>int()\<close> at every
  attempt; before the last attempt the gateway then sleeps that many seconds and goes to
  the next attempt. \<^verbatim>\<open>response.raise_for_status()\<close> raises HTTPError, a
  \<^verbatim>\<open>RequestException\<close>, for a status from 400 to 599; the handlers of a timeout and of a
  request exception sleep \<^verbatim>\<open>2 ** attempt\<close> seconds before the next attempt. The ValueError
  of an unsupported method or of a header that \<^verbatim>\<open>int()\<close> rejects, and an exception raised
  by a sleep, have no handler. Whether the error of \<^verbatim>\<open>response.json()\<close> is a
  \<^verbatim>\<open>RequestException\<close> depends on the version of \<^verbatim>\<open>requests\<close>: the first argument says so.
\<close>

fun request_loop ::
  "bool \<Rightarrow> (nat \<Rightarrow> 'j http_outcome) \<Rightarrow> string \<Rightarrow> nat \<Rightarrow> nat list \<Rightarrow> nat \<Rightarrow> (exn + 'j) \<times> nat" where
  "request_loop json_error_caught transport method retries [] sent =
     (Inl (Raised ''Tutti i tentativi falliti''), sent)"
| "request_loop json_error_caught transport method retries (attempt # rest) sent =
     (if \<not> supported_method method then (Inl (ValueError ''Metodo HTTP non supportato''), sent)
      else
        (case transport attempt of
           Timeout \<Rightarrow>
             if attempt < retries - 1
             then (case time_sleep (2 ^ attempt) of
                     Inl e \<Rightarrow> (Inl e, Suc sent)
                   | Inr slept \<Rightarrow>
                       request_loop json_error_caught transport method retries rest (Suc sent))
             else (Inl (Raised ''Timeout''), Suc sent)
         | RequestException msg \<Rightarrow>
             if attempt < retries - 1
             then (case time_sleep (2 ^ attempt) of
                     Inl e \<Rightarrow> (Inl e, Suc sent)
                   | Inr slept \<Rightarrow>
                       request_loop json_error_caught transport method retries rest (Suc sent))
             else (Inl (Raised ''Errore richiesta''), Suc sent)
         | HttpResponse st body ra \<Rightarrow>
             if st = 429 then
               (case ra of
                  None \<Rightarrow> (Inl (ValueError ''Retry-After''), Suc sent)
                | Some wait_time \<Rightarrow>
                    if attempt < retries - 1
                    then (case time_sleep wait_time of
                            Inl e \<Rightarrow> (Inl e, Suc sent)
                          | Inr slept \<Rightarrow>
                              request_loop json_error_caught transport method retries rest
                                (Suc sent))
                    else (Inl (Raised ''Errore richiesta''), Suc sent))
             else if 400 \<le> st \<and> st < 600 then
               (if attempt < retries - 1
                then (case time_sleep (2 ^ attempt) of
                        Inl e \<Rightarrow> (Inl e, Suc sent)
                      | Inr slept \<Rightarrow>
                          request_loop json_error_caught transport method retries rest (Suc sent))
                else (Inl (Raised ''Errore richiesta''), Suc sent))
             else
               (case body of
                  Some j \<Rightarrow> (Inr j, Suc sent)
                | None \<Rightarrow>
                    if \<not> json_error_caught then (Inl (ValueError ''JSON''), Suc sent)
                    else if attempt < retries - 1
                    then (case time_sleep (2 ^ attempt) of
                            Inl e \<Rightarrow> (Inl e, Suc sent)
                          | Inr slept \<Rightarrow>
                              request_loop json_error_caught transport method retries rest
                                (Suc sent))
                    else (Inl (Raised ''Errore richiesta''), Suc sent))))"

definition request :: "bool \<Rightarrow> (nat \<Rightarrow> 'j http_outcome) \<Rightarrow> string \<Rightarrow> nat \<Rightarrow> (exn + 'j) \<times> nat" where
  "request json_error_caught transport method retries =
     request_loop json_error_caught transport method retries [0 ..< retries] 0"

section \<open>Position dictionaries as objects\<close>

text \<open>
  The catalogs hold references to dictionary objects. The store is the list of all
  position dictionaries alive, an address is an index into it, and a catalog maps a
  placement type to the address of its dictionary.
\<close>

type_synonym addr = nat

type_synonym store = "position_box list"

type_synonym catalog = "(string \<times> addr) list"

record file_config_ref =
  fr_type :: string
  fr_url :: url
  fr_options :: "file_option list option"
  fr_position :: "addr option"

text \<open>\<^verbatim>\<open>d.copy()\<close>: a new dictionary with the items of the one at \<open>a\<close>.\<close>

definition dict_copy :: "store \<Rightarrow> addr \<Rightarrow> addr \<times> store" where
  "dict_copy h a = (length h, h @ [h ! a])"

text \<open>An assignment to a dictionary in place, such as \<^verbatim>\<open>position["top"] = v\<close>.\<close>

definition mutate :: "store \<Rightarrow> addr \<Rightarrow> (position_box \<Rightarrow> position_box) \<Rightarrow> store" where
  "mutate h a f = h[a := f (h ! a)]"

text \<open>
  The objects \<^verbatim>\<open>config/placements.py\<close> creates when it is loaded, in the order of the
  module text, and \<^verbatim>\<open>ALL_PLACEMENTS\<close> as references to them.
\<close>

definition placements_module_store :: store where
  "placements_module_store = map snd ALL_PLACEMENTS"

definition ALL_PLACEMENTS_refs :: catalog where
  "ALL_PLACEMENTS_refs = zip (map fst ALL_PLACEMENTS) [0 ..< length ALL_PLACEMENTS]"

text \<open>\<^verbatim>\<open>apply_position\<close> of \<^verbatim>\<open>config/placements.py\<close> on the store.\<close>

definition apply_position_st ::
  "catalog \<Rightarrow> string \<Rightarrow> file_config_ref \<Rightarrow> store \<Rightarrow> file_config_ref \<times> store" where
  "apply_position_st all_placements placement_type file_config h =
     (case map_of all_placements placement_type of
        Some position \<Rightarrow>
          (case dict_copy h position of
             (a', h') \<Rightarrow> (file_config\<lparr>fr_position := Some a'\<rparr>, h'))
      | None \<Rightarrow> (file_config, h))"

text \<open>The objects of \<^verbatim>\<open>placement_config.py\<close> and its two catalogs as references.\<close>

definition placement_config_store :: store where
  "placement_config_store = map snd UNIVERSAL_SLEEVE_OFFSET @ map snd UNIVERSAL_CHEST_OFFSET"

definition UNIVERSAL_SLEEVE_OFFSET_refs :: catalog where
  "UNIVERSAL_SLEEVE_OFFSET_refs =
     zip (map fst UNIVERSAL_SLEEVE_OFFSET) [0 ..< length UNIVERSAL_SLEEVE_OFFSET]"

definition UNIVERSAL_CHEST_OFFSET_refs :: catalog where
  "UNIVERSAL_CHEST_OFFSET_refs =
     zip (map fst UNIVERSAL_CHEST_OFFSET)
       [length UNIVERSAL_SLEEVE_OFFSET ..<
        length UNIVERSAL_SLEEVE_OFFSET + length UNIVERSAL_CHEST_OFFSET]"

text \<open>\<^verbatim>\<open>apply_universal_positioning\<close> of \<^verbatim>\<open>placement_config.py\<close> on the store.\<close>

definition apply_universal_positioning_st ::
  "catalog \<Rightarrow> catalog \<Rightarrow> string \<Rightarrow> file_config_ref \<Rightarrow> store \<Rightarrow> file_config_ref \<times> store" where
  "apply_universal_positioning_st sleeve chest placement_type file_config h =
     (case map_of sleeve placement_type of
        Some a \<Rightarrow>
          (case dict_copy h a of
             (a', h') \<Rightarrow> (file_config\<lparr>fr_position := Some a'\<rparr>, h'))
      | None \<Rightarrow>
          (case map_of chest placement_type of
             Some a \<Rightarrow>
               (case dict_copy h a of
                  (a', h') \<Rightarrow> (file_config\<lparr>fr_position := Some a'\<rparr>, h'))
           | None \<Rightarrow> (file_config, h)))"

text \<open>Every address a catalog holds is that of a live object.\<close>

definition catalog_in_store :: "catalog \<Rightarrow> store \<Rightarrow> bool" where
  "catalog_in_store cat h = list_all (\<lambda>ka. snd ka < length h) cat"

text \<open>A file configuration read through the store.\<close>

definition deref :: "store \<Rightarrow> file_config_ref \<Rightarrow> file_config" where
  "deref h fc =
     \<lparr>fc_type = fr_type fc, fc_url = fr_url fc, fc_options = fr_options fc,
      fc_position = map_option (\<lambda>a. h ! a) (fr_position fc)\<rparr>"

section \<open>Fleet mode: \<^verbatim>\<open>modules/product_creator/batch_processor.py\<close>\<close>

text \<open>
  The names the module binds at its top level: \<^verbatim>\<open>import time\<close>,
  \<^verbatim>\<open>from typing import Dict, List\<close>, \<^verbatim>\<open>from .product_builder import ProductBuilder\<close> and the
  class itself.
\<close>

definition batch_processor_globals :: "string list" where
  "batch_processor_globals = [''time'', ''Dict'', ''List'', ''ProductBuilder'', ''BatchProcessor'']"

text \<open>
  Reading a name that is not local inside a method: the module's globals, then the
  builtins, of which \<^verbatim>\<open>os\<close> is none; NameError otherwise.
\<close>

definition resolve_global :: "string list \<Rightarrow> string \<Rightarrow> exn + unit" where
  "resolve_global globals name = (if name \<in> set globals then Inr () else Inl (NameError name))"

record fleet_result =
  fl_design_name :: string
  total_products :: nat
  products_created :: nat
  total_variants :: nat
  results :: "(string \<times> build_result) list"
  errors :: "(string \<times> failure) list"

text \<open>\<^verbatim>\<open>results["success"] = results["products_created"] > 0\<close>\<close>

definition fleet_success :: "fleet_result \<Rightarrow> bool" where
  "fleet_success r = (products_created r > 0)"

text \<open>
  One iteration of the loop of \<^verbatim>\<open>process_all_products\<close>: the \<^verbatim>\<open>try\<close> block reads
  \<^verbatim>\<open>product_info['name']\<close> and builds the product; any exception becomes a failed entry.
\<close>

definition process_one :: "'s env \<Rightarrow> string \<Rightarrow> string \<Rightarrow> fleet_result \<Rightarrow> 's world \<Rightarrow> fleet_result \<times> 's world" where
  "process_one env design_file product_type acc w =
     (case get_product_info_name env product_type (ext w) of
        None \<Rightarrow>
          (acc\<lparr>results := results acc @ [(product_type, BuildFailed (Uncaught (TypeError ''product_info'')))],
               errors := errors acc @ [(product_type, Uncaught (TypeError ''product_info''))]\<rparr>, w)
      | Some name \<Rightarrow>
          (case build_single_product env design_file product_type w of
             (r, w') \<Rightarrow>
               (case r of
                  BuildSucceeded pid vs requested created \<Rightarrow>
                    (acc\<lparr>results := results acc @ [(product_type, r)],
                         products_created := products_created acc + 1,
                         total_variants := total_variants acc + created\<rparr>, w')
                | BuildFailed e \<Rightarrow>
                    (acc\<lparr>results := results acc @ [(product_type, r)],
                         errors := errors acc @ [(product_type, e)]\<rparr>, w'))))"

fun process_products :: "'s env \<Rightarrow> string \<Rightarrow> string list \<Rightarrow> fleet_result \<Rightarrow> 's world \<Rightarrow> fleet_result \<times> 's world" where
  "process_products env design_file [] acc w = (acc, w)"
| "process_products env design_file (product_type # rest) acc w =
     (case process_one env design_file product_type acc w of
        (acc', w') \<Rightarrow> process_products env design_file rest acc' w')"

text \<open>
  \<^verbatim>\<open>BatchProcessor.process_all_products\<close>, in the module namespace given: the second
  statement reads the global name \<^verbatim>\<open>os\<close>.
\<close>

definition process_all_products ::
  "string list \<Rightarrow> 's env \<Rightarrow> string \<Rightarrow> (fleet_result, 's) io" where
  "process_all_products globals env design_file w =
     (let available_products = get_available_products env (ext w) in
      case resolve_global globals ''os'' of
        Inl e \<Rightarrow> (Inl e, w)
      | Inr found \<Rightarrow>
          (let design_name = design_name_of design_file;
               start = \<lparr>fl_design_name = design_name,
                        total_products = length available_products,
                        products_created = 0, total_variants = 0, results = [], errors = []\<rparr>
           in case process_products env design_file available_products start w of
                (r, w') \<Rightarrow> (Inr r, w')))"


section \<open>A scripted outside world\<close>

text \<open>
  To run the builders on concrete inputs, the collaborators are played by a script: the
  vendor and the asset store answer with the next reply of a list, the files that exist
  are given once and for all, and the image operations succeed.
\<close>

record script =
  api_replies :: "(exn + response) list"
  upload_replies :: "(exn + url) list"
  catalog_variants :: "variant list"
  known_products :: "string list"

definition next_api_reply :: "script \<Rightarrow> (exn + response) \<times> script" where
  "next_api_reply s =
     (case api_replies s of
        [] \<Rightarrow> (Inl (Raised ''no reply''), s)
      | r # rs \<Rightarrow> (r, s\<lparr>api_replies := rs\<rparr>))"

definition next_upload_reply :: "script \<Rightarrow> (exn + url) \<times> script" where
  "next_upload_reply s =
     (case upload_replies s of
        [] \<Rightarrow> (Inl (Raised ''no reply''), s)
      | r # rs \<Rightarrow> (r, s\<lparr>upload_replies := rs\<rparr>))"

definition scripted :: "string list \<Rightarrow> script env" where
  "scripted present_files =
     \<lparr>get_available_products = known_products,
      load_product_variants = (\<lambda>product_type s. (Inr (catalog_variants s), s)),
      get_product_info_name = (\<lambda>product_type s. Some product_type),
      path_exists = (\<lambda>path s. path \<in> set present_files),
      upload_image = (\<lambda>path. next_upload_reply),
      upload_image_with_transparency = (\<lambda>path. next_upload_reply),
      create_left_aligned_image = (\<lambda>path s. (Inr (path @ ''.left''), s)),
      scale_and_save = (\<lambda>source target s. (Inr (), s)),
      os_remove = (\<lambda>path s. (Inr (), s)),
      api_request = (\<lambda>req. next_api_reply)\<rparr>"

definition start :: "'s \<Rightarrow> 's world" where
  "start s = \<lparr>ext = s, cache = Map.empty, trace = []\<rparr>"

text \<open>\<open>n\<close> catalog variants with the ids \<open>0, 1, \<dots>\<close>.\<close>

definition sample_variants :: "nat \<Rightarrow> variant list" where
  "sample_variants n =
     map (\<lambda>i. \<lparr>variant_id = Some (int i), size = ''M'', color = ''Black'', price = 25\<rparr>) [0 ..< n]"

text \<open>A reply of the vendor with a code and, optionally, a result object.\<close>

definition reply :: "int \<Rightarrow> api_result option \<Rightarrow> exn + response" where
  "reply c r = Inr \<lparr>code = Some c, result = r\<rparr>"

text \<open>A result object holding a product with \<open>n\<close> remote variants, the id under \<^verbatim>\<open>sync_product\<close>.\<close>

definition product_state :: "int \<Rightarrow> nat \<Rightarrow> api_result" where
  "product_state pid n =
     \<lparr>res_id = None, res_sync_product = Some \<lparr>sp_id = Some pid\<rparr>,
      res_sync_variants = Some (map (\<lambda>i. \<lparr>rv_id = Some (1000 + int i)\<rparr>) [0 ..< n])\<rparr>"





text \<open>A rate-limit reply at every attempt whose \<^verbatim>\<open>Retry-After\<close> header reads \<^verbatim>\<open>-1\<close>.\<close>

definition negative_retry_after :: "nat \<Rightarrow> response http_outcome" where
  "negative_retry_after attempt =
     HttpResponse 429 (Some \<lparr>code = Some 429, result = None\<rparr>) (Some (- 1))"

section \<open>Sessions of the asset-URL cache\<close>

text \<open>
  A session of one \<^verbatim>\<open>FileManager\<close>: upload requests for the given paths, one after the
  other, each caller seeing the URL or the exception of its own request.
\<close>

fun upload_requests :: "'s env \<Rightarrow> string list \<Rightarrow> 's world \<Rightarrow> (exn + url) list \<times> 's world" where
  "upload_requests env [] w = ([], w)"
| "upload_requests env (p # ps) w =
     (case upload_with_cache env p w of
        (r, w') \<Rightarrow> (case upload_requests env ps w' of (rs, w'') \<Rightarrow> (r # rs, w'')))"

text \<open>The calls of \<^verbatim>\<open>uploader.upload_image\<close> for a path in a trace, and the URLs they returned.\<close>

fun invoked_for :: "string \<Rightarrow> event \<Rightarrow> bool" where
  "invoked_for p (Upload q r) = (q = p)"
| "invoked_for p (UploadTransparent q r) = False"
| "invoked_for p (Api req r) = False"

definition invocations :: "string \<Rightarrow> event list \<Rightarrow> nat" where
  "invocations p tr = length (filter (invoked_for p) tr)"

fun returned_url :: "string \<Rightarrow> event \<Rightarrow> url option" where
  "returned_url p (Upload q (Inr u)) = (if q = p then Some u else None)"
| "returned_url p (Upload q (Inl e)) = None"
| "returned_url p (UploadTransparent q r) = None"
| "returned_url p (Api req r) = None"

definition uploaded :: "string \<Rightarrow> event list \<Rightarrow> url list" where
  "uploaded p tr = List.map_filter (returned_url p) tr"

text \<open>
  The cache and the trace agree: the URLs the uploader returned for a path are exactly
  what the cache holds for it.
\<close>

definition cache_matches_trace :: "'s world \<Rightarrow> bool" where
  "cache_matches_trace w =
     (\<forall>p. uploaded p (trace w) = (case cache w p of None \<Rightarrow> [] | Some u \<Rightarrow> [u]))"

text \<open>Two sessions: an asset store that answers, and one whose first upload fails.\<close>

definition two_uploads :: script where
  "two_uploads =
     \<lparr>api_replies = [], upload_replies = [Inr ''https://img/1'', Inr ''https://img/2''],
      catalog_variants = [], known_products = []\<rparr>"

definition failing_then_ok :: script where
  "failing_then_ok =
     \<lparr>api_replies = [], upload_replies = [Inl (Raised ''network''), Inr ''https://img/1''],
      catalog_variants = [], known_products = []\<rparr>"

section \<open>Reading a trace\<close>

text \<open>The vendor requests of a trace, in order.\<close>

fun api_request_of :: "event \<Rightarrow> request option" where
  "api_request_of (Api req r) = Some req"
| "api_request_of (Upload p r) = None"
| "api_request_of (UploadTransparent p r) = None"

definition api_calls :: "event list \<Rightarrow> request list" where
  "api_calls tr = List.map_filter api_request_of tr"

text \<open>A computation that sends nothing to the vendor, and one that moreover always raises.\<close>

definition quiet :: "('a, 's) io \<Rightarrow> bool" where
  "quiet m = (\<forall>w. api_calls (trace (snd (m w))) = api_calls (trace w))"

definition aborts :: "('a, 's) io \<Rightarrow> bool" where
  "aborts m = (\<forall>w. isl (fst (m w)) \<and> api_calls (trace (snd (m w))) = api_calls (trace w))"

text \<open>A beanie build without the prepared asset: one upload reply, for the design file.\<close>

definition beanie_without_asset :: script where
  "beanie_without_asset =
     \<lparr>api_replies = [], upload_replies = [Inr ''https://img/cat''],
      catalog_variants = sample_variants 3,
      known_products = [''as_colour_1120'']\<rparr>"

text \<open>The HTTP method and the target of a request.\<close>

fun method_of :: "request \<Rightarrow> string" where
  "method_of (GET ep) = ''GET''"
| "method_of (POST ep pl) = ''POST''"
| "method_of (PUT ep pl) = ''PUT''"

fun endpoint_of :: "request \<Rightarrow> endpoint" where
  "endpoint_of (GET ep) = ep"
| "endpoint_of (POST ep pl) = ep"
| "endpoint_of (PUT ep pl) = ep"

text \<open>
  A creation reply in the shape the vendor interface documents: code 200 and the product
  identifier 7 under \<^verbatim>\<open>result.sync_product.id\<close>, followed by a final read of the same
  state. Three catalog variants, one upload reply for the design.
\<close>

definition documented_creation :: script where
  "documented_creation =
     \<lparr>api_replies = [reply 200 (Some (product_state 7 3)), reply 200 (Some (product_state 7 3))],
      upload_replies = [Inr ''https://img/cat''],
      catalog_variants = sample_variants 3,
      known_products = [''gildan_5000'']\<rparr>"

section \<open>What a successful result rests on\<close>

text \<open>
  A computation of the modular builder whose successful results are always read off a
  final, success-coded read of the product; and the same for the clean builder, which
  does not look at the code of that read.
\<close>

definition reports_final_read :: "(build_result, 's) io \<Rightarrow> bool" where
  "reports_final_read m =
     (\<forall>w r w'. m w = (Inr r, w') \<and> success r \<longrightarrow>
        (\<exists>tr pid resp vs n.
           trace w' = tr @ [Api (GET (StoreProduct pid)) (Inr resp)]
           \<and> code_ok resp \<and> result_sync_variants resp = Inr vs
           \<and> r = BuildSucceeded pid vs n (length vs)))"

definition clean_reports_final_read :: "(clean_result, 's) io \<Rightarrow> bool" where
  "clean_reports_final_read m =
     (\<forall>w r w'. m w = (Inr r, w') \<and> clean_success r \<longrightarrow>
        (\<exists>tr pid resp n res.
           trace w' = tr @ [Api (GET (StoreProduct pid)) (Inr resp)]
           \<and> final_count resp = Inr (n, res)
           \<and> r = CleanSucceeded pid n res))"

text \<open>
  The variant list the modular product creator holds in memory after a trace: the
  variants of the last read that came back with a success code.
\<close>

fun read_variants :: "event \<Rightarrow> remote_variant list option" where
  "read_variants (Api (GET ep) (Inr resp)) =
     (if code_ok resp
      then (case result_sync_variants resp of Inl e \<Rightarrow> None | Inr vs \<Rightarrow> Some vs)
      else None)"
| "read_variants (Api (GET ep) (Inl e)) = None"
| "read_variants (Api (POST ep pl) r) = None"
| "read_variants (Api (PUT ep pl) r) = None"
| "read_variants (Upload p r) = None"
| "read_variants (UploadTransparent p r) = None"

definition held_in_memory :: "event list \<Rightarrow> remote_variant list option" where
  "held_in_memory tr =
     (case List.map_filter read_variants tr of [] \<Rightarrow> None | vs # vss \<Rightarrow> Some (last (vs # vss)))"

text \<open>
  A computation of the modular product creator whose successful results end in a final
  read that returned: with a success code the variants are those of its reply, without
  one they are the list held in memory before that read.
\<close>

definition creator_reports_final_read :: "(creator_result, 's) io \<Rightarrow> bool" where
  "creator_reports_final_read m =
     (\<forall>w r w'. m w = (Inr r, w') \<and> creator_success r \<longrightarrow>
        (\<exists>tr pid resp vs n.
           trace w' = tr @ [Api (GET (StoreProduct pid)) (Inr resp)]
           \<and> r = CreatorSucceeded pid vs n (length vs)
           \<and> (if code_ok resp then result_sync_variants resp = Inr vs
               else held_in_memory tr = Some vs)))"

text \<open>
  Creation succeeds and the final read comes back with code 500; the same with a final
  read that raises.
\<close>

definition final_read_rejected :: script where
  "final_read_rejected =
     \<lparr>api_replies = [reply 200 (Some ((product_state 7 3)\<lparr>res_id := Some 7\<rparr>)), reply 500 None],
      upload_replies = [Inr ''https://img/cat''],
      catalog_variants = sample_variants 3,
      known_products = [''gildan_5000'']\<rparr>"

definition final_read_raises :: script where
  "final_read_raises =
     \<lparr>api_replies = [reply 200 (Some ((product_state 7 3)\<lparr>res_id := Some 7\<rparr>)),
                     Inl (Raised ''Timeout'')],
      upload_replies = [Inr ''https://img/cat''],
      catalog_variants = sample_variants 3,
      known_products = [''gildan_5000'']\<rparr>"

section \<open>Reading the updates of a trace\<close>

text \<open>The references to the variants of a remote list, as an update payload starts with them.\<close>

definition existing_refs :: "remote_variant list \<Rightarrow> payload_variant list" where
  "existing_refs vs = map (\<lambda>v. ExistingRef (rv_id v)) vs"

text \<open>A reference to an existing variant, as opposed to the payload of a new one.\<close>

fun is_existing_ref :: "payload_variant \<Rightarrow> bool" where
  "is_existing_ref (ExistingRef i) = True"
| "is_existing_ref (NewVariant p v fs) = False"

text \<open>
  Every update request of a trace is made of the references of the variant list last
  confirmed before it, followed by new variants only. Nothing is confirmed at the start
  unless a list is given, and an update sent while nothing is confirmed breaks the rule. A
  read that returned and that the builder accepts confirms the variants of its reply.
  With \<open>reread\<close> set, an update uses up the confirmation, so that the next update needs
  a read of its own.
\<close>

fun confirmed_updates ::
  "(response \<Rightarrow> bool) \<Rightarrow> bool \<Rightarrow> remote_variant list option \<Rightarrow> event list \<Rightarrow> bool" where
  "confirmed_updates accept reread cur [] = True"
| "confirmed_updates accept reread cur (Api (PUT ep pl) r # tr) =
     (case cur of
        None \<Rightarrow> False
      | Some vs \<Rightarrow>
          take (length vs) (pl_sync_variants pl) = existing_refs vs
          \<and> \<not> list_ex is_existing_ref (drop (length vs) (pl_sync_variants pl))
          \<and> confirmed_updates accept reread (if reread then None else cur) tr)"
| "confirmed_updates accept reread cur (Api (GET ep) (Inr resp) # tr) =
     confirmed_updates accept reread
       (if accept resp
        then (case result_sync_variants resp of Inl e \<Rightarrow> None | Inr vs \<Rightarrow> Some vs)
        else cur) tr"
| "confirmed_updates accept reread cur (Api (GET ep) (Inl e) # tr) =
     confirmed_updates accept reread cur tr"
| "confirmed_updates accept reread cur (Api (POST ep pl) r # tr) =
     confirmed_updates accept reread cur tr"
| "confirmed_updates accept reread cur (Upload p r # tr) =
     confirmed_updates accept reread cur tr"
| "confirmed_updates accept reread cur (UploadTransparent p r # tr) =
     confirmed_updates accept reread cur tr"

text \<open>The number of update requests in a trace.\<close>

definition update_count :: "event list \<Rightarrow> nat" where
  "update_count tr = length (filter (\<lambda>req. method_of req = ''PUT'') (api_calls tr))"

text \<open>
  A vendor that answers: no request raises, and a success-coded reply to a read carries a
  result object.
\<close>

definition answers :: "'s env \<Rightarrow> bool" where
  "answers env =
     (\<forall>req s. \<exists>resp s'. api_request env req s = (Inr resp, s')
        \<and> (method_of req = ''GET'' \<and> code_ok resp \<longrightarrow> result resp \<noteq> None))"

text \<open>
  A vendor that counts the updates it has received: it rejects the first one with code 400
  and accepts the later ones; a read shows two variants until the second update and three
  from then on.
\<close>

fun counting_api :: "request \<Rightarrow> nat \<Rightarrow> (exn + response) \<times> nat" where
  "counting_api (PUT ep pl) n = (reply (if n = 0 then 400 else 200) None, Suc n)"
| "counting_api (GET ep) n = (reply 200 (Some (product_state 7 (if n < 2 then 2 else 3))), n)"
| "counting_api (POST ep pl) n = (reply 200 (Some (product_state 7 2)), n)"

definition counting_vendor :: "nat env" where
  "counting_vendor =
     \<lparr>get_available_products = (\<lambda>s. [''gildan_5000'']),
      load_product_variants = (\<lambda>product_type s. (Inr (sample_variants 41), s)),
      get_product_info_name = (\<lambda>product_type s. Some product_type),
      path_exists = (\<lambda>path s. False),
      upload_image = (\<lambda>path s. (Inr (''https://img/'' @ path), s)),
      upload_image_with_transparency = (\<lambda>path s. (Inr (''https://img/'' @ path), s)),
      create_left_aligned_image = (\<lambda>path s. (Inr (path @ ''.left''), s)),
      scale_and_save = (\<lambda>source target s. (Inr (), s)),
      os_remove = (\<lambda>path s. (Inr (), s)),
      api_request = counting_api\<rparr>"

text \<open>A vendor whose update call raises: eleven variants are left to append, in two batches.\<close>

definition update_raises :: script where
  "update_raises =
     \<lparr>api_replies = [reply 200 (Some (product_state 7 2)), Inl (Raised ''Timeout'')],
      upload_replies = [],
      catalog_variants = sample_variants 11,
      known_products = [''gildan_5000'']\<rparr>"

definition sample_urls :: urls where
  "sample_urls =
     \<lparr>design_url = ''https://img/cat'', logo_url = None, upscaled_url = None,
      logo_black_url = None\<rparr>"

text \<open>The number of references to existing variants in each update request of a trace.\<close>

fun update_refs :: "request \<Rightarrow> nat option" where
  "update_refs (PUT ep pl) = Some (length (filter is_existing_ref (pl_sync_variants pl)))"
| "update_refs (GET ep) = None"
| "update_refs (POST ep pl) = None"

definition update_ref_counts :: "event list \<Rightarrow> nat list" where
  "update_ref_counts tr = List.map_filter update_refs (api_calls tr)"

text \<open>
  A build of 31 variants whose first update raises: creation and the first read succeed,
  and two append batches are due.
\<close>

definition update_raises_in_build :: script where
  "update_raises_in_build =
     \<lparr>api_replies = [reply 200 (Some (product_state 7 20)), reply 200 (Some (product_state 7 20)),
                     Inl (Raised ''Timeout'')],
      upload_replies = [Inr ''https://img/cat''],
      catalog_variants = sample_variants 31,
      known_products = [''gildan_5000'']\<rparr>"

section \<open>Reading the creation call of a trace\<close>

text \<open>The outcomes of the creation calls (POST) of a trace, in order.\<close>

fun creation_reply :: "event \<Rightarrow> (exn + response) option" where
  "creation_reply (Api (POST ep pl) r) = Some r"
| "creation_reply (Api (GET ep) r) = None"
| "creation_reply (Api (PUT ep pl) r) = None"
| "creation_reply (Upload p r) = None"
| "creation_reply (UploadTransparent p r) = None"

definition creation_replies :: "event list \<Rightarrow> (exn + response) list" where
  "creation_replies tr = List.map_filter creation_reply tr"









definition final_read_rejected_after_info :: script where
  "final_read_rejected_after_info =
     \<lparr>api_replies = [reply 200 (Some ((product_state 7 3)\<lparr>res_id := Some 7\<rparr>)),
                     reply 200 (Some (product_state 7 3)), reply 500 None],
      upload_replies = [Inr ''https://img/cat''],
      catalog_variants = sample_variants 3,
      known_products = [''gildan_5000'']\<rparr>"

definition final_read_raises_after_info :: script where
  "final_read_raises_after_info =
     \<lparr>api_replies = [reply 200 (Some ((product_state 7 3)\<lparr>res_id := Some 7\<rparr>)),
                     reply 200 (Some (product_state 7 3)), Inl (Raised ''Timeout'')],
      upload_replies = [Inr ''https://img/cat''],
      catalog_variants = sample_variants 3,
      known_products = [''gildan_5000'']\<rparr>"

text \<open>
  Eleven variants with the modular product creator: eight are created, three are appended
  in one batch whose update and read succeed, and the final read comes back with code 500.
\<close>

definition final_read_rejected_after_append :: script where
  "final_read_rejected_after_append =
     \<lparr>api_replies = [reply 200 (Some ((product_state 7 8)\<lparr>res_id := Some 7\<rparr>)),
                     reply 200 (Some (product_state 7 8)),
                     reply 200 (Some (product_state 7 11)),
                     reply 200 (Some (product_state 7 11)),
                     reply 500 None],
      upload_replies = [Inr ''https://img/cat''],
      catalog_variants = sample_variants 11,
      known_products = [''gildan_5000'']\<rparr>"

section \<open>Properties of the batch planning\<close>


lemma tenths_step:
  fixes d :: nat
  assumes "0 < d"
  shows "(d + 9) div 10 = Suc ((d - 10 + 9) div 10)"
proof (cases "10 \<le> d")
  case True
  then obtain x where x: "d = x + 10" by (metis le_add_diff_inverse2)
  have "(x + 9 + 10) div 10 = Suc ((x + 9) div 10)" by simp
  then show ?thesis using x by (simp add: add.commute add.left_commute)
next
  case False
  then have "d - 10 = 0" by simp
  moreover have "(d + 9) div 10 = 1"
    by (rule div_nat_eqI) (use assms False in simp_all)
  ultimately show ?thesis by simp
qed

lemma tenths_cover: "n \<le> (n + 9) div 10 * (10::nat)"
proof -
  have "n + 9 < (n + 9) div 10 * 10 + 10"
    using div_mult_mod_eq [of "n + 9" 10] mod_less_divisor [of 10 "n + 9"]
    by linarith
  then show ?thesis by simp
qed

lemma py_range_length: "length (py_range i stop 10) = (stop - i + 9) div 10"
proof (induction i stop "10::nat" rule: py_range.induct)
  case (1 i stop)
  show ?case
  proof (cases "i < stop")
    case True
    then have "(stop - i + 9) div 10 = Suc ((stop - (i + 10) + 9) div 10)"
      using tenths_step [of "stop - i"] by (simp add: diff_diff_left [symmetric] del: diff_diff_left)
    with 1 True show ?thesis by (subst py_range.simps) simp
  next
    case False
    then show ?thesis by (subst py_range.simps) simp
  qed
qed

lemma clean_batches_concat_from:
  "concat (map (clean_batch xs) (py_range i (length xs) 10)) = drop i xs"
proof (induction i "length xs" "10::nat" rule: py_range.induct)
  case (1 i)
  show ?case
  proof (cases "i < length xs")
    case True
    have "take 10 (drop i xs) @ drop (i + 10) xs = drop i xs"
      by (metis append_take_drop_id drop_drop add.commute)
    with 1 True show ?thesis
      by (subst py_range.simps) (simp add: clean_batch_def py_slice_def)
  next
    case False
    then show ?thesis by (subst py_range.simps) simp
  qed
qed

lemma modular_batches_concat_upto:
  "concat (map (modular_batch xs) [0 ..< n]) = take (n * 10) xs"
proof (induction n)
  case 0
  then show ?case by simp
next
  case (Suc n)
  have "take (n * 10) xs @ take (min (n * 10 + 10) (length xs) - n * 10) (drop (n * 10) xs)
        = take (n * 10 + 10) xs"
    by (simp add: take_add min_def)
  with Suc show ?case by (simp add: modular_batch_def py_slice_def Let_def add.commute)
qed

lemma ceiling_tenths: "\<lceil>real n / 10\<rceil> = int ((n + 9) div 10)"
  by linarith

lemma clean_append_batches_concat: "concat (clean_append_batches xs) = xs"
  using clean_batches_concat_from [of xs 0]
  by (simp add: clean_append_batches_def clean_batch_starts_def)

lemma clean_append_batches_length: "length (clean_append_batches xs) = (length xs + 9) div 10"
  by (simp add: clean_append_batches_def clean_batch_starts_def py_range_length)

lemma clean_append_batches_bound: "b \<in> set (clean_append_batches xs) \<Longrightarrow> length b \<le> 10"
  by (auto simp: clean_append_batches_def clean_batch_def py_slice_def)

lemma modular_append_batches_concat: "concat (modular_append_batches xs) = xs"
proof -
  have "length xs \<le> (length xs + 9) div 10 * 10" by (rule tenths_cover)
  then show ?thesis
    by (simp add: modular_append_batches_def modular_batch_nums_def total_batches_def
        modular_batches_concat_upto)
qed

lemma modular_append_batches_length: "length (modular_append_batches xs) = (length xs + 9) div 10"
  by (simp add: modular_append_batches_def modular_batch_nums_def total_batches_def add.commute)

lemma modular_append_batches_bound: "b \<in> set (modular_append_batches xs) \<Longrightarrow> length b \<le> 10"
  by (auto simp: modular_append_batches_def modular_batch_def py_slice_def Let_def)

lemma clean_batch_sizes:
  "map length (clean_append_batches xs) =
   map (\<lambda>i. min 10 (length xs - i)) (clean_batch_starts xs)"
  by (simp add: clean_append_batches_def clean_batch_def py_slice_def min.commute)

lemma py_range_37: "py_range 0 37 10 = [0, 10, 20, 30]"
  by code_simp

lemma starts_37: "length xs = 37 \<Longrightarrow> clean_batch_starts xs = [0, 10, 20, 30]"
  unfolding clean_batch_starts_def using py_range_37 by auto

lemma ceiling_tenths_max:
  "max 0 \<lceil>real_of_int (int n - int k) / 10\<rceil> = int ((n - k + 9) div 10)"
proof (cases "k \<le> n")
  case True
  then have "real_of_int (int n - int k) = real (n - k)" by simp
  then have "\<lceil>real_of_int (int n - int k) / 10\<rceil> = int ((n - k + 9) div 10)"
    by (simp only: ceiling_tenths)
  then show ?thesis by simp
next
  case False
  then have "real_of_int (int n - int k) / 10 \<le> 0" by simp
  then have "\<lceil>real_of_int (int n - int k) / 10\<rceil> \<le> 0" by (simp add: ceiling_le_zero)
  moreover from False have "(n - k + 9) div 10 = 0" by simp
  ultimately show ?thesis by simp
qed

text \<open>
  Claim C2, as amended. For every variant list of length \<open>N\<close>, the initial batch is the
  first \<open>min N K\<close> variants (\<open>K = 8\<close> in the clean builder, \<open>K = 20\<close> in the modular one);
  it is followed by \<open>max 0 \<lceil>(N - K) / 10\<rceil>\<close> append batches of at most 10 variants each,
  with \<open>N - K\<close> taken in the integers; the initial batch followed by the append batches
  in order is the original list; and 45 variants with \<open>K = 8\<close> give batches of sizes 8 and
  10, 10, 10, 7.
\<close>

theorem batch_planner_partition:
  fixes variants :: "'a list"
  shows "clean_initial_batch variants = take (min (length variants) 8) variants
    \<and> int (length (clean_append_batches (clean_remaining variants)))
        = max 0 \<lceil>real_of_int (int (length variants) - 8) / 10\<rceil>
    \<and> (\<forall>b \<in> set (clean_append_batches (clean_remaining variants)). length b \<le> 10)
    \<and> concat (clean_initial_batch variants # clean_append_batches (clean_remaining variants))
        = variants
    \<and> modular_initial_variants variants = take (min (length variants) 20) variants
    \<and> int (length (modular_append_batches (modular_remaining_variants variants)))
        = max 0 \<lceil>real_of_int (int (length variants) - 20) / 10\<rceil>
    \<and> (\<forall>b \<in> set (modular_append_batches (modular_remaining_variants variants)). length b \<le> 10)
    \<and> concat (modular_initial_variants variants
                # modular_append_batches (modular_remaining_variants variants)) = variants
    \<and> (length variants = 45 \<longrightarrow>
          map length (clean_initial_batch variants
                      # clean_append_batches (clean_remaining variants)) = [8, 10, 10, 10, 7])"
proof (intro conjI impI)
  show "clean_initial_batch variants = take (min (length variants) 8) variants"
    by (simp add: clean_initial_batch_def py_slice_def min_def)
  show "int (length (clean_append_batches (clean_remaining variants)))
        = max 0 \<lceil>real_of_int (int (length variants) - 8) / 10\<rceil>"
    using ceiling_tenths_max [of "length variants" 8]
    by (simp add: clean_append_batches_length clean_remaining_def)
  show "\<forall>b \<in> set (clean_append_batches (clean_remaining variants)). length b \<le> 10"
    using clean_append_batches_bound by blast
  show "concat (clean_initial_batch variants # clean_append_batches (clean_remaining variants))
        = variants"
    by (simp add: clean_append_batches_concat clean_initial_batch_def clean_remaining_def
        py_slice_def)
  show "modular_initial_variants variants = take (min (length variants) 20) variants"
    by (simp add: modular_initial_variants_def py_slice_def min_def)
  show "int (length (modular_append_batches (modular_remaining_variants variants)))
        = max 0 \<lceil>real_of_int (int (length variants) - 20) / 10\<rceil>"
    using ceiling_tenths_max [of "length variants" 20]
    by (simp add: modular_append_batches_length modular_remaining_variants_def)
  show "\<forall>b \<in> set (modular_append_batches (modular_remaining_variants variants)). length b \<le> 10"
    using modular_append_batches_bound by blast
  show "concat (modular_initial_variants variants
                # modular_append_batches (modular_remaining_variants variants)) = variants"
    by (simp add: modular_append_batches_concat modular_initial_variants_def
        modular_remaining_variants_def py_slice_def)
next
  assume n: "length variants = 45"
  then have "length (clean_remaining variants) = 37" by (simp add: clean_remaining_def)
  then show "map length (clean_initial_batch variants
                      # clean_append_batches (clean_remaining variants)) = [8, 10, 10, 10, 7]"
    using n by (simp add: clean_batch_sizes starts_37 clean_initial_batch_def py_slice_def)
qed

theorem batch_planner_partition_witness:
  "length [0 ..< 45 :: nat] = 45
   \<and> map length (clean_initial_batch [0 ..< 45 :: nat]
                  # clean_append_batches (clean_remaining [0 ..< 45 :: nat])) = [8, 10, 10, 10, 7]
   \<and> concat (clean_initial_batch [0 ..< 45 :: nat]
              # clean_append_batches (clean_remaining [0 ..< 45 :: nat])) = [0 ..< 45]
   \<and> int (length (clean_append_batches (clean_remaining [0 ..< 45 :: nat]))) = 4
   \<and> int (length (modular_append_batches (modular_remaining_variants [0 ..< 45 :: nat]))) = 3"
proof -
  have len: "length [0 ..< 45 :: nat] = 45" by simp
  have c: "max 0 \<lceil>real_of_int (int (length [0 ..< 45 :: nat]) - 8) / 10\<rceil> = 4" by simp
  have m: "max 0 \<lceil>real_of_int (int (length [0 ..< 45 :: nat]) - 20) / 10\<rceil> = 3" by simp
  from batch_planner_partition [of "[0 ..< 45 :: nat]"] len
  have "map length (clean_initial_batch [0 ..< 45 :: nat]
                  # clean_append_batches (clean_remaining [0 ..< 45 :: nat])) = [8, 10, 10, 10, 7]"
    and "concat (clean_initial_batch [0 ..< 45 :: nat]
              # clean_append_batches (clean_remaining [0 ..< 45 :: nat])) = [0 ..< 45]"
    and "int (length (clean_append_batches (clean_remaining [0 ..< 45 :: nat])))
        = max 0 \<lceil>real_of_int (int (length [0 ..< 45 :: nat]) - 8) / 10\<rceil>"
    and "int (length (modular_append_batches (modular_remaining_variants [0 ..< 45 :: nat])))
        = max 0 \<lceil>real_of_int (int (length [0 ..< 45 :: nat]) - 20) / 10\<rceil>"
    by blast+
  with len c m show ?thesis by (simp only: simp_thms)
qed

text \<open>
  The claim as stated fails below the initial batch size of the modular builder: five
  variants leave nothing to append, so there is no append batch, where
  \<open>\<lceil>(5 - 20) / 10\<rceil>\<close> is \<open>-1\<close>.
\<close>

theorem five_variants_no_negative_batches:
  "length (modular_append_batches (modular_remaining_variants [0 ..< 5 :: nat])) = 0
   \<and> \<lceil>real_of_int (int (length [0 ..< 5 :: nat]) - 20) / 10\<rceil> = - 1"
proof (intro conjI)
  show "length (modular_append_batches (modular_remaining_variants [0 ..< 5 :: nat])) = 0"
    by (simp add: modular_append_batches_length modular_remaining_variants_def)
  show "\<lceil>real_of_int (int (length [0 ..< 5 :: nat]) - 20) / 10\<rceil> = - 1"
    by simp
qed

section \<open>Properties of the placement resolution\<close>

lemma files_of_three_generic:
  assumes "product_type \<noteq> ''yupoong_6089m''" and "product_type \<noteq> ''as_colour_1120''"
    and "logo \<noteq> []" and "\<not> truthy (upscaled_url us)" and "logo_url us = Some logo"
  shows "files_of product_type us [p0, p1, p2] =
           [apply_position (ptype p0) (base_file_config p0 (design_url us)),
            apply_position (ptype p1) (base_file_config p1 logo)]"
  using assms
  by (simp add: files_of_def List.map_filter_simps clean_file_for_def clean_slot_url_def
      truthy_def)

lemma variant_files_of_three:
  assumes "logo \<noteq> []" and "\<not> truthy upscaled"
  shows "variant_files_of [p0, p1, p2] d (Some logo) upscaled =
           [apply_universal_positioning (ptype p0) (base_file_config p0 d),
            apply_universal_positioning (ptype p1) (base_file_config p1 logo)]"
  using assms
  by (simp add: variant_files_of_def List.map_filter_simps variant_file_for_def slot_url_def
      truthy_def)

text \<open>
  Claim C7. For a generic product type whose placement list has three slots (design,
  logo, back print), with the primary design URL and a logo URL present and no upscaled
  URL, placement resolution returns exactly two file configurations: the design slot with
  the primary URL and the logo slot with the logo URL; the third slot is left out. This
  holds for the clean builder (every product type without bespoke logic) and for the
  modular builder.
\<close>

theorem three_slots_without_upscaled:
  assumes "logo \<noteq> []" and "\<not> truthy upscaled"
  shows "(product_type \<noteq> ''yupoong_6089m'' \<and> product_type \<noteq> ''as_colour_1120'' \<and>
          get_product_placements product_type = Inr [p0, p1, p2] \<longrightarrow>
          build_files_config product_type
            \<lparr>design_url = d, logo_url = Some logo, upscaled_url = upscaled, logo_black_url = lb\<rparr>
          = Inr [apply_position (ptype p0) (base_file_config p0 d),
                 apply_position (ptype p1) (base_file_config p1 logo)])
       \<and> (get_product_placements_m product_type = Inr [p0, p1, p2] \<longrightarrow>
          create_variant_files_config product_type d (Some logo) upscaled
          = Inr [apply_universal_positioning (ptype p0) (base_file_config p0 d),
                 apply_universal_positioning (ptype p1) (base_file_config p1 logo)])
       \<and> fc_type (apply_position (ptype p0) (base_file_config p0 d)) = ptype p0
       \<and> fc_url (apply_position (ptype p0) (base_file_config p0 d)) = d
       \<and> fc_type (apply_position (ptype p1) (base_file_config p1 logo)) = ptype p1
       \<and> fc_url (apply_position (ptype p1) (base_file_config p1 logo)) = logo
       \<and> fc_type (apply_universal_positioning (ptype p0) (base_file_config p0 d)) = ptype p0
       \<and> fc_url (apply_universal_positioning (ptype p0) (base_file_config p0 d)) = d
       \<and> fc_type (apply_universal_positioning (ptype p1) (base_file_config p1 logo)) = ptype p1
       \<and> fc_url (apply_universal_positioning (ptype p1) (base_file_config p1 logo)) = logo"
proof (intro conjI impI)
  assume "product_type \<noteq> ''yupoong_6089m'' \<and> product_type \<noteq> ''as_colour_1120'' \<and>
          get_product_placements product_type = Inr [p0, p1, p2]"
  then show "build_files_config product_type
            \<lparr>design_url = d, logo_url = Some logo, upscaled_url = upscaled, logo_black_url = lb\<rparr>
          = Inr [apply_position (ptype p0) (base_file_config p0 d),
                 apply_position (ptype p1) (base_file_config p1 logo)]"
    using assms by (simp add: build_files_config_def files_of_three_generic)
next
  assume "get_product_placements_m product_type = Inr [p0, p1, p2]"
  then show "create_variant_files_config product_type d (Some logo) upscaled
          = Inr [apply_universal_positioning (ptype p0) (base_file_config p0 d),
                 apply_universal_positioning (ptype p1) (base_file_config p1 logo)]"
    using assms by (simp add: create_variant_files_config_def variant_files_of_three)
qed (simp_all add: apply_position_def apply_universal_positioning_def base_file_config_def
      split: option.split)

lemma gildan_5000_placements:
  "get_product_placements ''gildan_5000'' =
     Inr [\<lparr>ptype = ''embroidery_chest_left'', description = ''Ricamo petto sinistro'',
       design_type = ''embroidery'', order = Some 1\<rparr>,
      \<lparr>ptype = ''embroidery_sleeve_left_top'', description = ''Ricamo manica sinistra'',
       design_type = ''embroidery'', order = Some 2\<rparr>,
      \<lparr>ptype = ''back'', description = ''Stampa DTG retro'', design_type = ''dtg'', order = Some 3\<rparr>]"
  by (simp add: get_product_placements_def get_product_def PRODUCTS_def)

lemma gildan_5000_placements_m:
  "get_product_placements_m ''gildan_5000'' =
     Inr [\<lparr>ptype = ''embroidery_chest_left'', description = ''Ricamo petto sinistro'',
       design_type = ''embroidery'', order = None\<rparr>,
      \<lparr>ptype = ''embroidery_sleeve_left_top'', description = ''Ricamo manica sinistra'',
       design_type = ''embroidery'', order = None\<rparr>,
      \<lparr>ptype = ''back'', description = ''Stampa DTG retro'', design_type = ''dtg'', order = None\<rparr>]"
  by (simp add: get_product_placements_m_def PRODUCT_PLACEMENTS_def)

lemma chest_left_position:
  "get_placement_config ''embroidery_chest_left'' =
     Some \<lparr>area_width = 18, area_height = 24, width = 2, height = 2, top = 3, left = 4,
           limit_to_print_area = True\<rparr>"
  by (simp add: get_placement_config_def ALL_PLACEMENTS_def HAT_PLACEMENTS_def
      SLEEVE_PLACEMENTS_def CHEST_PLACEMENTS_def)

lemma sleeve_left_top_position:
  "get_placement_config ''embroidery_sleeve_left_top'' =
     Some \<lparr>area_width = 10, area_height = 15, width = 3, height = 3, top = 9.5, left = 3.5,
           limit_to_print_area = False\<rparr>"
  by (simp add: get_placement_config_def ALL_PLACEMENTS_def HAT_PLACEMENTS_def
      SLEEVE_PLACEMENTS_def)

theorem three_slots_without_upscaled_witness:
  "build_files_config ''gildan_5000''
     \<lparr>design_url = ''https://img/design.png'', logo_url = Some ''https://img/logo.png'',
      upscaled_url = None, logo_black_url = None\<rparr>
   = Inr [\<lparr>fc_type = ''embroidery_chest_left'', fc_url = ''https://img/design.png'',
           fc_options = Some [AutoThreadColor],
           fc_position = Some \<lparr>area_width = 18, area_height = 24, width = 2, height = 2,
             top = 3, left = 4, limit_to_print_area = True\<rparr>\<rparr>,
          \<lparr>fc_type = ''embroidery_sleeve_left_top'', fc_url = ''https://img/logo.png'',
           fc_options = Some [AutoThreadColor],
           fc_position = Some \<lparr>area_width = 10, area_height = 15, width = 3, height = 3,
             top = 9.5, left = 3.5, limit_to_print_area = False\<rparr>\<rparr>]
   \<and> map (\<lambda>f. (fc_type f, fc_url f))
       (projr (create_variant_files_config ''gildan_5000'' ''https://img/design.png''
          (Some ''https://img/logo.png'') None))
     = [(''embroidery_chest_left'', ''https://img/design.png''),
        (''embroidery_sleeve_left_top'', ''https://img/logo.png'')]"
proof -
  have a: "''https://img/logo.png'' \<noteq> []" by simp
  have b: "\<not> truthy None" by (simp add: truthy_def)
  have c: "''gildan_5000'' \<noteq> ''yupoong_6089m'' \<and> ''gildan_5000'' \<noteq> ''as_colour_1120'' \<and>
       get_product_placements ''gildan_5000'' =
     Inr [\<lparr>ptype = ''embroidery_chest_left'', description = ''Ricamo petto sinistro'',
       design_type = ''embroidery'', order = Some 1\<rparr>,
      \<lparr>ptype = ''embroidery_sleeve_left_top'', description = ''Ricamo manica sinistra'',
       design_type = ''embroidery'', order = Some 2\<rparr>,
      \<lparr>ptype = ''back'', description = ''Stampa DTG retro'', design_type = ''dtg'', order = Some 3\<rparr>]"
    using gildan_5000_placements by simp
  note t = three_slots_without_upscaled [OF a b, of "''gildan_5000''" _ _ _
      "''https://img/design.png''" None]
  have clean: "build_files_config ''gildan_5000''
     \<lparr>design_url = ''https://img/design.png'', logo_url = Some ''https://img/logo.png'',
      upscaled_url = None, logo_black_url = None\<rparr>
    = Inr [apply_position ''embroidery_chest_left''
             (base_file_config \<lparr>ptype = ''embroidery_chest_left'',
                description = ''Ricamo petto sinistro'', design_type = ''embroidery'',
                order = Some 1\<rparr> ''https://img/design.png''),
           apply_position ''embroidery_sleeve_left_top''
             (base_file_config \<lparr>ptype = ''embroidery_sleeve_left_top'',
                description = ''Ricamo manica sinistra'', design_type = ''embroidery'',
                order = Some 2\<rparr> ''https://img/logo.png'')]"
    using t [THEN conjunct1, rule_format, OF c] by simp
  have modular: "create_variant_files_config ''gildan_5000'' ''https://img/design.png''
          (Some ''https://img/logo.png'') None
    = Inr [apply_universal_positioning ''embroidery_chest_left''
             (base_file_config \<lparr>ptype = ''embroidery_chest_left'',
                description = ''Ricamo petto sinistro'', design_type = ''embroidery'',
                order = None\<rparr> ''https://img/design.png''),
           apply_universal_positioning ''embroidery_sleeve_left_top''
             (base_file_config \<lparr>ptype = ''embroidery_sleeve_left_top'',
                description = ''Ricamo manica sinistra'', design_type = ''embroidery'',
                order = None\<rparr> ''https://img/logo.png'')]"
    using t [THEN conjunct2, THEN conjunct1, rule_format, OF gildan_5000_placements_m] by simp
  show ?thesis
    unfolding clean modular
    by (simp add: apply_position_def chest_left_position sleeve_left_top_position
        base_file_config_def apply_universal_positioning_def split: option.split)
qed

section \<open>Properties of the position objects\<close>

lemma catalog_address_live:
  "catalog_in_store cat h \<Longrightarrow> map_of cat k = Some b \<Longrightarrow> b < length h"
  by (force simp: catalog_in_store_def list_all_iff dest: map_of_SomeD)

lemma dict_copy_fresh:
  assumes "a < length h"
  shows "fst (dict_copy h a) = length h"
    and "fst (dict_copy h a) \<noteq> a"
    and "snd (dict_copy h a) ! fst (dict_copy h a) = h ! a"
    and "take (length h) (snd (dict_copy h a)) = h"
  using assms by (simp_all add: dict_copy_def)

lemma mutate_copy_keeps:
  assumes "b < length h"
  shows "mutate (snd (dict_copy h a)) (fst (dict_copy h a)) f ! b = h ! b"
  using assms by (simp add: dict_copy_def mutate_def nth_append)

lemma catalog_by_reference:
  assumes "distinct (map fst xs)"
  shows "map_option (\<lambda>a. map snd xs ! a) (map_of (zip (map fst xs) [0 ..< length xs]) k)
         = map_of xs k"
proof (cases "k \<in> set (map fst xs)")
  case True
  then obtain i where i: "i < length xs" "map fst xs ! i = k"
    by (metis in_set_conv_nth length_map)
  have "map_of (zip (map fst xs) [0 ..< length xs]) (map fst xs ! i) = Some ([0 ..< length xs] ! i)"
    using assms i(1) by (intro map_of_zip_nth) simp_all
  moreover have "map_of (zip (map fst xs) (map snd xs)) (map fst xs ! i) = Some (map snd xs ! i)"
    using assms i(1) by (intro map_of_zip_nth) simp_all
  ultimately show ?thesis using i by (simp add: zip_map_fst_snd)
next
  case False
  then have "map_of (zip (map fst xs) [0 ..< length xs]) k = None"
    by (simp add: map_of_zip_is_None)
  moreover have "map_of xs k = None" using False by (simp add: map_of_eq_None_iff)
  ultimately show ?thesis by simp
qed

text \<open>
  The store model of \<^verbatim>\<open>apply_position\<close> and its reading by value agree on the objects
  the module creates.
\<close>

lemma apply_position_st_deref:
  assumes "fr_position fc = None"
  shows "deref (snd (apply_position_st ALL_PLACEMENTS_refs placement_type fc placements_module_store))
           (fst (apply_position_st ALL_PLACEMENTS_refs placement_type fc placements_module_store))
         = apply_position placement_type (deref placements_module_store fc)"
proof -
  have d: "distinct (map fst ALL_PLACEMENTS)"
    by (simp add: ALL_PLACEMENTS_def HAT_PLACEMENTS_def SLEEVE_PLACEMENTS_def CHEST_PLACEMENTS_def)
  have byref: "map_of ALL_PLACEMENTS placement_type
      = map_option (\<lambda>a. placements_module_store ! a) (map_of ALL_PLACEMENTS_refs placement_type)"
    unfolding ALL_PLACEMENTS_refs_def placements_module_store_def
    by (rule catalog_by_reference [OF d, symmetric])
  show ?thesis
  proof (cases "map_of ALL_PLACEMENTS_refs placement_type")
    case None
    with byref show ?thesis
      by (simp add: apply_position_st_def apply_position_def get_placement_config_def)
  next
    case (Some a)
    with byref assms show ?thesis
      by (simp add: apply_position_st_def apply_position_def get_placement_config_def
          dict_copy_def deref_def)
  qed
qed

text \<open>
  Claim C8. For a placement type with a configured position dictionary, the position
  attached to the file configuration has the values of the catalog entry and is another
  object: whatever is assigned to it afterwards, every catalog entry reads as before. For
  a placement type without a configured position the file configuration is returned as it
  came, so a base configuration carries no position. This holds for \<^verbatim>\<open>apply_position\<close>
  and for \<^verbatim>\<open>apply_universal_positioning\<close>.
\<close>

theorem position_is_a_copy:
  "(catalog_in_store all_placements h \<and> map_of all_placements placement_type = Some a \<longrightarrow>
      (\<exists>a'. apply_position_st all_placements placement_type fc h
              = (fc\<lparr>fr_position := Some a'\<rparr>, h @ [h ! a])
           \<and> a' \<noteq> a \<and> (h @ [h ! a]) ! a' = h ! a
           \<and> (\<forall>k b f. map_of all_placements k = Some b \<longrightarrow>
                 mutate (h @ [h ! a]) a' f ! b = h ! b)))
   \<and> (map_of all_placements placement_type = None \<longrightarrow>
        apply_position_st all_placements placement_type fc h = (fc, h))
   \<and> (catalog_in_store sleeve h \<and> catalog_in_store chest h \<and>
       (if map_of sleeve placement_type = None then map_of chest placement_type
        else map_of sleeve placement_type) = Some a \<longrightarrow>
      (\<exists>a'. apply_universal_positioning_st sleeve chest placement_type fc h
              = (fc\<lparr>fr_position := Some a'\<rparr>, h @ [h ! a])
           \<and> a' \<noteq> a \<and> (h @ [h ! a]) ! a' = h ! a
           \<and> (\<forall>k b f. map_of sleeve k = Some b \<or> map_of chest k = Some b \<longrightarrow>
                 mutate (h @ [h ! a]) a' f ! b = h ! b)))
   \<and> (map_of sleeve placement_type = None \<and> map_of chest placement_type = None \<longrightarrow>
        apply_universal_positioning_st sleeve chest placement_type fc h = (fc, h))"
proof (intro conjI impI)
  assume asm: "catalog_in_store all_placements h \<and> map_of all_placements placement_type = Some a"
  then have a: "a < length h" using catalog_address_live by blast
  have "\<forall>k b f. map_of all_placements k = Some b \<longrightarrow> mutate (h @ [h ! a]) (length h) f ! b = h ! b"
    using mutate_copy_keeps [of _ h a] catalog_address_live [of all_placements h] asm
    by (simp add: dict_copy_def)
  then show "\<exists>a'. apply_position_st all_placements placement_type fc h
                    = (fc\<lparr>fr_position := Some a'\<rparr>, h @ [h ! a])
                 \<and> a' \<noteq> a \<and> (h @ [h ! a]) ! a' = h ! a
                 \<and> (\<forall>k b f. map_of all_placements k = Some b \<longrightarrow>
                       mutate (h @ [h ! a]) a' f ! b = h ! b)"
    using asm a by (intro exI [of _ "length h"]) (simp add: apply_position_st_def dict_copy_def)
next
  assume "map_of all_placements placement_type = None"
  then show "apply_position_st all_placements placement_type fc h = (fc, h)"
    by (simp add: apply_position_st_def)
next
  assume asm: "catalog_in_store sleeve h \<and> catalog_in_store chest h \<and>
       (if map_of sleeve placement_type = None then map_of chest placement_type
        else map_of sleeve placement_type) = Some a"
  then have a: "a < length h"
    using catalog_address_live by (metis (full_types))
  have "\<forall>k b f. map_of sleeve k = Some b \<or> map_of chest k = Some b \<longrightarrow>
          mutate (h @ [h ! a]) (length h) f ! b = h ! b"
    using mutate_copy_keeps [of _ h a] catalog_address_live [of sleeve h]
      catalog_address_live [of chest h] asm
    by (auto simp add: dict_copy_def)
  then show "\<exists>a'. apply_universal_positioning_st sleeve chest placement_type fc h
                    = (fc\<lparr>fr_position := Some a'\<rparr>, h @ [h ! a])
                 \<and> a' \<noteq> a \<and> (h @ [h ! a]) ! a' = h ! a
                 \<and> (\<forall>k b f. map_of sleeve k = Some b \<or> map_of chest k = Some b \<longrightarrow>
                       mutate (h @ [h ! a]) a' f ! b = h ! b)"
    using asm a
    by (intro exI [of _ "length h"])
      (auto simp add: apply_universal_positioning_st_def dict_copy_def split: option.splits if_splits)
next
  assume "map_of sleeve placement_type = None \<and> map_of chest placement_type = None"
  then show "apply_universal_positioning_st sleeve chest placement_type fc h = (fc, h)"
    by (simp add: apply_universal_positioning_st_def)
qed

lemma placements_module_catalog_live:
  "catalog_in_store ALL_PLACEMENTS_refs placements_module_store"
  by (simp add: catalog_in_store_def ALL_PLACEMENTS_refs_def placements_module_store_def
      ALL_PLACEMENTS_def HAT_PLACEMENTS_def SLEEVE_PLACEMENTS_def CHEST_PLACEMENTS_def upt_rec)

lemma placement_config_catalogs_live:
  "catalog_in_store UNIVERSAL_SLEEVE_OFFSET_refs placement_config_store"
  "catalog_in_store UNIVERSAL_CHEST_OFFSET_refs placement_config_store"
  by (simp_all add: catalog_in_store_def UNIVERSAL_SLEEVE_OFFSET_refs_def
      UNIVERSAL_CHEST_OFFSET_refs_def placement_config_store_def
      UNIVERSAL_SLEEVE_OFFSET_def UNIVERSAL_CHEST_OFFSET_def upt_rec)

lemma embroidery_front_ref: "map_of ALL_PLACEMENTS_refs ''embroidery_front'' = Some 0"
  by (simp add: ALL_PLACEMENTS_refs_def ALL_PLACEMENTS_def HAT_PLACEMENTS_def
      SLEEVE_PLACEMENTS_def CHEST_PLACEMENTS_def upt_rec)

lemma chest_left_ref:
  "(if map_of UNIVERSAL_SLEEVE_OFFSET_refs ''embroidery_chest_left'' = None
    then map_of UNIVERSAL_CHEST_OFFSET_refs ''embroidery_chest_left''
    else map_of UNIVERSAL_SLEEVE_OFFSET_refs ''embroidery_chest_left'') = Some 4"
  by (simp add: UNIVERSAL_SLEEVE_OFFSET_refs_def UNIVERSAL_CHEST_OFFSET_refs_def
      UNIVERSAL_SLEEVE_OFFSET_def UNIVERSAL_CHEST_OFFSET_def upt_rec)

lemma back_has_no_position:
  "map_of ALL_PLACEMENTS_refs ''back'' = None"
  "map_of UNIVERSAL_SLEEVE_OFFSET_refs ''back'' = None \<and> map_of UNIVERSAL_CHEST_OFFSET_refs ''back'' = None"
  by (simp_all add: ALL_PLACEMENTS_refs_def ALL_PLACEMENTS_def HAT_PLACEMENTS_def
      SLEEVE_PLACEMENTS_def CHEST_PLACEMENTS_def UNIVERSAL_SLEEVE_OFFSET_refs_def
      UNIVERSAL_CHEST_OFFSET_refs_def UNIVERSAL_SLEEVE_OFFSET_def UNIVERSAL_CHEST_OFFSET_def upt_rec)

theorem position_is_a_copy_witness:
  "catalog_in_store ALL_PLACEMENTS_refs placements_module_store
   \<and> map_of ALL_PLACEMENTS_refs ''embroidery_front'' = Some 0
   \<and> (\<exists>a'. apply_position_st ALL_PLACEMENTS_refs ''embroidery_front''
              \<lparr>fr_type = ''embroidery_front'', fr_url = ''u'', fr_options = None, fr_position = None\<rparr>
              placements_module_store
            = (\<lparr>fr_type = ''embroidery_front'', fr_url = ''u'', fr_options = None,
                fr_position = Some a'\<rparr>,
               placements_module_store @ [placements_module_store ! 0])
          \<and> a' \<noteq> 0
          \<and> mutate (placements_module_store @ [placements_module_store ! 0]) a'
                (\<lambda>box. box\<lparr>top := 0\<rparr>) ! 0 = placements_module_store ! 0)
   \<and> top (placements_module_store ! 0) = 2.5
   \<and> apply_position_st ALL_PLACEMENTS_refs ''back''
        \<lparr>fr_type = ''back'', fr_url = ''u'', fr_options = None, fr_position = None\<rparr>
        placements_module_store
      = (\<lparr>fr_type = ''back'', fr_url = ''u'', fr_options = None, fr_position = None\<rparr>,
         placements_module_store)
   \<and> (\<exists>a'. apply_universal_positioning_st UNIVERSAL_SLEEVE_OFFSET_refs UNIVERSAL_CHEST_OFFSET_refs
              ''embroidery_chest_left''
              \<lparr>fr_type = ''embroidery_chest_left'', fr_url = ''u'', fr_options = None,
               fr_position = None\<rparr> placement_config_store
            = (\<lparr>fr_type = ''embroidery_chest_left'', fr_url = ''u'', fr_options = None,
                fr_position = Some a'\<rparr>,
               placement_config_store @ [placement_config_store ! 4])
          \<and> a' \<noteq> 4
          \<and> mutate (placement_config_store @ [placement_config_store ! 4]) a'
                (\<lambda>box. box\<lparr>left := 0\<rparr>) ! 4 = placement_config_store ! 4)
   \<and> apply_universal_positioning_st UNIVERSAL_SLEEVE_OFFSET_refs UNIVERSAL_CHEST_OFFSET_refs ''back''
        \<lparr>fr_type = ''back'', fr_url = ''u'', fr_options = None, fr_position = None\<rparr>
        placement_config_store
      = (\<lparr>fr_type = ''back'', fr_url = ''u'', fr_options = None, fr_position = None\<rparr>,
         placement_config_store)"
proof -
  let ?front = "\<lparr>fr_type = ''embroidery_front'', fr_url = ''u'', fr_options = None,
                  fr_position = None\<rparr>"
  let ?rear = "\<lparr>fr_type = ''back'', fr_url = ''u'', fr_options = None, fr_position = None\<rparr>"
  let ?chest = "\<lparr>fr_type = ''embroidery_chest_left'', fr_url = ''u'', fr_options = None,
                  fr_position = None\<rparr>"
  note clean = position_is_a_copy [of ALL_PLACEMENTS_refs placements_module_store _ 0 _ "[]" "[]"]
  note modular = position_is_a_copy [of "[]" placement_config_store _ 4 _
      UNIVERSAL_SLEEVE_OFFSET_refs UNIVERSAL_CHEST_OFFSET_refs]
  have 1: "\<exists>a'. apply_position_st ALL_PLACEMENTS_refs ''embroidery_front'' ?front
              placements_module_store
            = (?front\<lparr>fr_position := Some a'\<rparr>,
               placements_module_store @ [placements_module_store ! 0])
          \<and> a' \<noteq> 0
          \<and> (placements_module_store @ [placements_module_store ! 0]) ! a'
              = placements_module_store ! 0
          \<and> (\<forall>k b f. map_of ALL_PLACEMENTS_refs k = Some b \<longrightarrow>
                 mutate (placements_module_store @ [placements_module_store ! 0]) a' f ! b
                 = placements_module_store ! b)"
    using clean [of "''embroidery_front''" ?front, THEN conjunct1, rule_format]
      placements_module_catalog_live embroidery_front_ref by blast
  have 2: "apply_position_st ALL_PLACEMENTS_refs ''back'' ?rear placements_module_store
           = (?rear, placements_module_store)"
    using clean [of "''back''" ?rear, THEN conjunct2, THEN conjunct1, rule_format]
      back_has_no_position(1) by blast
  have 3: "\<exists>a'. apply_universal_positioning_st UNIVERSAL_SLEEVE_OFFSET_refs
              UNIVERSAL_CHEST_OFFSET_refs ''embroidery_chest_left'' ?chest placement_config_store
            = (?chest\<lparr>fr_position := Some a'\<rparr>,
               placement_config_store @ [placement_config_store ! 4])
          \<and> a' \<noteq> 4
          \<and> (placement_config_store @ [placement_config_store ! 4]) ! a'
              = placement_config_store ! 4
          \<and> (\<forall>k b f. map_of UNIVERSAL_SLEEVE_OFFSET_refs k = Some b
                      \<or> map_of UNIVERSAL_CHEST_OFFSET_refs k = Some b \<longrightarrow>
                 mutate (placement_config_store @ [placement_config_store ! 4]) a' f ! b
                 = placement_config_store ! b)"
    using modular [of "''embroidery_chest_left''" ?chest, THEN conjunct2, THEN conjunct2,
        THEN conjunct1, rule_format]
      placement_config_catalogs_live chest_left_ref by blast
  have 4: "apply_universal_positioning_st UNIVERSAL_SLEEVE_OFFSET_refs UNIVERSAL_CHEST_OFFSET_refs
             ''back'' ?rear placement_config_store = (?rear, placement_config_store)"
    using modular [of "''back''" ?rear, THEN conjunct2, THEN conjunct2, THEN conjunct2,
        rule_format] back_has_no_position(2) by blast
  have 5: "top (placements_module_store ! 0) = 2.5"
    by (simp add: placements_module_store_def ALL_PLACEMENTS_def HAT_PLACEMENTS_def)
  from 1 obtain a1 where a1: "apply_position_st ALL_PLACEMENTS_refs ''embroidery_front'' ?front
              placements_module_store
            = (?front\<lparr>fr_position := Some a1\<rparr>,
               placements_module_store @ [placements_module_store ! 0])"
       "a1 \<noteq> 0"
       "mutate (placements_module_store @ [placements_module_store ! 0]) a1
                (\<lambda>box. box\<lparr>top := 0\<rparr>) ! 0 = placements_module_store ! 0"
    using embroidery_front_ref by blast
  from 3 obtain a3 where a3: "apply_universal_positioning_st UNIVERSAL_SLEEVE_OFFSET_refs
              UNIVERSAL_CHEST_OFFSET_refs ''embroidery_chest_left'' ?chest placement_config_store
            = (?chest\<lparr>fr_position := Some a3\<rparr>,
               placement_config_store @ [placement_config_store ! 4])"
       "a3 \<noteq> 4"
       "mutate (placement_config_store @ [placement_config_store ! 4]) a3
                (\<lambda>box. box\<lparr>left := 0\<rparr>) ! 4 = placement_config_store ! 4"
    using chest_left_ref by (metis option.distinct(1))
  show ?thesis
    using placements_module_catalog_live embroidery_front_ref a1 a3 2 4 5
    by (intro conjI exI [of _ a1] exI [of _ a3]) simp_all
qed

section \<open>Properties of the gateways\<close>

lemma time_sleep_ok: "0 \<le> secs \<Longrightarrow> secs \<le> sleep_max \<Longrightarrow> time_sleep secs = Inr ()"
  by (simp add: time_sleep_def)






text \<open>
  A rate-limit reply with a negative \<^verbatim>\<open>Retry-After\<close> ends the call of the clean gateway
  after one request: \<^verbatim>\<open>time.sleep\<close> raises.
\<close>

lemma negative_retry_after_raises:
  "request True negative_retry_after ''GET'' 3
   = (Inl (ValueError ''sleep length must be non-negative''), 1)"
  by code_simp

section \<open>Properties of the fleet mode\<close>

text \<open>
  Had the module bound \<^verbatim>\<open>os\<close>, the loop would run: with the name in the namespace the
  call returns the aggregate, here for a catalog without products.
\<close>

lemma process_all_products_with_os:
  "fst (process_all_products (''os'' # batch_processor_globals) (scripted []) ''designs/cat.png''
     (start \<lparr>api_replies = [], upload_replies = [], catalog_variants = [],
             known_products = []\<rparr>))
   = Inr \<lparr>fl_design_name = ''cat'', total_products = 0, products_created = 0,
          total_variants = 0, results = [], errors = []\<rparr>"
  by (simp add: process_all_products_def resolve_global_def scripted_def start_def
      design_name_of_def splitext_root_def basename_def)

text \<open>
  Claim C10. For every input, \<^verbatim>\<open>BatchProcessor.process_all_products\<close> raises NameError for
  the name \<^verbatim>\<open>os\<close>, which \<^verbatim>\<open>batch_processor.py\<close> never imports, before any product build is
  attempted: the call returns no aggregate and leaves the world as it found it (no upload,
  no vendor request).
\<close>

theorem process_all_products_raises_name_error:
  "process_all_products batch_processor_globals env design_file w = (Inl (NameError ''os''), w)"
  by (simp add: process_all_products_def resolve_global_def batch_processor_globals_def)

section \<open>Properties of the asset-URL cache\<close>

lemma uploaded_append: "uploaded p (tr @ tr') = uploaded p tr @ uploaded p tr'"
  by (simp add: uploaded_def List.map_filter_def)

lemma uploaded_single:
  "uploaded q [Upload p (Inl e)] = []"
  "uploaded q [Upload p (Inr u)] = (if p = q then [u] else [])"
  by (simp_all add: uploaded_def List.map_filter_simps)

lemma upload_with_cache_hit:
  "cache w p = Some u \<Longrightarrow> upload_with_cache env p w = (Inr u, w)"
  by (simp add: upload_with_cache_def)

lemma upload_with_cache_miss:
  assumes "cache w p = None" and "upload_image env p (ext w) = (r, s')"
  shows "upload_with_cache env p w =
           (r, w\<lparr>ext := s', trace := trace w @ [Upload p r],
                  cache := (case r of Inl e \<Rightarrow> cache w | Inr u \<Rightarrow> (cache w)(p \<mapsto> u))\<rparr>)"
  using assms
  by (cases r) (simp_all add: upload_with_cache_def io_bind_def do_upload_def)

lemma upload_with_cache_invariant:
  assumes "cache_matches_trace w" and "upload_with_cache env p w = (r, w')"
  shows "cache_matches_trace w'"
proof (cases "cache w p")
  case (Some u)
  with assms show ?thesis by (simp add: upload_with_cache_hit)
next
  case None
  obtain r0 s' where up: "upload_image env p (ext w) = (r0, s')" by (cases "upload_image env p (ext w)")
  from upload_with_cache_miss [OF None up] assms(2)
  have w': "w' = w\<lparr>ext := s', trace := trace w @ [Upload p r0],
                  cache := (case r0 of Inl e \<Rightarrow> cache w | Inr u \<Rightarrow> (cache w)(p \<mapsto> u))\<rparr>"
    by simp
  from assms(1) have inv: "\<And>q. uploaded q (trace w) = (case cache w q of None \<Rightarrow> [] | Some u \<Rightarrow> [u])"
    by (simp add: cache_matches_trace_def)
  show ?thesis
  proof (cases r0)
    case (Inl e)
    with w' inv show ?thesis
      by (simp add: cache_matches_trace_def uploaded_append uploaded_single)
  next
    case (Inr u)
    with w' inv None show ?thesis
      by (simp add: cache_matches_trace_def uploaded_append uploaded_single)
  qed
qed

lemma upload_with_cache_result_cached:
  assumes "upload_with_cache env p w = (Inr u, w')"
  shows "cache w' p = Some u"
proof (cases "cache w p")
  case (Some v)
  with assms show ?thesis by (simp add: upload_with_cache_hit)
next
  case None
  obtain r0 s' where up: "upload_image env p (ext w) = (r0, s')" by (cases "upload_image env p (ext w)")
  from upload_with_cache_miss [OF None up] assms show ?thesis by auto
qed

lemma upload_with_cache_keeps:
  assumes "cache w q = Some v" and "upload_with_cache env p w = (r, w')"
  shows "cache w' q = Some v"
proof (cases "cache w p")
  case (Some u)
  with assms show ?thesis by (simp add: upload_with_cache_hit)
next
  case None
  then have "p \<noteq> q" using assms(1) by auto
  obtain r0 s' where up: "upload_image env p (ext w) = (r0, s')" by (cases "upload_image env p (ext w)")
  from upload_with_cache_miss [OF None up] assms \<open>p \<noteq> q\<close> show ?thesis
    by (cases r0) auto
qed

lemma upload_requests_invariant:
  "cache_matches_trace w \<Longrightarrow> upload_requests env ps w = (rs, w') \<Longrightarrow> cache_matches_trace w'"
proof (induction ps arbitrary: w rs)
  case Nil
  then show ?case by simp
next
  case (Cons p ps)
  obtain r w1 where s1: "upload_with_cache env p w = (r, w1)" by (cases "upload_with_cache env p w")
  obtain rs1 w2 where s2: "upload_requests env ps w1 = (rs1, w2)"
    by (cases "upload_requests env ps w1")
  from Cons.prems(2) s1 s2 have "w' = w2" by simp
  moreover have "cache_matches_trace w1" using upload_with_cache_invariant Cons.prems(1) s1 by blast
  ultimately show ?case using Cons.IH s2 by blast
qed

lemma upload_requests_length:
  "upload_requests env ps w = (rs, w') \<Longrightarrow> length rs = length ps"
proof (induction ps arbitrary: w rs)
  case Nil
  then show ?case by simp
next
  case (Cons p ps)
  then show ?case by (auto split: prod.splits)
qed

lemma upload_requests_cached:
  "cache w q = Some u \<Longrightarrow> upload_requests env ps w = (rs, w') \<Longrightarrow>
   cache w' q = Some u \<and> (\<forall>j < length ps. ps ! j = q \<longrightarrow> rs ! j = Inr u)"
proof (induction ps arbitrary: w rs w')
  case Nil
  then show ?case by simp
next
  case (Cons p ps)
  obtain r w1 where s1: "upload_with_cache env p w = (r, w1)" by (cases "upload_with_cache env p w")
  obtain rs1 w2 where s2: "upload_requests env ps w1 = (rs1, w2)"
    by (cases "upload_requests env ps w1")
  from Cons.prems(2) s1 s2 have eq: "rs = r # rs1" "w' = w2" by simp_all
  have c1: "cache w1 q = Some u" using upload_with_cache_keeps Cons.prems(1) s1 by blast
  from Cons.IH [OF c1 s2] have ih: "cache w2 q = Some u"
    "\<forall>j < length ps. ps ! j = q \<longrightarrow> rs1 ! j = Inr u" by simp_all
  have hd: "p = q \<Longrightarrow> r = Inr u" using Cons.prems(1) s1 by (simp add: upload_with_cache_hit)
  show ?case
  proof (intro conjI allI impI)
    show "cache w' q = Some u" using ih(1) eq by simp
  next
    fix j assume j: "j < length (p # ps)" "(p # ps) ! j = q"
    show "rs ! j = Inr u"
    proof (cases j)
      case 0
      with j hd eq show ?thesis by simp
    next
      case (Suc k)
      with j ih(2) eq show ?thesis by simp
    qed
  qed
qed

lemma upload_requests_repeat:
  "upload_requests env ps w = (rs, w') \<Longrightarrow> i < j \<Longrightarrow> j < length ps \<Longrightarrow> ps ! i = ps ! j \<Longrightarrow>
   rs ! i = Inr u \<Longrightarrow> rs ! j = Inr u"
proof (induction ps arbitrary: w rs w' i j)
  case Nil
  then show ?case by simp
next
  case (Cons p ps)
  obtain r w1 where s1: "upload_with_cache env p w = (r, w1)" by (cases "upload_with_cache env p w")
  obtain rs1 w2 where s2: "upload_requests env ps w1 = (rs1, w2)"
    by (cases "upload_requests env ps w1")
  from Cons.prems(1) s1 s2 have eq: "rs = r # rs1" "w' = w2" by simp_all
  obtain j' where j': "j = Suc j'" using Cons.prems(2) by (cases j) simp_all
  show ?case
  proof (cases i)
    case 0
    then have "r = Inr u" using Cons.prems(5) eq by simp
    then have "cache w1 p = Some u" using s1 upload_with_cache_result_cached by blast
    from upload_requests_cached [OF this s2] have "\<forall>k < length ps. ps ! k = p \<longrightarrow> rs1 ! k = Inr u"
      by simp
    moreover have "j' < length ps" "ps ! j' = p" using Cons.prems(3,4) j' 0 by simp_all
    ultimately show ?thesis using eq j' by simp
  next
    case (Suc i')
    then have "rs1 ! i' = Inr u" "i' < j'" "j' < length ps" "ps ! i' = ps ! j'"
      using Cons.prems eq j' by simp_all
    with Cons.IH [OF s2] have "rs1 ! j' = Inr u" by blast
    then show ?thesis using eq j' by simp
  qed
qed

lemma start_cache_matches_trace: "cache_matches_trace (start s)"
  by (simp add: cache_matches_trace_def start_def uploaded_def List.map_filter_simps)

text \<open>
  Claim C9, as amended. Within one session of the cache (no \<^verbatim>\<open>clear_cache\<close> in between), a
  local path resolves to at most one URL: the uploader returns a URL at most once per
  path; once a request for a path has returned a URL, every later request for that path
  returns the same URL; and a request for a cached path does not reach the uploader.
  An upload that raises is not cached, so the uploader is called again at the next request
  for that path.
\<close>

theorem one_url_per_path:
  "(upload_requests env ps (start s) = (rs, w') \<longrightarrow>
      length (uploaded p (trace w')) \<le> 1
      \<and> (\<forall>i j u. i < j \<and> j < length ps \<and> ps ! i = ps ! j \<and> rs ! i = Inr u \<longrightarrow> rs ! j = Inr u))
   \<and> (cache w p = Some u \<longrightarrow> upload_with_cache env p w = (Inr u, w))
   \<and> (cache w p = None \<and> upload_image env p (ext w) = (Inl e, s') \<longrightarrow>
        snd (upload_with_cache env p w) = w\<lparr>ext := s', trace := trace w @ [Upload p (Inl e)]\<rparr>)"
proof (intro conjI impI allI)
  assume run: "upload_requests env ps (start s) = (rs, w')"
  have "cache_matches_trace w'"
    using upload_requests_invariant [OF start_cache_matches_trace run] .
  then have "uploaded p (trace w') = (case cache w' p of None \<Rightarrow> [] | Some u \<Rightarrow> [u])"
    by (simp add: cache_matches_trace_def)
  then show "length (uploaded p (trace w')) \<le> 1" by (simp split: option.split)
  fix i j u
  assume "i < j \<and> j < length ps \<and> ps ! i = ps ! j \<and> rs ! i = Inr u"
  then show "rs ! j = Inr u" using upload_requests_repeat [OF run] by blast
next
  assume "cache w p = Some u"
  then show "upload_with_cache env p w = (Inr u, w)" by (rule upload_with_cache_hit)
next
  assume "cache w p = None \<and> upload_image env p (ext w) = (Inl e, s')"
  then show "snd (upload_with_cache env p w) = w\<lparr>ext := s', trace := trace w @ [Upload p (Inl e)]\<rparr>"
    using upload_with_cache_miss [of w p env "Inl e" s'] by simp
qed


lemmas scripted_upload_simps =
  upload_with_cache_def io_bind_def do_upload_def scripted_def next_upload_reply_def start_def

lemma two_uploads_run:
  "fst (upload_requests (scripted []) [''a.png'', ''b.png'', ''a.png''] (start two_uploads))
     = [Inr ''https://img/1'', Inr ''https://img/2'', Inr ''https://img/1'']"
  "trace (snd (upload_requests (scripted []) [''a.png'', ''b.png'', ''a.png''] (start two_uploads)))
     = [Upload ''a.png'' (Inr ''https://img/1''), Upload ''b.png'' (Inr ''https://img/2'')]"
  by (simp_all add: scripted_upload_simps two_uploads_def)

theorem one_url_per_path_witness:
  "fst (upload_requests (scripted []) [''a.png'', ''b.png'', ''a.png''] (start two_uploads))
     = [Inr ''https://img/1'', Inr ''https://img/2'', Inr ''https://img/1'']
   \<and> trace (snd (upload_requests (scripted []) [''a.png'', ''b.png'', ''a.png''] (start two_uploads)))
     = [Upload ''a.png'' (Inr ''https://img/1''), Upload ''b.png'' (Inr ''https://img/2'')]
   \<and> length (uploaded ''a.png''
        (trace (snd (upload_requests (scripted []) [''a.png'', ''b.png'', ''a.png'']
           (start two_uploads))))) \<le> 1
   \<and> fst (upload_requests (scripted []) [''a.png'', ''b.png'', ''a.png''] (start two_uploads)) ! 2
     = Inr ''https://img/1''"
proof -
  let ?run = "upload_requests (scripted []) [''a.png'', ''b.png'', ''a.png''] (start two_uploads)"
  have run: "?run = (fst ?run, snd ?run)" by simp
  note t = one_url_per_path [of "scripted []" "[''a.png'', ''b.png'', ''a.png'']" two_uploads
      "fst ?run" "snd ?run" "''a.png''", THEN conjunct1, rule_format, OF run]
  have first: "fst ?run ! 0 = Inr ''https://img/1''"
    unfolding two_uploads_run(1) by simp
  have "0 < (2::nat) \<and> 2 < length [''a.png'', ''b.png'', ''a.png'']
        \<and> [''a.png'', ''b.png'', ''a.png''] ! 0 = [''a.png'', ''b.png'', ''a.png''] ! 2
        \<and> fst ?run ! 0 = Inr ''https://img/1''"
    using first by (simp del: upload_requests.simps)
  then have third: "fst ?run ! 2 = Inr ''https://img/1''"
    by (rule t [THEN conjunct2, rule_format])
  have once: "length (uploaded ''a.png'' (trace (snd ?run))) \<le> 1"
    by (rule t [THEN conjunct1])
  show ?thesis
    using two_uploads_run(1) two_uploads_run(2) once third by (intro conjI)
qed

text \<open>
  The claim as stated fails when an upload raises: the failure is not cached, and the
  second request for the same path calls the uploader again.
\<close>

theorem uploader_called_twice_after_failure:
  "fst (upload_requests (scripted []) [''a.png'', ''a.png''] (start failing_then_ok))
     = [Inl (Raised ''network''), Inr ''https://img/1'']
   \<and> invocations ''a.png''
       (trace (snd (upload_requests (scripted []) [''a.png'', ''a.png''] (start failing_then_ok)))) = 2"
  by (simp add: scripted_upload_simps failing_then_ok_def invocations_def)

section \<open>Properties of the beanie build\<close>

lemma api_calls_append: "api_calls (tr @ tr') = api_calls tr @ api_calls tr'"
  by (simp add: api_calls_def List.map_filter_def)

lemma api_calls_upload [simp]:
  "api_calls [Upload p r] = []" "api_calls [UploadTransparent p r] = []"
  "api_calls [Api req r'] = [req]"
  by (simp_all add: api_calls_def List.map_filter_simps)

lemma io_bind_Inr: "m w = (Inr x, w') \<Longrightarrow> io_bind m f w = f x w'"
  by (simp add: io_bind_def)

lemma io_bind_Inl: "m w = (Inl e, w') \<Longrightarrow> io_bind m f w = (Inl e, w')"
  by (simp add: io_bind_def)

lemma quiet_ret [simp]: "quiet (ret x)" "quiet (raise e)" "quiet (lift r)"
  by (simp_all add: quiet_def ret_def raise_def lift_def)

lemma quiet_external [simp]: "quiet (external f)"
  by (simp add: quiet_def external_def split: prod.split)

lemma quiet_exists [simp]: "quiet (exists env p)"
  by (simp add: quiet_def exists_def)

lemma quiet_do_upload [simp]: "quiet (do_upload env p)" "quiet (do_upload_transparent env p)"
  by (simp_all add: quiet_def do_upload_def do_upload_transparent_def api_calls_append
      split: prod.split)

lemma quiet_bind: "quiet m \<Longrightarrow> (\<And>x. quiet (f x)) \<Longrightarrow> quiet (io_bind m f)"
proof (unfold quiet_def, intro allI)
  fix w
  assume m: "\<forall>w. api_calls (trace (snd (m w))) = api_calls (trace w)"
    and f: "\<And>x. \<forall>w. api_calls (trace (snd (f x w))) = api_calls (trace w)"
  obtain r w1 where mw: "m w = (r, w1)" by (cases "m w")
  from m mw have w1: "api_calls (trace w1) = api_calls (trace w)" by (metis snd_conv)
  show "api_calls (trace (snd (io_bind m f w))) = api_calls (trace w)"
  proof (cases r)
    case (Inl e)
    with mw w1 show ?thesis by (simp add: io_bind_def)
  next
    case (Inr x)
    with mw w1 f [of x] show ?thesis by (simp add: io_bind_def)
  qed
qed

lemma quiet_try: "quiet m \<Longrightarrow> (\<And>e. quiet (h e)) \<Longrightarrow> quiet (try_except m h)"
proof (unfold quiet_def, intro allI)
  fix w
  assume m: "\<forall>w. api_calls (trace (snd (m w))) = api_calls (trace w)"
    and h: "\<And>e. \<forall>w. api_calls (trace (snd (h e w))) = api_calls (trace w)"
  obtain r w1 where mw: "m w = (r, w1)" by (cases "m w")
  from m mw have w1: "api_calls (trace w1) = api_calls (trace w)" by (metis snd_conv)
  show "api_calls (trace (snd (try_except m h w))) = api_calls (trace w)"
  proof (cases r)
    case (Inl e)
    with mw w1 h [of e] show ?thesis by (simp add: try_except_def)
  next
    case (Inr x)
    with mw w1 show ?thesis by (simp add: try_except_def)
  qed
qed

lemma quiet_upload_with_cache [simp]: "quiet (upload_with_cache env p)"
proof (unfold quiet_def, intro allI)
  fix w
  have q: "quiet (io_bind (do_upload env p)
             (\<lambda>u w'. (Inr u, w'\<lparr>cache := (cache w')(p \<mapsto> u)\<rparr>)))"
  proof (rule quiet_bind)
    show "quiet (do_upload env p)" by simp
    show "quiet (\<lambda>w'. (Inr u, w'\<lparr>cache := (cache w')(p \<mapsto> u)\<rparr>))" for u :: url
      by (simp add: quiet_def)
  qed
  show "api_calls (trace (snd (upload_with_cache env p w))) = api_calls (trace w)"
  proof (cases "cache w p")
    case None
    with q show ?thesis by (simp add: upload_with_cache_def quiet_def)
  next
    case (Some u)
    then show ?thesis by (simp add: upload_with_cache_def)
  qed
qed

lemma quiet_cached_if_exists [simp]: "quiet (cached_if_exists env p)"
  unfolding cached_if_exists_def
  by (intro quiet_bind quiet_exists) (simp add: quiet_bind)

lemma quiet_prepare_urls [simp]: "quiet (prepare_urls env design_file)"
  unfolding prepare_urls_def
  by (intro quiet_bind quiet_upload_with_cache quiet_cached_if_exists quiet_ret)

lemma aborts_bind_left: "aborts m \<Longrightarrow> aborts (io_bind m f)"
proof (unfold aborts_def, intro allI)
  fix w
  assume m: "\<forall>w. isl (fst (m w)) \<and> api_calls (trace (snd (m w))) = api_calls (trace w)"
  obtain r w1 where mw: "m w = (r, w1)" by (cases "m w")
  from m have "isl (fst (m w))" and q: "api_calls (trace (snd (m w))) = api_calls (trace w)"
    by simp_all
  with mw have "isl r" by simp
  then obtain e where "r = Inl e" by (cases r) simp_all
  with mw q show "isl (fst (io_bind m f w)) \<and>
        api_calls (trace (snd (io_bind m f w))) = api_calls (trace w)"
    by (simp add: io_bind_def)
qed

lemma aborts_bind_right: "quiet m \<Longrightarrow> (\<And>x. aborts (f x)) \<Longrightarrow> aborts (io_bind m f)"
proof (unfold aborts_def, intro allI)
  fix w
  assume m: "quiet m"
    and f: "\<And>x. \<forall>w. isl (fst (f x w)) \<and> api_calls (trace (snd (f x w))) = api_calls (trace w)"
  obtain r w1 where mw: "m w = (r, w1)" by (cases "m w")
  from m mw have w1: "api_calls (trace w1) = api_calls (trace w)"
    unfolding quiet_def by (metis snd_conv)
  show "isl (fst (io_bind m f w)) \<and>
        api_calls (trace (snd (io_bind m f w))) = api_calls (trace w)"
  proof (cases r)
    case (Inl e)
    with mw w1 show ?thesis by (simp add: io_bind_def)
  next
    case (Inr x)
    with mw w1 f [of x] show ?thesis by (simp add: io_bind_def)
  qed
qed

lemma aborts_raise [simp]: "aborts (raise e)"
  by (simp add: aborts_def raise_def)

lemma beanie_name: "get_product_name ''as_colour_1120'' = Inr ''AS Colour 1120 - Beanie''"
  by (simp add: get_product_name_def get_product_def PRODUCTS_def)

lemma beanie_prepare_aborts:
  assumes "\<forall>s. \<not> path_exists env (''ricami/'' @ design_name_of design_file @ ''.png'') s"
  shows "aborts (prepare_urls_for_product env design_file ''as_colour_1120'')"
proof -
  have "aborts (io_bind (exists env (''ricami/'' @ design_name_of design_file @ ''.png'')) f)"
    if "f False = raise (BeanieAssetMissing (''ricami/'' @ design_name_of design_file @ ''.png''))"
    for f :: "bool \<Rightarrow> (urls, 'a) io"
    using assms that by (simp add: aborts_def io_bind_def exists_def raise_def)
  then show ?thesis
    unfolding prepare_urls_for_product_def Let_def
    by (intro aborts_bind_right quiet_prepare_urls) simp
qed

lemma beanie_prepare_after_uploads:
  assumes "\<forall>s. \<not> path_exists env (''ricami/'' @ design_name_of design_file @ ''.png'') s"
    and "prepare_urls env design_file w = (Inr us, w1)"
  shows "prepare_urls_for_product env design_file ''as_colour_1120'' w
         = (Inl (BeanieAssetMissing (''ricami/'' @ design_name_of design_file @ ''.png'')), w1)"
  using assms
  by (simp add: prepare_urls_for_product_def Let_def io_bind_def exists_def raise_def)

lemma beanie_build_body_aborts:
  assumes "\<forall>s. \<not> path_exists env (''ricami/'' @ design_name_of design_file @ ''.png'') s"
  shows "aborts (build_body env design_file ''as_colour_1120'')"
  unfolding build_body_def Let_def beanie_name
  by (intro aborts_bind_right quiet_ret quiet_external aborts_bind_left
      beanie_prepare_aborts [OF assms])


text \<open>
  Claim C5, as amended. For the beanie product type (\<^verbatim>\<open>as_colour_1120\<close>), if the prepared
  asset \<^verbatim>\<open>ricami/<design_name>.png\<close> is absent, the build ends as a failed result and no
  request reaches the vendor, so no product is created; the missing asset is never
  skipped. The check runs after the standard uploads to the asset store (the design, and
  the logo and upscaled files when present): when those succeed, the failure is the
  missing-asset error, raised in the world those uploads left.
\<close>

theorem beanie_asset_missing:
  "(\<forall>s. \<not> path_exists env (''ricami/'' @ design_name_of design_file @ ''.png'') s) \<longrightarrow>
     \<not> clean_success (fst (build env design_file ''as_colour_1120'' w))
     \<and> api_calls (trace (snd (build env design_file ''as_colour_1120'' w))) = api_calls (trace w)
     \<and> (\<forall>vs s1 us w1.
           load_product_variants env ''as_colour_1120'' (ext w) = (Inr vs, s1)
           \<and> prepare_urls env design_file (w\<lparr>ext := s1\<rparr>) = (Inr us, w1) \<longrightarrow>
           build env design_file ''as_colour_1120'' w
           = (CleanFailed (BeanieAssetMissing (''ricami/'' @ design_name_of design_file @ ''.png'')),
              w1))"
proof (intro impI conjI allI)
  assume absent: "\<forall>s. \<not> path_exists env (''ricami/'' @ design_name_of design_file @ ''.png'') s"
  obtain r w' where run: "build_body env design_file ''as_colour_1120'' w = (r, w')"
    by (cases "build_body env design_file ''as_colour_1120'' w")
  from beanie_build_body_aborts [OF absent] run
  have "isl r" and q: "api_calls (trace w') = api_calls (trace w)"
    unfolding aborts_def by (metis fst_conv, metis snd_conv)
  then obtain e where "r = Inl e" by (cases r) simp_all
  with run have b: "build env design_file ''as_colour_1120'' w = (CleanFailed e, w')"
    by (simp add: build_def)
  from b show "\<not> clean_success (fst (build env design_file ''as_colour_1120'' w))" by simp
  from b q show "api_calls (trace (snd (build env design_file ''as_colour_1120'' w)))
        = api_calls (trace w)" by simp
  fix vs s1 us w1
  assume "load_product_variants env ''as_colour_1120'' (ext w) = (Inr vs, s1)
           \<and> prepare_urls env design_file (w\<lparr>ext := s1\<rparr>) = (Inr us, w1)"
  then have l: "external (load_product_variants env ''as_colour_1120'') w = (Inr vs, w\<lparr>ext := s1\<rparr>)"
    and p: "prepare_urls env design_file (w\<lparr>ext := s1\<rparr>) = (Inr us, w1)"
    by (simp_all add: external_def)
  have "build_body env design_file ''as_colour_1120'' w
        = (Inl (BeanieAssetMissing (''ricami/'' @ design_name_of design_file @ ''.png'')), w1)"
    unfolding build_body_def Let_def beanie_name
    by (simp add: io_bind_def lift_def l beanie_prepare_after_uploads [OF absent p])
  then show "build env design_file ''as_colour_1120'' w
           = (CleanFailed (BeanieAssetMissing (''ricami/'' @ design_name_of design_file @ ''.png'')),
              w1)"
    by (simp add: build_def)
qed

lemma scripted_sel [simp]:
  "get_available_products (scripted fs) = known_products"
  "load_product_variants (scripted fs) pt s = (Inr (catalog_variants s), s)"
  "get_product_info_name (scripted fs) pt s = Some pt"
  "path_exists (scripted fs) path s = (path \<in> set fs)"
  "upload_image (scripted fs) path = next_upload_reply"
  "upload_image_with_transparency (scripted fs) path = next_upload_reply"
  "create_left_aligned_image (scripted fs) path s = (Inr (path @ ''.left''), s)"
  "scale_and_save (scripted fs) source target s = (Inr (), s)"
  "os_remove (scripted fs) path s = (Inr (), s)"
  "api_request (scripted fs) req = next_api_reply"
  by (simp_all add: scripted_def)

lemmas io_simps =
  io_bind_def lift_def external_def ret_def raise_def exists_def try_except_def
  do_upload_def do_upload_transparent_def api_call_def upload_with_cache_def
  next_upload_reply_def next_api_reply_def start_def Let_def

lemma cat_design_name: "design_name_of ''designs/cat.png'' = ''cat''"
  by (simp add: design_name_of_def splitext_root_def basename_def)

text \<open>
  The claim as stated fails: the design has been uploaded to the asset store, a network
  call, by the time the missing asset is found.
\<close>

theorem beanie_upload_precedes_check:
  "fst (build (scripted [''designs/cat.png'']) ''designs/cat.png'' ''as_colour_1120''
         (start beanie_without_asset))
     = CleanFailed (BeanieAssetMissing ''ricami/cat.png'')
   \<and> trace (snd (build (scripted [''designs/cat.png'']) ''designs/cat.png'' ''as_colour_1120''
         (start beanie_without_asset)))
     = [Upload ''designs/cat.png'' (Inr ''https://img/cat'')]"
  by (simp add: build_def build_body_def prepare_urls_for_product_def prepare_urls_def
      cached_if_exists_def io_simps beanie_name cat_design_name beanie_without_asset_def)

theorem beanie_asset_missing_witness:
  "\<not> clean_success (fst (build (scripted [''designs/cat.png'']) ''designs/cat.png''
       ''as_colour_1120'' (start beanie_without_asset)))
   \<and> api_calls (trace (snd (build (scripted [''designs/cat.png'']) ''designs/cat.png''
       ''as_colour_1120'' (start beanie_without_asset)))) = []"
proof -
  have absent: "\<forall>s. \<not> path_exists (scripted [''designs/cat.png''])
                  (''ricami/'' @ design_name_of ''designs/cat.png'' @ ''.png'') s"
    by (simp add: cat_design_name)
  have "api_calls (trace (start beanie_without_asset)) = []"
    by (simp add: start_def api_calls_def List.map_filter_simps)
  with beanie_asset_missing [of "scripted [''designs/cat.png'']" "''designs/cat.png''"
      "start beanie_without_asset", THEN mp, OF absent]
  show ?thesis by simp
qed

section \<open>Running the builders on a script\<close>

lemma api_call_run:
  assumes "api_request env req (ext w) = (rep, s')"
  shows "api_call env req w = (rep, w\<lparr>ext := s', trace := trace w @ [Api req rep]\<rparr>)"
  using assms by (simp add: api_call_def)

lemmas modular_build_simps =
  build_single_product_def build_single_product_body_def prepare_product_urls_def
  optional_upload_def create_initial_product_def create_variant_payload_def
  create_variant_files_config_def variant_files_of_def variant_file_for_def slot_url_def
  truthy_def validate_product_compatibility_def created_product_id_def
  result_sync_variants_def code_ok_def add_remaining_variants_batch_def
  modular_initial_variants_def modular_remaining_variants_def py_slice_def
  List.map_filter_simps

lemmas clean_build_simps =
  build_def build_body_def prepare_urls_for_product_def prepare_urls_def cached_if_exists_def
  create_product_def build_variants_payload_def build_files_config_def files_of_def
  clean_file_for_def clean_slot_url_def truthy_def response_result_id_def final_count_def
  code_ok_def clean_initial_batch_def clean_remaining_def clean_batch_starts_def py_slice_def
  List.map_filter_simps

lemmas creator_build_simps =
  build_single_product_creator_def build_single_product_creator_body_def
  final_state_creator_def
  prepare_urls_creator_def optional_upload_def create_initial_product_creator_def
  create_variant_payload_def create_variant_files_config_def variant_files_of_def
  variant_file_for_def slot_url_def truthy_def ok_with_result_def usable_result_id_def
  result_sync_variants_def code_ok_def py_slice_def List.map_filter_simps

lemma gildan_5000_name: "get_product_name ''gildan_5000'' = Inr ''Gildan 5000 - T-shirt''"
  by (simp add: get_product_name_def get_product_def PRODUCTS_def)

lemma sample_variants_3:
  "sample_variants 3 =
     [\<lparr>variant_id = Some 0, size = ''M'', color = ''Black'', price = 25\<rparr>,
      \<lparr>variant_id = Some 1, size = ''M'', color = ''Black'', price = 25\<rparr>,
      \<lparr>variant_id = Some 2, size = ''M'', color = ''Black'', price = 25\<rparr>]"
  by (simp add: sample_variants_def upt_rec)

lemma product_state_3:
  "product_state pid 3 =
     \<lparr>res_id = None, res_sync_product = Some \<lparr>sp_id = Some pid\<rparr>,
      res_sync_variants = Some [\<lparr>rv_id = Some 1000\<rparr>, \<lparr>rv_id = Some 1001\<rparr>, \<lparr>rv_id = Some 1002\<rparr>]\<rparr>"
  by (simp add: product_state_def upt_rec)


lemma creator_rejected:
  "fst (build_single_product_creator (scripted [''designs/cat.png'']) ''designs/cat.png''
         ''gildan_5000'' (start final_read_rejected_after_info))
     = CreatorSucceeded 7 [\<lparr>rv_id = Some 1000\<rparr>, \<lparr>rv_id = Some 1001\<rparr>, \<lparr>rv_id = Some 1002\<rparr>] 3 3"
  by (simp add: creator_build_simps io_simps gildan_5000_placements_m
      cat_design_name final_read_rejected_after_info_def sample_variants_3 product_state_3 reply_def)


lemma creator_after_append:
  "creator_success (fst (build_single_product_creator (scripted [''designs/cat.png''])
         ''designs/cat.png'' ''gildan_5000'' (start final_read_rejected_after_append)))"
  "mc_total_variants_created (fst (build_single_product_creator (scripted [''designs/cat.png''])
         ''designs/cat.png'' ''gildan_5000'' (start final_read_rejected_after_append))) = 11"
  "mc_total_variants_requested (fst (build_single_product_creator (scripted [''designs/cat.png''])
         ''designs/cat.png'' ''gildan_5000'' (start final_read_rejected_after_append))) = 11"
  "map method_of (api_calls (trace (snd (build_single_product_creator (scripted [''designs/cat.png''])
         ''designs/cat.png'' ''gildan_5000'' (start final_read_rejected_after_append)))))
   = [''POST'', ''GET'', ''PUT'', ''GET'', ''GET'']"
  by (simp_all add: creator_build_simps io_simps gildan_5000_placements_m
      cat_design_name final_read_rejected_after_append_def reply_def total_batches_def
      sample_variants_def product_state_def upt_rec modular_batch_def
      api_calls_def)

section \<open>Creation reply and product identifier\<close>


lemma creation_replies_single [simp]:
  "creation_replies [] = []"
  "creation_replies [Upload p r] = []"
  "creation_replies [UploadTransparent p r] = []"
  "creation_replies [Api (GET ep) r'] = []"
  "creation_replies [Api (PUT ep pl) r'] = []"
  "creation_replies [Api (POST ep pl) r'] = [r']"
  by (simp_all add: creation_replies_def List.map_filter_simps)








































lemma documented_creation_succeeds:
  "fst (build_single_product (scripted [''designs/cat.png'']) ''designs/cat.png''
         ''gildan_5000'' (start documented_creation))
     = BuildSucceeded 7 [\<lparr>rv_id = Some 1000\<rparr>, \<lparr>rv_id = Some 1001\<rparr>, \<lparr>rv_id = Some 1002\<rparr>] 3 3"
  by (simp add: modular_build_simps io_simps gildan_5000_placements_m
      cat_design_name documented_creation_def sample_variants_3 product_state_3 reply_def)




section \<open>Final verification read\<close>

lemma reports_bind: "(\<And>x. reports_final_read (f x)) \<Longrightarrow> reports_final_read (io_bind m f)"
proof (unfold reports_final_read_def, intro allI impI)
  fix w r w'
  assume f: "\<And>x. \<forall>w r w'. f x w = (Inr r, w') \<and> success r \<longrightarrow>
        (\<exists>tr pid resp vs n.
           trace w' = tr @ [Api (GET (StoreProduct pid)) (Inr resp)]
           \<and> code_ok resp \<and> result_sync_variants resp = Inr vs
           \<and> r = BuildSucceeded pid vs n (length vs))"
    and run: "io_bind m f w = (Inr r, w') \<and> success r"
  obtain r1 w1 where mw: "m w = (r1, w1)" by (cases "m w")
  show "\<exists>tr pid resp vs n.
           trace w' = tr @ [Api (GET (StoreProduct pid)) (Inr resp)]
           \<and> code_ok resp \<and> result_sync_variants resp = Inr vs
           \<and> r = BuildSucceeded pid vs n (length vs)"
  proof (cases r1)
    case (Inl e)
    with mw run show ?thesis by (simp add: io_bind_def)
  next
    case (Inr x)
    with mw run have "f x w1 = (Inr r, w') \<and> success r" by (simp add: io_bind_def)
    with f [of x] show ?thesis by blast
  qed
qed

lemma reports_failed [simp]: "reports_final_read (ret (BuildFailed e))"
  by (simp add: reports_final_read_def ret_def)

lemma reports_final_step:
  "reports_final_read
     (io_bind (api_call env (GET (StoreProduct pid))) (\<lambda>final_info.
        if \<not> code_ok final_info then ret (BuildFailed (FinalStateError final_info))
        else io_bind (lift (result_sync_variants final_info)) (\<lambda>vs.
               ret (BuildSucceeded pid vs n (length vs)))))"
proof (unfold reports_final_read_def, intro allI impI)
  fix w r w'
  let ?m = "io_bind (api_call env (GET (StoreProduct pid))) (\<lambda>final_info.
        if \<not> code_ok final_info then ret (BuildFailed (FinalStateError final_info))
        else io_bind (lift (result_sync_variants final_info)) (\<lambda>vs.
               ret (BuildSucceeded pid vs n (length vs))))"
  assume run: "?m w = (Inr r, w') \<and> success r"
  obtain rep s' where call: "api_request env (GET (StoreProduct pid)) (ext w) = (rep, s')"
    by (cases "api_request env (GET (StoreProduct pid)) (ext w)")
  show "\<exists>tr pid resp vs n.
           trace w' = tr @ [Api (GET (StoreProduct pid)) (Inr resp)]
           \<and> code_ok resp \<and> result_sync_variants resp = Inr vs
           \<and> r = BuildSucceeded pid vs n (length vs)"
  proof (cases rep)
    case (Inl e)
    with run call show ?thesis by (simp add: io_bind_def api_call_def)
  next
    case (Inr resp)
    show ?thesis
    proof (cases "code_ok resp")
      case False
      with run call Inr show ?thesis by (auto simp add: io_bind_def api_call_def ret_def)
    next
      case True
      show ?thesis
      proof (cases "result_sync_variants resp")
        case (Inl e)
        with run call Inr True show ?thesis
          by (simp add: io_bind_def api_call_def ret_def lift_def)
      next
        case (Inr vs)
        with run call \<open>rep = Inr resp\<close> True
        have "trace w' = trace w @ [Api (GET (StoreProduct pid)) (Inr resp)]"
          and "r = BuildSucceeded pid vs n (length vs)"
          by (auto simp add: io_bind_def api_call_def ret_def lift_def)
        with True Inr show ?thesis by blast
      qed
    qed
  qed
qed

lemma modular_body_reports:
  "reports_final_read (build_single_product_body env design_file product_type)"
  unfolding build_single_product_body_def Let_def
  by (intro reports_bind reports_final_step)
    (simp split: option.split add: reports_bind reports_final_step)


lemma clean_reports_bind:
  "(\<And>x. clean_reports_final_read (f x)) \<Longrightarrow> clean_reports_final_read (io_bind m f)"
proof (unfold clean_reports_final_read_def, intro allI impI)
  fix w r w'
  assume f: "\<And>x. \<forall>w r w'. f x w = (Inr r, w') \<and> clean_success r \<longrightarrow>
        (\<exists>tr pid resp n res.
           trace w' = tr @ [Api (GET (StoreProduct pid)) (Inr resp)]
           \<and> final_count resp = Inr (n, res) \<and> r = CleanSucceeded pid n res)"
    and run: "io_bind m f w = (Inr r, w') \<and> clean_success r"
  obtain r1 w1 where mw: "m w = (r1, w1)" by (cases "m w")
  show "\<exists>tr pid resp n res.
           trace w' = tr @ [Api (GET (StoreProduct pid)) (Inr resp)]
           \<and> final_count resp = Inr (n, res) \<and> r = CleanSucceeded pid n res"
  proof (cases r1)
    case (Inl e)
    with mw run show ?thesis by (simp add: io_bind_def)
  next
    case (Inr x)
    with mw run have "f x w1 = (Inr r, w') \<and> clean_success r" by (simp add: io_bind_def)
    with f [of x] show ?thesis by blast
  qed
qed

lemma clean_reports_final_step:
  "clean_reports_final_read
     (io_bind (api_call env (GET (StoreProduct pid))) (\<lambda>final_product.
        io_bind (lift (final_count final_product)) (\<lambda>nr.
          ret (CleanSucceeded pid (fst nr) (snd nr)))))"
proof (unfold clean_reports_final_read_def, intro allI impI)
  fix w r w'
  let ?m = "io_bind (api_call env (GET (StoreProduct pid))) (\<lambda>final_product.
        io_bind (lift (final_count final_product)) (\<lambda>nr.
          ret (CleanSucceeded pid (fst nr) (snd nr))))"
  assume run: "?m w = (Inr r, w') \<and> clean_success r"
  obtain rep s' where call: "api_request env (GET (StoreProduct pid)) (ext w) = (rep, s')"
    by (cases "api_request env (GET (StoreProduct pid)) (ext w)")
  show "\<exists>tr pid resp n res.
           trace w' = tr @ [Api (GET (StoreProduct pid)) (Inr resp)]
           \<and> final_count resp = Inr (n, res) \<and> r = CleanSucceeded pid n res"
  proof (cases rep)
    case (Inl e)
    with run call show ?thesis by (simp add: io_bind_def api_call_def)
  next
    case (Inr resp)
    show ?thesis
    proof (cases "final_count resp")
      case (Inl e)
      with run call Inr show ?thesis by (simp add: io_bind_def api_call_def ret_def lift_def)
    next
      case inr: (Inr nr)
      with run call Inr
      have "trace w' = trace w @ [Api (GET (StoreProduct pid)) (Inr resp)]"
        and "r = CleanSucceeded pid (fst nr) (snd nr)"
        by (auto simp add: io_bind_def api_call_def ret_def lift_def)
      moreover have "final_count resp = Inr (fst nr, snd nr)" using inr by simp
      ultimately show ?thesis by blast
    qed
  qed
qed

lemma clean_body_reports:
  "clean_reports_final_read (build_body env design_file product_type)"
  unfolding build_body_def Let_def
  by (intro clean_reports_bind clean_reports_final_step)

text \<open>
  In the modular builder and in the clean builder a successful result is only ever
  reported after a final read that returned (with a success code, in the modular
  builder), and its counts are those of the reply to that read: when the last vendor
  call of a build is a read that raised, or in the modular builder a read answered with
  a non-success code, the result is a failure.
\<close>

lemma success_rests_on_final_read:
  "(build_single_product env design_file product_type w = (r, w') \<and> success r \<longrightarrow>
      (\<exists>tr pid resp vs n.
         trace w' = tr @ [Api (GET (StoreProduct pid)) (Inr resp)]
         \<and> code_ok resp \<and> result_sync_variants resp = Inr vs
         \<and> r = BuildSucceeded pid vs n (length vs)))
   \<and> (build_single_product env design_file product_type w = (r, w')
       \<and> (\<exists>tr req e. trace w' = tr @ [Api req (Inl e)]) \<longrightarrow> \<not> success r)
   \<and> (build_single_product env design_file product_type w = (r, w')
       \<and> (\<exists>tr req resp. trace w' = tr @ [Api req (Inr resp)] \<and> \<not> code_ok resp) \<longrightarrow>
       \<not> success r)
   \<and> (build env design_file product_type cw = (cr, cw') \<and> clean_success cr \<longrightarrow>
      (\<exists>tr pid resp n res.
         trace cw' = tr @ [Api (GET (StoreProduct pid)) (Inr resp)]
         \<and> final_count resp = Inr (n, res) \<and> cr = CleanSucceeded pid n res))
   \<and> (build env design_file product_type cw = (cr, cw')
       \<and> (\<exists>tr req e. trace cw' = tr @ [Api req (Inl e)]) \<longrightarrow> \<not> clean_success cr)"
proof -
  have modular: "\<exists>tr pid resp vs n.
         trace w' = tr @ [Api (GET (StoreProduct pid)) (Inr resp)]
         \<and> code_ok resp \<and> result_sync_variants resp = Inr vs
         \<and> r = BuildSucceeded pid vs n (length vs)"
    if run: "build_single_product env design_file product_type w = (r, w')" and ok: "success r"
  proof -
    obtain r0 w0 where body: "build_single_product_body env design_file product_type w = (r0, w0)"
      by (cases "build_single_product_body env design_file product_type w")
    show ?thesis
    proof (cases r0)
      case (Inl e)
      with body run ok show ?thesis by (auto simp add: build_single_product_def)
    next
      case (Inr x)
      with body run have "build_single_product_body env design_file product_type w = (Inr r, w')"
        by (simp add: build_single_product_def)
      with ok modular_body_reports [of env design_file product_type] show ?thesis
        unfolding reports_final_read_def by blast
    qed
  qed
  have clean: "\<exists>tr pid resp n res.
         trace cw' = tr @ [Api (GET (StoreProduct pid)) (Inr resp)]
         \<and> final_count resp = Inr (n, res) \<and> cr = CleanSucceeded pid n res"
    if run: "build env design_file product_type cw = (cr, cw')" and ok: "clean_success cr"
  proof -
    obtain r0 w0 where body: "build_body env design_file product_type cw = (r0, w0)"
      by (cases "build_body env design_file product_type cw")
    show ?thesis
    proof (cases r0)
      case (Inl e)
      with body run ok show ?thesis by (auto simp add: build_def)
    next
      case (Inr x)
      with body run have "build_body env design_file product_type cw = (Inr cr, cw')"
        by (simp add: build_def)
      with ok clean_body_reports [of env design_file product_type] show ?thesis
        unfolding clean_reports_final_read_def by blast
    qed
  qed
  show ?thesis
  proof (intro conjI impI)
    assume "build_single_product env design_file product_type w = (r, w') \<and> success r"
    then show "\<exists>tr pid resp vs n.
         trace w' = tr @ [Api (GET (StoreProduct pid)) (Inr resp)]
         \<and> code_ok resp \<and> result_sync_variants resp = Inr vs
         \<and> r = BuildSucceeded pid vs n (length vs)"
      using modular by blast
  next
    assume a: "build_single_product env design_file product_type w = (r, w')
       \<and> (\<exists>tr req e. trace w' = tr @ [Api req (Inl e)])"
    show "\<not> success r"
    proof
      assume "success r"
      with a modular obtain tr pid resp where
        "trace w' = tr @ [Api (GET (StoreProduct pid)) (Inr resp)]" by blast
      with a show False by auto
    qed
  next
    assume a: "build_single_product env design_file product_type w = (r, w')
       \<and> (\<exists>tr req resp. trace w' = tr @ [Api req (Inr resp)] \<and> \<not> code_ok resp)"
    show "\<not> success r"
    proof
      assume "success r"
      with a modular obtain tr pid resp where
        "trace w' = tr @ [Api (GET (StoreProduct pid)) (Inr resp)]" "code_ok resp" by blast
      with a show False by auto
    qed
  next
    assume "build env design_file product_type cw = (cr, cw') \<and> clean_success cr"
    then show "\<exists>tr pid resp n res.
         trace cw' = tr @ [Api (GET (StoreProduct pid)) (Inr resp)]
         \<and> final_count resp = Inr (n, res) \<and> cr = CleanSucceeded pid n res"
      using clean by blast
  next
    assume a: "build env design_file product_type cw = (cr, cw')
       \<and> (\<exists>tr req e. trace cw' = tr @ [Api req (Inl e)])"
    show "\<not> clean_success cr"
    proof
      assume "clean_success cr"
      with a clean obtain tr pid resp where
        "trace cw' = tr @ [Api (GET (StoreProduct pid)) (Inr resp)]" by blast
      with a show False by auto
    qed
  qed
qed

lemma last_or_none:
  "(case ys of [] \<Rightarrow> None | v # vss \<Rightarrow> Some (last (v # vss)))
   = (if ys = [] then None else Some (last ys))"
  by (cases ys) simp_all

lemma held_snoc:
  "held_in_memory (tr @ [ev])
   = (case read_variants ev of Some vs \<Rightarrow> Some vs | None \<Rightarrow> held_in_memory tr)"
  by (cases "read_variants ev")
    (simp_all add: held_in_memory_def last_or_none List.map_filter_def)

lemma held_update [simp]: "held_in_memory (tr @ [Api (PUT ep pl) r]) = held_in_memory tr"
  by (simp add: held_snoc)

lemma held_read:
  "held_in_memory (tr @ [Api (GET ep) (Inr resp)])
   = (if code_ok resp
      then (case result_sync_variants resp of
              Inl e \<Rightarrow> held_in_memory tr | Inr vs \<Rightarrow> Some vs)
      else held_in_memory tr)"
  by (simp add: held_snoc split: sum.split)

lemma held_update_read:
  "held_in_memory (tr @ [Api (PUT ep pl) r, Api (GET ep') (Inr resp)])
   = (if code_ok resp
      then (case result_sync_variants resp of
              Inl e \<Rightarrow> held_in_memory tr | Inr vs \<Rightarrow> Some vs)
      else held_in_memory tr)"
  using held_read [of "tr @ [Api (PUT ep pl) r]" ep' resp] by (simp split: sum.split)

lemma append_loop_creator_step:
  assumes "collect (map (\<lambda>v. create_variant_payload v pt us) (modular_batch remaining b)) = Inr bsv"
    and "api_request env (PUT (StoreProduct pid)
           \<lparr>pl_name = name, pl_thumbnail = design_url us,
            pl_sync_variants = map (\<lambda>existing. ExistingRef (rv_id existing)) cur @ bsv\<rparr>) (ext w)
         = (rep, s1)"
  shows "append_loop_creator env pid remaining pt us name (b # rest) cur w
      = (case rep of
           Inl e \<Rightarrow> (Inl e, w\<lparr>ext := s1, trace := trace w @ [Api (PUT (StoreProduct pid)
               \<lparr>pl_name = name, pl_thumbnail = design_url us,
                pl_sync_variants = map (\<lambda>existing. ExistingRef (rv_id existing)) cur @ bsv\<rparr>)
                 rep]\<rparr>)
         | Inr batch_response \<Rightarrow>
            if ok_with_result batch_response
            then io_bind (api_call env (GET (StoreProduct pid))) (\<lambda>updated_info_response.
                   if code_ok updated_info_response
                   then io_bind (lift (result_sync_variants updated_info_response))
                          (\<lambda>vs. append_loop_creator env pid remaining pt us name rest vs)
                   else append_loop_creator env pid remaining pt us name rest cur)
                   (w\<lparr>ext := s1, trace := trace w @ [Api (PUT (StoreProduct pid)
               \<lparr>pl_name = name, pl_thumbnail = design_url us,
                pl_sync_variants = map (\<lambda>existing. ExistingRef (rv_id existing)) cur @ bsv\<rparr>)
                 rep]\<rparr>)
            else append_loop_creator env pid remaining pt us name rest cur
                   (w\<lparr>ext := s1, trace := trace w @ [Api (PUT (StoreProduct pid)
               \<lparr>pl_name = name, pl_thumbnail = design_url us,
                pl_sync_variants = map (\<lambda>existing. ExistingRef (rv_id existing)) cur @ bsv\<rparr>)
                 rep]\<rparr>))"
  using assms(1) api_call_run [OF assms(2)]
  by (simp add: io_bind_def lift_def Let_def split: sum.split)

lemma append_loop_creator_holds:
  "append_loop_creator env pid remaining pt us name batch_nums cur w = (Inr vs, w') \<Longrightarrow>
   held_in_memory (trace w) = Some cur \<Longrightarrow> held_in_memory (trace w') = Some vs"
proof (induction batch_nums arbitrary: cur w)
  case Nil
  then show ?case by (simp add: ret_def)
next
  case (Cons b rest)
  let ?loop = "append_loop_creator env pid remaining pt us name rest"
  show ?case
  proof (cases "collect (map (\<lambda>v. create_variant_payload v pt us) (modular_batch remaining b))")
    case (Inl e)
    with Cons.prems(1) show ?thesis by (simp add: io_bind_def lift_def)
  next
    case payload: (Inr bsv)
    let ?put = "PUT (StoreProduct pid)
           \<lparr>pl_name = name, pl_thumbnail = design_url us,
            pl_sync_variants = map (\<lambda>existing. ExistingRef (rv_id existing)) cur @ bsv\<rparr>"
    obtain rep s1 where put: "api_request env ?put (ext w) = (rep, s1)"
      by (cases "api_request env ?put (ext w)")
    let ?w1 = "w\<lparr>ext := s1, trace := trace w @ [Api ?put rep]\<rparr>"
    note step = append_loop_creator_step [where rest = rest, OF payload put]
    have h1: "held_in_memory (trace ?w1) = Some cur" using Cons.prems(2) by simp
    show ?thesis
    proof (cases rep)
      case (Inl e)
      with Cons.prems(1) show ?thesis unfolding step by simp
    next
      case rep: (Inr batch_response)
      show ?thesis
      proof (cases "ok_with_result batch_response")
        case False
        with Cons.prems(1) rep have "?loop cur ?w1 = (Inr vs, w')" unfolding step by simp
        from Cons.IH [OF this h1] show ?thesis .
      next
        case True
        let ?get = "GET (StoreProduct pid)"
        obtain rep2 s2 where get: "api_request env ?get (ext ?w1) = (rep2, s2)"
          by (cases "api_request env ?get (ext ?w1)")
        let ?w2 = "?w1\<lparr>ext := s2, trace := trace ?w1 @ [Api ?get rep2]\<rparr>"
        note call2 = api_call_run [OF get]
        show ?thesis
        proof (cases rep2)
          case (Inl e)
          with Cons.prems(1) rep True call2 show ?thesis unfolding step
            by (simp add: io_bind_def)
        next
          case rep2: (Inr updated)
          show ?thesis
          proof (cases "code_ok updated")
            case False
            with Cons.prems(1) rep True call2 rep2 have run: "?loop cur ?w2 = (Inr vs, w')"
              unfolding step by (simp add: io_bind_def)
            have "held_in_memory (trace ?w2) = Some cur"
              using Cons.prems(2) rep2 False by (simp add: held_update_read)
            from Cons.IH [OF run this] show ?thesis .
          next
            case ok2: True
            show ?thesis
            proof (cases "result_sync_variants updated")
              case (Inl e)
              with Cons.prems(1) rep True call2 rep2 ok2 show ?thesis unfolding step
                by (simp add: io_bind_def lift_def)
            next
              case vs2: (Inr vs2)
              with Cons.prems(1) rep True call2 rep2 ok2 have run: "?loop vs2 ?w2 = (Inr vs, w')"
                unfolding step by (simp add: io_bind_def lift_def)
              have "held_in_memory (trace ?w2) = Some vs2"
                using rep2 ok2 vs2 by (simp add: held_update_read)
              from Cons.IH [OF run this] show ?thesis .
            qed
          qed
        qed
      qed
    qed
  qed
qed

lemma final_state_creator_degrades:
  assumes "api_request env (GET (StoreProduct pid)) (ext w) = (Inr resp, s')"
    and "\<not> code_ok resp"
  shows "final_state_creator env pid n held w
         = (Inr (CreatorSucceeded pid held n (length held)),
            w\<lparr>ext := s', trace := trace w @ [Api (GET (StoreProduct pid)) (Inr resp)]\<rparr>)"
  using assms(2) api_call_run [OF assms(1)]
  by (simp add: final_state_creator_def io_bind_def ret_def)

lemma final_state_creator_reports:
  assumes run: "final_state_creator env pid n held w = (Inr r, w')"
  shows "\<exists>resp vs. trace w' = trace w @ [Api (GET (StoreProduct pid)) (Inr resp)]
           \<and> r = CreatorSucceeded pid vs n (length vs)
           \<and> (if code_ok resp then result_sync_variants resp = Inr vs else vs = held)"
proof -
  obtain rep s' where get: "api_request env (GET (StoreProduct pid)) (ext w) = (rep, s')"
    by (cases "api_request env (GET (StoreProduct pid)) (ext w)")
  note call = api_call_run [OF get]
  show ?thesis
  proof (cases rep)
    case (Inl e)
    with run call show ?thesis by (simp add: final_state_creator_def io_bind_def)
  next
    case rep: (Inr resp)
    show ?thesis
    proof (cases "code_ok resp")
      case False
      with run get rep final_state_creator_degrades [of env pid w resp s' n held]
      show ?thesis by auto
    next
      case True
      show ?thesis
      proof (cases "result_sync_variants resp")
        case (Inl e)
        with run call rep True show ?thesis
          by (simp add: final_state_creator_def io_bind_def lift_def)
      next
        case (Inr vs)
        with run call rep True show ?thesis
          by (auto simp add: final_state_creator_def io_bind_def lift_def ret_def)
      qed
    qed
  qed
qed

lemma creator_reports_bind:
  "(\<And>x. creator_reports_final_read (f x)) \<Longrightarrow> creator_reports_final_read (io_bind m f)"
proof (unfold creator_reports_final_read_def, intro allI impI)
  fix w r w'
  assume f: "\<And>x. \<forall>w r w'. f x w = (Inr r, w') \<and> creator_success r \<longrightarrow>
        (\<exists>tr pid resp vs n.
           trace w' = tr @ [Api (GET (StoreProduct pid)) (Inr resp)]
           \<and> r = CreatorSucceeded pid vs n (length vs)
           \<and> (if code_ok resp then result_sync_variants resp = Inr vs
               else held_in_memory tr = Some vs))"
    and run: "io_bind m f w = (Inr r, w') \<and> creator_success r"
  obtain r1 w1 where mw: "m w = (r1, w1)" by (cases "m w")
  show "\<exists>tr pid resp vs n.
           trace w' = tr @ [Api (GET (StoreProduct pid)) (Inr resp)]
           \<and> r = CreatorSucceeded pid vs n (length vs)
           \<and> (if code_ok resp then result_sync_variants resp = Inr vs
               else held_in_memory tr = Some vs)"
  proof (cases r1)
    case (Inl e)
    with mw run show ?thesis by (simp add: io_bind_def)
  next
    case (Inr x)
    with mw run have "f x w1 = (Inr r, w') \<and> creator_success r" by (simp add: io_bind_def)
    with f [of x] show ?thesis by blast
  qed
qed

lemma creator_reports_failed: "creator_reports_final_read (ret (CreatorFailed e))"
  by (simp add: creator_reports_final_read_def ret_def)

lemma creator_reports_if:
  "creator_reports_final_read a \<Longrightarrow> creator_reports_final_read b \<Longrightarrow>
   creator_reports_final_read (if c then a else b)"
  by simp

lemma creator_reports_case:
  "creator_reports_final_read a \<Longrightarrow> (\<And>x. creator_reports_final_read (f x)) \<Longrightarrow>
   creator_reports_final_read (case opt of None \<Rightarrow> a | Some x \<Rightarrow> f x)"
  by (cases opt) simp_all

lemma creator_rest_reports:
  "creator_reports_final_read
     (io_bind (api_call env (GET (StoreProduct pid))) (\<lambda>product_info_response.
      if \<not> ok_with_result product_info_response
      then ret (CreatorFailed (ProductInfoFailed product_info_response))
      else
        io_bind (lift (result_sync_variants product_info_response)) (\<lambda>created_variants.
        io_bind (if remaining \<noteq> []
                 then append_loop_creator env pid remaining pt us name batch_nums created_variants
                 else ret created_variants) (\<lambda>sync_variants_result.
        final_state_creator env pid n sync_variants_result))))"
proof (unfold creator_reports_final_read_def, intro allI impI)
  fix w r w'
  let ?loop = "\<lambda>created_variants. if remaining \<noteq> []
                 then append_loop_creator env pid remaining pt us name batch_nums created_variants
                 else ret created_variants"
  let ?m = "io_bind (api_call env (GET (StoreProduct pid))) (\<lambda>product_info_response.
      if \<not> ok_with_result product_info_response
      then ret (CreatorFailed (ProductInfoFailed product_info_response))
      else
        io_bind (lift (result_sync_variants product_info_response)) (\<lambda>created_variants.
        io_bind (?loop created_variants) (\<lambda>sync_variants_result.
        final_state_creator env pid n sync_variants_result)))"
  assume run: "?m w = (Inr r, w') \<and> creator_success r"
  obtain rep s1 where get: "api_request env (GET (StoreProduct pid)) (ext w) = (rep, s1)"
    by (cases "api_request env (GET (StoreProduct pid)) (ext w)")
  let ?w1 = "w\<lparr>ext := s1, trace := trace w @ [Api (GET (StoreProduct pid)) rep]\<rparr>"
  note call = api_call_run [OF get]
  show "\<exists>tr pid resp vs n.
           trace w' = tr @ [Api (GET (StoreProduct pid)) (Inr resp)]
           \<and> r = CreatorSucceeded pid vs n (length vs)
           \<and> (if code_ok resp then result_sync_variants resp = Inr vs
               else held_in_memory tr = Some vs)"
  proof (cases rep)
    case (Inl e)
    with run call show ?thesis by (simp add: io_bind_def)
  next
    case rep: (Inr info)
    show ?thesis
    proof (cases "ok_with_result info")
      case False
      with run call rep show ?thesis by (auto simp add: io_bind_def ret_def)
    next
      case ok: True
      then obtain created where created: "result_sync_variants info = Inr created"
        by (auto simp add: ok_with_result_def result_sync_variants_def)
      have h1: "held_in_memory (trace ?w1) = Some created"
        using rep ok created by (simp add: held_read ok_with_result_def)
      obtain r2 w2 where loop: "?loop created ?w1 = (r2, w2)" by (cases "?loop created ?w1")
      show ?thesis
      proof (cases r2)
        case (Inl e)
        with run call rep ok created loop show ?thesis
          by (simp add: io_bind_def lift_def)
      next
        case (Inr held)
        with loop have l: "?loop created ?w1 = (Inr held, w2)" by simp
        have h2: "held_in_memory (trace w2) = Some held"
        proof (cases "remaining = []")
          case True
          with l h1 show ?thesis by (simp add: ret_def)
        next
          case False
          with l have "append_loop_creator env pid remaining pt us name batch_nums created ?w1
              = (Inr held, w2)" by simp
          from append_loop_creator_holds [OF this h1] show ?thesis .
        qed
        from run call rep ok created l
        have "final_state_creator env pid n held w2 = (Inr r, w')"
          by (simp add: io_bind_def lift_def)
        from final_state_creator_reports [OF this] obtain resp vs where
          "trace w' = trace w2 @ [Api (GET (StoreProduct pid)) (Inr resp)]"
          "r = CreatorSucceeded pid vs n (length vs)"
          "if code_ok resp then result_sync_variants resp = Inr vs else vs = held" by blast
        with h2 have "trace w' = trace w2 @ [Api (GET (StoreProduct pid)) (Inr resp)]
           \<and> r = CreatorSucceeded pid vs n (length vs)
           \<and> (if code_ok resp then result_sync_variants resp = Inr vs
               else held_in_memory (trace w2) = Some vs)"
          by (cases "code_ok resp") simp_all
        then show ?thesis by blast
      qed
    qed
  qed
qed

lemma creator_body_reports:
  "creator_reports_final_read (build_single_product_creator_body env design_file product_type)"
  unfolding build_single_product_creator_body_def Let_def
  by (intro creator_reports_bind creator_reports_if creator_reports_case
      creator_reports_failed creator_rest_reports)

lemma final_read_rejected_run:
  "fst (build_single_product (scripted [''designs/cat.png'']) ''designs/cat.png''
         ''gildan_5000'' (start final_read_rejected))
     = BuildFailed (FinalStateError \<lparr>code = Some 500, result = None\<rparr>)"
  "trace (snd (build_single_product (scripted [''designs/cat.png'']) ''designs/cat.png''
         ''gildan_5000'' (start final_read_rejected)))
     = butlast (trace (snd (build_single_product (scripted [''designs/cat.png''])
         ''designs/cat.png'' ''gildan_5000'' (start final_read_rejected))))
       @ [Api (GET (StoreProduct 7)) (Inr \<lparr>code = Some 500, result = None\<rparr>)]"
  by (simp_all add: modular_build_simps io_simps gildan_5000_placements_m
      cat_design_name final_read_rejected_def sample_variants_3 product_state_3 reply_def)

text \<open>
  Claim C3, as amended. When the final read comes back without a success code, only
  \<^verbatim>\<open>ModularProductCreator._build_single_product\<close> does not fail: its last step returns a
  success built from the variant list held in memory, and whenever it reports success
  after such a read, that list is the one of the last read answered with a success code.
  \<^verbatim>\<open>build_single_product\<close> of the modular builder fails the build then, and
  \<^verbatim>\<open>ProductBuilder.build\<close> of the clean builder, which does not look at the code, reports
  the counts of the reply or fails. When the final read raises, the build fails in all
  three builders. In each of them a successful result is only reported after a final
  read that returned, and when that read has a success code (whatever its code, in the
  clean builder) the counts are those of its reply.
\<close>

theorem final_read_outcome:
  "(build_single_product env design_file product_type w = (r, w') \<and> success r \<longrightarrow>
      (\<exists>tr pid resp vs n.
         trace w' = tr @ [Api (GET (StoreProduct pid)) (Inr resp)]
         \<and> code_ok resp \<and> result_sync_variants resp = Inr vs
         \<and> r = BuildSucceeded pid vs n (length vs)))
   \<and> (build_single_product env design_file product_type w = (r, w')
       \<and> (\<exists>tr req e. trace w' = tr @ [Api req (Inl e)]) \<longrightarrow> \<not> success r)
   \<and> (build_single_product env design_file product_type w = (r, w')
       \<and> (\<exists>tr req resp. trace w' = tr @ [Api req (Inr resp)] \<and> \<not> code_ok resp) \<longrightarrow>
       \<not> success r)
   \<and> (build env design_file product_type cw = (cr, cw') \<and> clean_success cr \<longrightarrow>
      (\<exists>tr pid resp n res.
         trace cw' = tr @ [Api (GET (StoreProduct pid)) (Inr resp)]
         \<and> final_count resp = Inr (n, res) \<and> cr = CleanSucceeded pid n res))
   \<and> (build env design_file product_type cw = (cr, cw')
       \<and> (\<exists>tr req e. trace cw' = tr @ [Api req (Inl e)]) \<longrightarrow> \<not> clean_success cr)
   \<and> (build_single_product_creator env design_file product_type mw = (mr, mw')
       \<and> creator_success mr \<longrightarrow>
      (\<exists>tr pid resp vs n.
         trace mw' = tr @ [Api (GET (StoreProduct pid)) (Inr resp)]
         \<and> mr = CreatorSucceeded pid vs n (length vs)
         \<and> (if code_ok resp then result_sync_variants resp = Inr vs
             else held_in_memory tr = Some vs)))
   \<and> (build_single_product_creator env design_file product_type mw = (mr, mw')
       \<and> (\<exists>tr req e. trace mw' = tr @ [Api req (Inl e)]) \<longrightarrow> \<not> creator_success mr)
   \<and> (api_request env (GET (StoreProduct p)) (ext fw) = (Inr rejected, fs)
       \<and> \<not> code_ok rejected \<longrightarrow>
       final_state_creator env p requested held fw
       = (Inr (CreatorSucceeded p held requested (length held)),
          fw\<lparr>ext := fs, trace := trace fw @ [Api (GET (StoreProduct p)) (Inr rejected)]\<rparr>))"
proof -
  note two = success_rests_on_final_read [of env design_file product_type w r w' cw cr cw']
  have creator: "\<exists>tr pid resp vs n.
         trace mw' = tr @ [Api (GET (StoreProduct pid)) (Inr resp)]
         \<and> mr = CreatorSucceeded pid vs n (length vs)
         \<and> (if code_ok resp then result_sync_variants resp = Inr vs
             else held_in_memory tr = Some vs)"
    if run: "build_single_product_creator env design_file product_type mw = (mr, mw')"
      and ok: "creator_success mr"
  proof -
    obtain r0 w0 where
      body: "build_single_product_creator_body env design_file product_type mw = (r0, w0)"
      by (cases "build_single_product_creator_body env design_file product_type mw")
    show ?thesis
    proof (cases r0)
      case (Inl e)
      with body run ok show ?thesis by (auto simp add: build_single_product_creator_def)
    next
      case (Inr x)
      with body run
      have "build_single_product_creator_body env design_file product_type mw = (Inr mr, mw')"
        by (simp add: build_single_product_creator_def)
      with ok creator_body_reports [of env design_file product_type] show ?thesis
        unfolding creator_reports_final_read_def by blast
    qed
  qed
  have c6: "build_single_product_creator env design_file product_type mw = (mr, mw')
       \<and> creator_success mr \<longrightarrow>
      (\<exists>tr pid resp vs n.
         trace mw' = tr @ [Api (GET (StoreProduct pid)) (Inr resp)]
         \<and> mr = CreatorSucceeded pid vs n (length vs)
         \<and> (if code_ok resp then result_sync_variants resp = Inr vs
             else held_in_memory tr = Some vs))"
    using creator by blast
  have c7: "build_single_product_creator env design_file product_type mw = (mr, mw')
       \<and> (\<exists>tr req e. trace mw' = tr @ [Api req (Inl e)]) \<longrightarrow> \<not> creator_success mr"
  proof (intro impI notI)
    assume a: "build_single_product_creator env design_file product_type mw = (mr, mw')
       \<and> (\<exists>tr req e. trace mw' = tr @ [Api req (Inl e)])"
    assume "creator_success mr"
    with a creator obtain tr pid resp where
      "trace mw' = tr @ [Api (GET (StoreProduct pid)) (Inr resp)]" by blast
    with a show False by auto
  qed
  have c8: "api_request env (GET (StoreProduct p)) (ext fw) = (Inr rejected, fs)
       \<and> \<not> code_ok rejected \<longrightarrow>
       final_state_creator env p requested held fw
       = (Inr (CreatorSucceeded p held requested (length held)),
          fw\<lparr>ext := fs, trace := trace fw @ [Api (GET (StoreProduct p)) (Inr rejected)]\<rparr>)"
    using final_state_creator_degrades [of env p fw rejected fs requested held] by blast
  from two c6 c7 c8 show ?thesis by (intro conjI) (elim conjE, assumption)+
qed

theorem final_read_outcome_witness:
  "success (fst (build_single_product (scripted [''designs/cat.png'']) ''designs/cat.png''
         ''gildan_5000'' (start documented_creation)))
   \<and> (\<exists>tr pid resp vs n.
         trace (snd (build_single_product (scripted [''designs/cat.png'']) ''designs/cat.png''
           ''gildan_5000'' (start documented_creation)))
           = tr @ [Api (GET (StoreProduct pid)) (Inr resp)]
         \<and> code_ok resp \<and> result_sync_variants resp = Inr vs
         \<and> fst (build_single_product (scripted [''designs/cat.png'']) ''designs/cat.png''
              ''gildan_5000'' (start documented_creation))
            = BuildSucceeded pid vs n (length vs))
   \<and> \<not> success (fst (build_single_product (scripted [''designs/cat.png''])
         ''designs/cat.png'' ''gildan_5000'' (start final_read_rejected)))
   \<and> fst (build_single_product_creator (scripted [''designs/cat.png'']) ''designs/cat.png''
         ''gildan_5000'' (start final_read_rejected_after_info))
     = CreatorSucceeded 7 [\<lparr>rv_id = Some 1000\<rparr>, \<lparr>rv_id = Some 1001\<rparr>, \<lparr>rv_id = Some 1002\<rparr>] 3 3
   \<and> (\<exists>tr pid resp vs n.
         trace (snd (build_single_product_creator (scripted [''designs/cat.png''])
           ''designs/cat.png'' ''gildan_5000'' (start final_read_rejected_after_info)))
           = tr @ [Api (GET (StoreProduct pid)) (Inr resp)]
         \<and> fst (build_single_product_creator (scripted [''designs/cat.png''])
              ''designs/cat.png'' ''gildan_5000'' (start final_read_rejected_after_info))
            = CreatorSucceeded pid vs n (length vs)
         \<and> (if code_ok resp then result_sync_variants resp = Inr vs
             else held_in_memory tr = Some vs))
   \<and> mc_total_variants_created (fst (build_single_product_creator
         (scripted [''designs/cat.png'']) ''designs/cat.png'' ''gildan_5000''
         (start final_read_rejected_after_append))) = 11
   \<and> map method_of (api_calls (trace (snd (build_single_product_creator
         (scripted [''designs/cat.png'']) ''designs/cat.png'' ''gildan_5000''
         (start final_read_rejected_after_append)))))
     = [''POST'', ''GET'', ''PUT'', ''GET'', ''GET'']"
proof -
  let ?good = "build_single_product (scripted [''designs/cat.png'']) ''designs/cat.png''
         ''gildan_5000'' (start documented_creation)"
  let ?bad = "build_single_product (scripted [''designs/cat.png'']) ''designs/cat.png''
         ''gildan_5000'' (start final_read_rejected)"
  let ?k = "build_single_product_creator (scripted [''designs/cat.png'']) ''designs/cat.png''
         ''gildan_5000'' (start final_read_rejected_after_info)"
  have ok: "success (fst ?good)" unfolding documented_creation_succeeds by simp
  have g: "?good = (fst ?good, snd ?good) \<and> success (fst ?good)" using ok by simp
  have b: "?bad = (fst ?bad, snd ?bad)
       \<and> (\<exists>tr req resp. trace (snd ?bad) = tr @ [Api req (Inr resp)] \<and> \<not> code_ok resp)"
  proof (intro conjI exI)
    show "?bad = (fst ?bad, snd ?bad)" by simp
    show "trace (snd ?bad) = butlast (trace (snd ?bad))
            @ [Api (GET (StoreProduct 7)) (Inr \<lparr>code = Some 500, result = None\<rparr>)]"
      by (rule final_read_rejected_run(2))
    show "\<not> code_ok \<lparr>code = Some 500, result = None\<rparr>" by (simp add: code_ok_def)
  qed
  have k_ok: "creator_success (fst ?k)" unfolding creator_rejected by simp
  have kk: "?k = (fst ?k, snd ?k) \<and> creator_success (fst ?k)" using k_ok by simp
  note t = final_read_outcome [where env = "scripted [''designs/cat.png'']"
      and design_file = "''designs/cat.png''" and product_type = "''gildan_5000''"]
  from t [where w = "start documented_creation" and r = "fst ?good" and w' = "snd ?good",
      THEN conjunct1, THEN mp, OF g]
  have 1: "\<exists>tr pid resp vs n.
         trace (snd ?good) = tr @ [Api (GET (StoreProduct pid)) (Inr resp)]
         \<and> code_ok resp \<and> result_sync_variants resp = Inr vs
         \<and> fst ?good = BuildSucceeded pid vs n (length vs)" .
  from t [where w = "start final_read_rejected" and r = "fst ?bad" and w' = "snd ?bad",
      THEN conjunct2, THEN conjunct2, THEN conjunct1, THEN mp, OF b]
  have 2: "\<not> success (fst ?bad)" .
  from t [where mw = "start final_read_rejected_after_info" and mr = "fst ?k"
      and mw' = "snd ?k",
      THEN conjunct2, THEN conjunct2, THEN conjunct2, THEN conjunct2, THEN conjunct2,
      THEN conjunct1, THEN mp, OF kk]
  have 3: "\<exists>tr pid resp vs n.
         trace (snd ?k) = tr @ [Api (GET (StoreProduct pid)) (Inr resp)]
         \<and> fst ?k = CreatorSucceeded pid vs n (length vs)
         \<and> (if code_ok resp then result_sync_variants resp = Inr vs
             else held_in_memory tr = Some vs)" .
  from ok 1 2 creator_rejected 3 creator_after_append(2) creator_after_append(4)
  show ?thesis by (intro conjI)
qed

text \<open>
  The claim as stated fails. After a successful creation, a final read answered with
  code 500 makes the build a failure in the modular builder and in the clean builder,
  and a final read that raises makes it a failure in the modular builder, in the clean
  builder and in the modular product creator.
\<close>

theorem failed_final_read_fails_build:
  "fst (build_single_product (scripted [''designs/cat.png'']) ''designs/cat.png''
         ''gildan_5000'' (start final_read_rejected))
     = BuildFailed (FinalStateError \<lparr>code = Some 500, result = None\<rparr>)
   \<and> fst (build (scripted [''designs/cat.png'']) ''designs/cat.png''
         ''gildan_5000'' (start final_read_rejected))
     = CleanFailed (KeyError ''result'')
   \<and> fst (build_single_product (scripted [''designs/cat.png'']) ''designs/cat.png''
         ''gildan_5000'' (start final_read_raises))
     = BuildFailed (Uncaught (Raised ''Timeout''))
   \<and> fst (build (scripted [''designs/cat.png'']) ''designs/cat.png''
         ''gildan_5000'' (start final_read_raises))
     = CleanFailed (Raised ''Timeout'')
   \<and> fst (build_single_product_creator (scripted [''designs/cat.png'']) ''designs/cat.png''
         ''gildan_5000'' (start final_read_raises_after_info))
     = CreatorFailed (CreatorUncaught (Raised ''Timeout''))"
proof (intro conjI)
  show "fst (build_single_product (scripted [''designs/cat.png'']) ''designs/cat.png''
         ''gildan_5000'' (start final_read_rejected))
     = BuildFailed (FinalStateError \<lparr>code = Some 500, result = None\<rparr>)"
    by (simp add: modular_build_simps io_simps gildan_5000_placements_m
      cat_design_name final_read_rejected_def sample_variants_3 product_state_3 reply_def)
  show "fst (build (scripted [''designs/cat.png'']) ''designs/cat.png''
         ''gildan_5000'' (start final_read_rejected))
     = CleanFailed (KeyError ''result'')"
    by (simp add: clean_build_simps io_simps gildan_5000_name gildan_5000_placements
        cat_design_name final_read_rejected_def sample_variants_3 product_state_3 reply_def)
  show "fst (build_single_product (scripted [''designs/cat.png'']) ''designs/cat.png''
         ''gildan_5000'' (start final_read_raises))
     = BuildFailed (Uncaught (Raised ''Timeout''))"
    by (simp add: modular_build_simps io_simps gildan_5000_placements_m
      cat_design_name final_read_raises_def sample_variants_3 product_state_3 reply_def)
  show "fst (build (scripted [''designs/cat.png'']) ''designs/cat.png''
         ''gildan_5000'' (start final_read_raises))
     = CleanFailed (Raised ''Timeout'')"
    by (simp add: clean_build_simps io_simps gildan_5000_name gildan_5000_placements
        cat_design_name final_read_raises_def sample_variants_3 product_state_3 reply_def)
  show "fst (build_single_product_creator (scripted [''designs/cat.png'']) ''designs/cat.png''
         ''gildan_5000'' (start final_read_raises_after_info))
     = CreatorFailed (CreatorUncaught (Raised ''Timeout''))"
    by (simp add: creator_build_simps io_simps gildan_5000_placements_m
      cat_design_name final_read_raises_after_info_def sample_variants_3 product_state_3
      reply_def)
qed

section \<open>Properties of the append loop\<close>

lemma existing_refs_length [simp]: "length (existing_refs vs) = length vs"
  by (simp add: existing_refs_def)

lemma collect_none_such:
  assumes "collect (map f xs) = Inr ys" and "\<And>x y. f x = Inr y \<Longrightarrow> \<not> P y"
  shows "\<not> list_ex P ys"
  using assms(1)
proof (induction xs arbitrary: ys)
  case Nil
  then show ?case by simp
next
  case (Cons x xs)
  then show ?case using assms(2) [of x]
    by (cases "f x"; cases "collect (map f xs)") auto
qed

lemma created_payloads_new:
  assumes "collect (map (\<lambda>v. create_variant_payload v pt us) vs) = Inr bsv"
  shows "\<not> list_ex is_existing_ref bsv"
  using assms
  by (rule collect_none_such) (auto simp add: create_variant_payload_def split: sum.splits)

lemma built_payloads_new:
  assumes "build_variants_payload pt vs us = Inr new"
  shows "\<not> list_ex is_existing_ref new"
  using assms unfolding build_variants_payload_def
  by (rule collect_none_such) (auto split: sum.splits)

lemma confirmed_put_head:
  assumes "\<not> list_ex is_existing_ref new"
  shows "confirmed_updates accept reread (Some cur)
     (Api (PUT ep \<lparr>pl_name = n, pl_thumbnail = t, pl_sync_variants = existing_refs cur @ new\<rparr>) r # tr)
   = confirmed_updates accept reread (if reread then None else Some cur) tr"
  using assms by simp

lemma confirmed_weaken:
  "confirmed_updates accept reread None tr \<Longrightarrow> confirmed_updates accept reread cur tr"
proof (induction tr arbitrary: cur)
  case Nil
  show ?case by simp
next
  case (Cons ev tr)
  show ?case
  proof (cases ev)
    case (Upload p r)
    with Cons show ?thesis by simp
  next
    case (UploadTransparent p r)
    with Cons show ?thesis by simp
  next
    case (Api req r)
    show ?thesis
    proof (cases req)
      case (GET ep)
      show ?thesis
      proof (cases r)
        case (Inl e)
        with Cons Api GET show ?thesis by simp
      next
        case (Inr resp)
        with Cons Api GET show ?thesis by (cases "accept resp") simp_all
      qed
    next
      case (POST ep pl)
      with Cons Api show ?thesis by simp
    next
      case (PUT ep pl)
      with Cons.prems Api show ?thesis by simp
    qed
  qed
qed

lemma append_loop_trace:
  "append_loop env pid remaining pt us name d batch_nums cur w = (r, w') \<Longrightarrow>
   \<exists>tr. trace w' = trace w @ tr \<and> confirmed_updates code_ok False (Some cur) tr"
proof (induction batch_nums arbitrary: cur w r w')
  case Nil
  then show ?case by (simp add: ret_def)
next
  case (Cons b rest)
  let ?loop = "append_loop env pid remaining pt us name d rest"
  show ?case
  proof (cases "collect (map (\<lambda>v. create_variant_payload v pt us) (modular_batch remaining b))")
    case (Inl e)
    with Cons.prems have "w' = w" by (simp add: io_bind_def lift_def)
    then show ?thesis by simp
  next
    case (Inr bsv)
    have new: "\<not> list_ex is_existing_ref bsv" by (rule created_payloads_new [OF Inr])
    note head = confirmed_put_head [OF new]
    let ?pl = "\<lparr>pl_name = name, pl_thumbnail = d, pl_sync_variants = existing_refs cur @ bsv\<rparr>"
    let ?put = "PUT (StoreProduct pid) ?pl"
    obtain rep s1 where put: "api_request env ?put (ext w) = (rep, s1)"
      by (cases "api_request env ?put (ext w)")
    let ?w1 = "w\<lparr>ext := s1, trace := trace w @ [Api ?put rep]\<rparr>"
    have step: "append_loop env pid remaining pt us name d (b # rest) cur w
      = (case rep of Inl e \<Rightarrow> (Inl e, ?w1)
         | Inr batch_response \<Rightarrow>
            if \<not> code_ok batch_response then ?loop cur ?w1
            else io_bind (api_call env (GET (StoreProduct pid))) (\<lambda>updated_info.
                   if code_ok updated_info
                   then io_bind (lift (result_sync_variants updated_info)) (\<lambda>vs. ?loop vs)
                   else ?loop cur) ?w1)"
      using Inr api_call_run [OF put]
      by (simp add: io_bind_def lift_def Let_def existing_refs_def split: sum.split)
    show ?thesis
    proof (cases rep)
      case (Inl e)
      with step Cons.prems have "w' = ?w1" by simp
      then have "trace w' = trace w @ [Api ?put rep]" by simp
      moreover have "confirmed_updates code_ok False (Some cur) [Api ?put rep]"
        by (simp add: new)
      ultimately show ?thesis by blast
    next
      case rep: (Inr batch_response)
      show ?thesis
      proof (cases "code_ok batch_response")
        case False
        with step rep Cons.prems have "?loop cur ?w1 = (r, w')" by simp
        from Cons.IH [OF this] obtain tr where
          "trace w' = trace ?w1 @ tr" "confirmed_updates code_ok False (Some cur) tr" by blast
        then have "trace w' = trace w @ (Api ?put rep # tr) \<and>
            confirmed_updates code_ok False (Some cur) (Api ?put rep # tr)"
          by (simp add: new)
        then show ?thesis by blast
      next
        case True
        let ?get = "GET (StoreProduct pid)"
        obtain rep2 s2 where get: "api_request env ?get (ext ?w1) = (rep2, s2)"
          by (cases "api_request env ?get (ext ?w1)")
        let ?w2 = "?w1\<lparr>ext := s2, trace := trace ?w1 @ [Api ?get rep2]\<rparr>"
        note call2 = api_call_run [OF get]
        show ?thesis
        proof (cases rep2)
          case (Inl e)
          with step rep True Cons.prems call2 have "w' = ?w2" by (simp add: io_bind_def)
          then have "trace w' = trace w @ [Api ?put rep, Api ?get rep2]" by simp
          moreover have "confirmed_updates code_ok False (Some cur) [Api ?put rep, Api ?get rep2]"
            using Inl by (simp add: new)
          ultimately show ?thesis by blast
        next
          case rep2: (Inr updated_info)
          show ?thesis
          proof (cases "code_ok updated_info")
            case False
            with step rep True Cons.prems call2 rep2 have "?loop cur ?w2 = (r, w')"
              by (simp add: io_bind_def)
            from Cons.IH [OF this] obtain tr where
              "trace w' = trace ?w2 @ tr" "confirmed_updates code_ok False (Some cur) tr" by blast
            then have "trace w' = trace w @ (Api ?put rep # Api ?get rep2 # tr) \<and>
                confirmed_updates code_ok False (Some cur) (Api ?put rep # Api ?get rep2 # tr)"
              using rep2 False by (simp add: new)
            then show ?thesis by blast
          next
            case ok2: True
            show ?thesis
            proof (cases "result_sync_variants updated_info")
              case (Inl e)
              with step rep True Cons.prems call2 rep2 ok2 have "w' = ?w2"
                by (simp add: io_bind_def lift_def)
              then have "trace w' = trace w @ [Api ?put rep, Api ?get rep2]" by simp
              moreover have "confirmed_updates code_ok False (Some cur) [Api ?put rep, Api ?get rep2]"
                using rep2 by (simp add: new)
              ultimately show ?thesis by blast
            next
              case (Inr vs)
              with step rep True Cons.prems call2 rep2 ok2 have "?loop vs ?w2 = (r, w')"
                by (simp add: io_bind_def lift_def)
              from Cons.IH [OF this] obtain tr where
                "trace w' = trace ?w2 @ tr" "confirmed_updates code_ok False (Some vs) tr" by blast
              then have "trace w' = trace w @ (Api ?put rep # Api ?get rep2 # tr) \<and>
                  confirmed_updates code_ok False (Some cur) (Api ?put rep # Api ?get rep2 # tr)"
                using rep2 ok2 Inr by (simp add: new)
              then show ?thesis by blast
            qed
          qed
        qed
      qed
    qed
  qed
qed


lemma collect_all_Inr: "collect (map (\<lambda>x. Inr (f x)) xs) = Inr (map f xs)"
  by (induction xs) simp_all

lemma configured_payloads:
  assumes "get_product_placements_m pt = Inr ps"
  shows "collect (map (\<lambda>v. create_variant_payload v pt us) vs)
         = Inr (map (\<lambda>v. NewVariant (Fmt2 (price v)) (variant_id v)
                  (variant_files_of ps (design_url us) (logo_url us) (upscaled_url us))) vs)"
proof -
  have "(\<lambda>v. create_variant_payload v pt us)
        = (\<lambda>v. Inr (NewVariant (Fmt2 (price v)) (variant_id v)
                  (variant_files_of ps (design_url us) (logo_url us) (upscaled_url us))))"
    using assms by (simp add: create_variant_payload_def create_variant_files_config_def)
  then show ?thesis by (simp only: collect_all_Inr)
qed

lemma update_count_simps [simp]:
  "update_count [] = 0"
  "update_count (tr @ tr') = update_count tr + update_count tr'"
  "update_count (Api (PUT ep pl) r # tr) = Suc (update_count tr)"
  "update_count (Api (GET ep) r # tr) = update_count tr"
  "update_count (Api (POST ep pl) r # tr) = update_count tr"
  "update_count (Upload p u # tr) = update_count tr"
  "update_count (UploadTransparent p u # tr) = update_count tr"
  by (simp_all add: update_count_def api_calls_def List.map_filter_def)

lemma append_loop_step:
  assumes "collect (map (\<lambda>v. create_variant_payload v pt us) (modular_batch remaining b)) = Inr bsv"
    and "api_request env (PUT (StoreProduct pid)
           \<lparr>pl_name = name, pl_thumbnail = d, pl_sync_variants = existing_refs cur @ bsv\<rparr>) (ext w)
         = (rep, s1)"
  shows "append_loop env pid remaining pt us name d (b # rest) cur w
      = (case rep of
           Inl e \<Rightarrow> (Inl e, w\<lparr>ext := s1, trace := trace w @ [Api (PUT (StoreProduct pid)
               \<lparr>pl_name = name, pl_thumbnail = d, pl_sync_variants = existing_refs cur @ bsv\<rparr>) rep]\<rparr>)
         | Inr batch_response \<Rightarrow>
            if \<not> code_ok batch_response
            then append_loop env pid remaining pt us name d rest cur
                   (w\<lparr>ext := s1, trace := trace w @ [Api (PUT (StoreProduct pid)
               \<lparr>pl_name = name, pl_thumbnail = d, pl_sync_variants = existing_refs cur @ bsv\<rparr>) rep]\<rparr>)
            else io_bind (api_call env (GET (StoreProduct pid))) (\<lambda>updated_info.
                   if code_ok updated_info
                   then io_bind (lift (result_sync_variants updated_info))
                          (\<lambda>vs. append_loop env pid remaining pt us name d rest vs)
                   else append_loop env pid remaining pt us name d rest cur)
                   (w\<lparr>ext := s1, trace := trace w @ [Api (PUT (StoreProduct pid)
               \<lparr>pl_name = name, pl_thumbnail = d, pl_sync_variants = existing_refs cur @ bsv\<rparr>) rep]\<rparr>))"
  using assms(1) api_call_run [OF assms(2)]
  by (simp add: io_bind_def lift_def Let_def existing_refs_def split: sum.split)

lemma answers_update:
  assumes "answers env"
  shows "\<exists>resp s1. api_request env (PUT ep pl) s = (Inr resp, s1)"
proof -
  from assms have "\<exists>resp s'. api_request env (PUT ep pl) s = (Inr resp, s')
        \<and> (method_of (PUT ep pl) = ''GET'' \<and> code_ok resp \<longrightarrow> result resp \<noteq> None)"
    unfolding answers_def by (elim allE)
  then show ?thesis by (elim exE conjE) (intro exI)
qed

lemma answers_read:
  assumes "answers env"
  shows "\<exists>resp s1. api_request env (GET ep) s = (Inr resp, s1)
           \<and> (code_ok resp \<longrightarrow> result resp \<noteq> None)"
proof -
  from assms have "\<exists>resp s'. api_request env (GET ep) s = (Inr resp, s')
        \<and> (method_of (GET ep) = ''GET'' \<and> code_ok resp \<longrightarrow> result resp \<noteq> None)"
    unfolding answers_def by (elim allE)
  then show ?thesis by simp
qed

lemma append_loop_runs_all:
  assumes "answers env" and "get_product_placements_m pt = Inr ps"
  shows "\<exists>vs w'. append_loop env pid remaining pt us name d batch_nums cur w = (Inr vs, w')
           \<and> update_count (trace w') = update_count (trace w) + length batch_nums"
proof (induction batch_nums arbitrary: cur w)
  case Nil
  show ?case by (simp add: ret_def)
next
  case (Cons b rest)
  let ?bsv = "map (\<lambda>v. NewVariant (Fmt2 (price v)) (variant_id v)
                  (variant_files_of ps (design_url us) (logo_url us) (upscaled_url us)))
                (modular_batch remaining b)"
  let ?put = "PUT (StoreProduct pid)
           \<lparr>pl_name = name, pl_thumbnail = d, pl_sync_variants = existing_refs cur @ ?bsv\<rparr>"
  have "\<exists>resp s1. api_request env ?put (ext w) = (Inr resp, s1)"
    by (rule answers_update [OF assms(1)])
  then obtain resp s1 where put: "api_request env ?put (ext w) = (Inr resp, s1)"
    by (elim exE)
  let ?w1 = "w\<lparr>ext := s1, trace := trace w @ [Api ?put (Inr resp)]\<rparr>"
  note step = append_loop_step [where rest = rest, OF configured_payloads [OF assms(2)] put]
  show ?case
  proof (cases "code_ok resp")
    case False
    from Cons.IH [of cur ?w1] obtain vs w' where
      "append_loop env pid remaining pt us name d rest cur ?w1 = (Inr vs, w')"
      "update_count (trace w') = update_count (trace ?w1) + length rest" by blast
    with False show ?thesis unfolding step by simp
  next
    case True
    let ?get = "GET (StoreProduct pid)"
    have "\<exists>resp s1. api_request env ?get (ext ?w1) = (Inr resp, s1)
           \<and> (code_ok resp \<longrightarrow> result resp \<noteq> None)"
      by (rule answers_read [OF assms(1)])
    then obtain resp2 s2 where
      get: "api_request env ?get (ext ?w1) = (Inr resp2, s2)"
      and res: "code_ok resp2 \<longrightarrow> result resp2 \<noteq> None"
      by (elim exE conjE)
    let ?w2 = "?w1\<lparr>ext := s2, trace := trace ?w1 @ [Api ?get (Inr resp2)]\<rparr>"
    note call2 = api_call_run [OF get]
    show ?thesis
    proof (cases "code_ok resp2")
      case False
      from Cons.IH [of cur ?w2] obtain vs w' where
        "append_loop env pid remaining pt us name d rest cur ?w2 = (Inr vs, w')"
        "update_count (trace w') = update_count (trace ?w2) + length rest" by blast
      with True call2 False show ?thesis unfolding step by (simp add: io_bind_def)
    next
      case ok2: True
      with res obtain vs2 where vs2: "result_sync_variants resp2 = Inr vs2"
        by (auto simp add: result_sync_variants_def)
      from Cons.IH [of vs2 ?w2] obtain vs w' where
        "append_loop env pid remaining pt us name d rest vs2 ?w2 = (Inr vs, w')"
        "update_count (trace w') = update_count (trace ?w2) + length rest" by blast
      with True call2 ok2 vs2 show ?thesis unfolding step by (simp add: io_bind_def lift_def)
    qed
  qed
qed

lemma append_loop_update_raises:
  assumes "get_product_placements_m pt = Inr ps"
    and "api_request env (PUT (StoreProduct pid)
           \<lparr>pl_name = name, pl_thumbnail = d,
            pl_sync_variants = existing_refs cur @
              map (\<lambda>v. NewVariant (Fmt2 (price v)) (variant_id v)
                  (variant_files_of ps (design_url us) (logo_url us) (upscaled_url us)))
                (modular_batch remaining b)\<rparr>) (ext w) = (Inl e, s1)"
  shows "append_loop env pid remaining pt us name d (b # rest) cur w
         = (Inl e, w\<lparr>ext := s1, trace := trace w @ [Api (PUT (StoreProduct pid)
           \<lparr>pl_name = name, pl_thumbnail = d,
            pl_sync_variants = existing_refs cur @
              map (\<lambda>v. NewVariant (Fmt2 (price v)) (variant_id v)
                  (variant_files_of ps (design_url us) (logo_url us) (upscaled_url us)))
                (modular_batch remaining b)\<rparr>) (Inl e)]\<rparr>)"
  unfolding append_loop_step [where rest = rest, OF configured_payloads [OF assms(1)] assms(2)]
  by simp


lemma add_remaining_trace:
  assumes "add_remaining_variants_batch env pid remaining pt us name d w = (r, w')"
  shows "\<exists>tr. trace w' = trace w @ tr \<and> confirmed_updates code_ok False None tr"
proof (cases "remaining = []")
  case True
  with assms have "w' = w" by (simp add: add_remaining_variants_batch_def ret_def)
  then show ?thesis by simp
next
  case False
  let ?get = "GET (StoreProduct pid)"
  obtain rep s1 where get: "api_request env ?get (ext w) = (rep, s1)"
    by (cases "api_request env ?get (ext w)")
  let ?w1 = "w\<lparr>ext := s1, trace := trace w @ [Api ?get rep]\<rparr>"
  note call = api_call_run [OF get]
  show ?thesis
  proof (cases rep)
    case (Inl e)
    with assms False call have "w' = ?w1"
      by (simp add: add_remaining_variants_batch_def io_bind_def)
    then have "trace w' = trace w @ [Api ?get rep]" by simp
    moreover have "confirmed_updates code_ok False None [Api ?get rep]" using Inl by simp
    ultimately show ?thesis by blast
  next
    case rep: (Inr current_info)
    show ?thesis
    proof (cases "code_ok current_info")
      case False
      with assms \<open>remaining \<noteq> []\<close> call rep have "w' = ?w1"
        by (simp add: add_remaining_variants_batch_def io_bind_def raise_def)
      then have "trace w' = trace w @ [Api ?get rep]" by simp
      moreover have "confirmed_updates code_ok False None [Api ?get rep]"
        using rep False by simp
      ultimately show ?thesis by blast
    next
      case ok: True
      show ?thesis
      proof (cases "result_sync_variants current_info")
        case (Inl e)
        with assms \<open>remaining \<noteq> []\<close> call rep ok have "w' = ?w1"
          by (simp add: add_remaining_variants_batch_def io_bind_def lift_def)
        then have "trace w' = trace w @ [Api ?get rep]" by simp
        moreover have "confirmed_updates code_ok False None [Api ?get rep]"
          using rep Inl by simp
        ultimately show ?thesis by blast
      next
        case cv: (Inr cv)
        with assms \<open>remaining \<noteq> []\<close> call rep ok
        have "append_loop env pid remaining pt us name d [0 ..< total_batches remaining] cv ?w1
              = (r, w')"
          by (simp add: add_remaining_variants_batch_def io_bind_def lift_def)
        from append_loop_trace [OF this] obtain tr where
          "trace w' = trace ?w1 @ tr" "confirmed_updates code_ok False (Some cv) tr" by blast
        then have "trace w' = trace w @ (Api ?get rep # tr)
            \<and> confirmed_updates code_ok False None (Api ?get rep # tr)"
          using rep ok cv by simp
        then show ?thesis by blast
      qed
    qed
  qed
qed

lemma existing_ids_refs:
  assumes "existing_ids current = Inr ex"
  shows "\<exists>vs. result_sync_variants current = Inr vs \<and> ex = existing_refs vs"
proof -
  have refs: "collect (map (\<lambda>v. case rv_id v of None \<Rightarrow> Inl (KeyError ''id'')
                                  | Some i \<Rightarrow> Inr (ExistingRef (Some i))) vs) = Inr ex
        \<Longrightarrow> ex = existing_refs vs" for vs ex
  proof (induction vs arbitrary: ex)
    case Nil
    then show ?case by (simp add: existing_refs_def)
  next
    case (Cons v vs)
    then show ?case
      by (cases "rv_id v") (auto simp add: existing_refs_def split: sum.splits)
  qed
  from assms obtain res vs where "result current = Some res" "res_sync_variants res = Some vs"
    by (auto simp add: existing_ids_def split: option.splits)
  with assms refs [of vs ex] show ?thesis
    by (simp add: existing_ids_def result_sync_variants_def)
qed

lemma add_variants_batch_trace:
  assumes "add_variants_batch env pid name pt batch us w = (r, w')"
  shows "\<exists>tr. trace w' = trace w @ tr
           \<and> (\<forall>cur tr'. confirmed_updates (\<lambda>resp. True) True None tr' \<longrightarrow>
                 confirmed_updates (\<lambda>resp. True) True cur (tr @ tr'))"
proof -
  let ?get = "GET (StoreProduct pid)"
  obtain rep s1 where get: "api_request env ?get (ext w) = (rep, s1)"
    by (cases "api_request env ?get (ext w)")
  let ?w1 = "w\<lparr>ext := s1, trace := trace w @ [Api ?get rep]\<rparr>"
  note call = api_call_run [OF get]
  have stop: ?thesis if "w' = ?w1"
  proof -
    from that have "trace w' = trace w @ [Api ?get rep]" by simp
    moreover have "\<forall>cur tr'. confirmed_updates (\<lambda>resp. True) True None tr' \<longrightarrow>
                 confirmed_updates (\<lambda>resp. True) True cur ([Api ?get rep] @ tr')"
      by (cases rep) (simp_all add: confirmed_weaken)
    ultimately show ?thesis by blast
  qed
  show ?thesis
  proof (cases rep)
    case (Inl e)
    with assms call have "w' = ?w1" by (simp add: add_variants_batch_def io_bind_def)
    then show ?thesis by (rule stop)
  next
    case rep: (Inr current)
    show ?thesis
    proof (cases "existing_ids current")
      case (Inl e)
      with assms call rep have "w' = ?w1"
        by (simp add: add_variants_batch_def io_bind_def lift_def)
      then show ?thesis by (rule stop)
    next
      case ex: (Inr existing)
      from existing_ids_refs [OF ex] obtain vs where
        vs: "result_sync_variants current = Inr vs" "existing = existing_refs vs" by blast
      show ?thesis
      proof (cases "build_variants_payload pt batch us")
        case (Inl e)
        with assms call rep ex have "w' = ?w1"
          by (simp add: add_variants_batch_def io_bind_def lift_def)
        then show ?thesis by (rule stop)
      next
        case new: (Inr new_variants)
        let ?put = "PUT (StoreProduct pid)
             \<lparr>pl_name = name, pl_thumbnail = design_url us,
              pl_sync_variants = existing @ new_variants\<rparr>"
        obtain rep2 s2 where put: "api_request env ?put (ext ?w1) = (rep2, s2)"
          by (cases "api_request env ?put (ext ?w1)")
        let ?w2 = "?w1\<lparr>ext := s2, trace := trace ?w1 @ [Api ?put rep2]\<rparr>"
        note call2 = api_call_run [OF put]
        from assms call rep ex new call2 have "w' = ?w2"
          by (cases rep2) (simp_all add: add_variants_batch_def io_bind_def lift_def ret_def)
        then have "trace w' = trace w @ [Api ?get rep, Api ?put rep2]" by simp
        moreover have "\<forall>cur tr'. confirmed_updates (\<lambda>resp. True) True None tr' \<longrightarrow>
                 confirmed_updates (\<lambda>resp. True) True cur ([Api ?get rep, Api ?put rep2] @ tr')"
          using rep vs built_payloads_new [OF new] by simp
        ultimately show ?thesis by blast
      qed
    qed
  qed
qed

lemma add_batches_trace:
  "add_batches env pid name pt remaining us starts w = (r, w') \<Longrightarrow>
   \<exists>tr. trace w' = trace w @ tr \<and> (\<forall>cur. confirmed_updates (\<lambda>resp. True) True cur tr)"
proof (induction starts arbitrary: w r w')
  case Nil
  then show ?case by (simp add: ret_def)
next
  case (Cons i rest)
  obtain r1 w1 where one: "add_variants_batch env pid name pt (clean_batch remaining i) us w = (r1, w1)"
    by (cases "add_variants_batch env pid name pt (clean_batch remaining i) us w")
  from add_variants_batch_trace [OF one] obtain tr1 where
    tr1: "trace w1 = trace w @ tr1"
    and ext: "\<forall>cur tr'. confirmed_updates (\<lambda>resp. True) True None tr' \<longrightarrow>
                 confirmed_updates (\<lambda>resp. True) True cur (tr1 @ tr')" by blast
  show ?case
  proof (cases r1)
    case (Inl e)
    with Cons.prems one have "w' = w1" by (simp add: io_bind_def)
    moreover have "confirmed_updates (\<lambda>resp. True) True cur (tr1 @ [])" for cur
      using ext [rule_format, of "[]" cur] by simp
    ultimately show ?thesis using tr1 by auto
  next
    case (Inr u)
    with Cons.prems one have "add_batches env pid name pt remaining us rest w1 = (r, w')"
      by (simp add: io_bind_def)
    from Cons.IH [OF this] obtain tr' where
      "trace w' = trace w1 @ tr'" "\<forall>cur. confirmed_updates (\<lambda>resp. True) True cur tr'" by blast
    with tr1 ext have "trace w' = trace w @ (tr1 @ tr')
        \<and> (\<forall>cur. confirmed_updates (\<lambda>resp. True) True cur (tr1 @ tr'))" by simp
    then show ?thesis by blast
  qed
qed

lemma add_batches_raise:
  assumes "add_variants_batch env pid name pt (clean_batch remaining i) us w = (Inl e, w1)"
  shows "add_batches env pid name pt remaining us (i # rest) w = (Inl e, w1)"
  using assms by (simp add: io_bind_def)


lemmas loop_eval_simps =
  add_remaining_variants_batch_def io_simps create_variant_payload_def
  create_variant_files_config_def gildan_5000_placements_m result_sync_variants_def code_ok_def
  reply_def total_batches_def collect_all_Inr sample_variants_def product_state_def upt_rec

lemma answers_counting_vendor: "answers counting_vendor"
proof (unfold answers_def, intro allI)
  fix req s
  show "\<exists>resp s'. api_request counting_vendor req s = (Inr resp, s')
        \<and> (method_of req = ''GET'' \<and> code_ok resp \<longrightarrow> result resp \<noteq> None)"
    by (cases req) (simp_all add: counting_vendor_def reply_def)
qed

lemma counting_sel [simp]: "api_request counting_vendor = counting_api"
  by (simp add: counting_vendor_def)

lemma counting_vendor_run:
  "fst (add_remaining_variants_batch counting_vendor 7 (sample_variants 21) ''gildan_5000''
          sample_urls ''cat - Gildan 5000'' ''https://img/cat'' (start 0))
     = Inr [\<lparr>rv_id = Some 1000\<rparr>, \<lparr>rv_id = Some 1001\<rparr>, \<lparr>rv_id = Some 1002\<rparr>]"
  "update_ref_counts (trace (snd (add_remaining_variants_batch counting_vendor 7
          (sample_variants 21) ''gildan_5000'' sample_urls ''cat - Gildan 5000''
          ''https://img/cat'' (start 0)))) = [2, 2, 3]"
  by (simp_all add: loop_eval_simps update_ref_counts_def api_calls_def List.map_filter_simps)

lemma add_variants_batch_returns:
  assumes "api_request env (GET (StoreProduct pid)) (ext w) = (Inr current, s1)"
    and "existing_ids current = Inr existing"
    and "build_variants_payload pt batch us = Inr new_variants"
    and "api_request env (PUT (StoreProduct pid)
           \<lparr>pl_name = name, pl_thumbnail = design_url us,
            pl_sync_variants = existing @ new_variants\<rparr>) s1 = (Inr resp, s2)"
  shows "add_variants_batch env pid name pt batch us w
         = (Inr (), w\<lparr>ext := s2,
              trace := trace w @ [Api (GET (StoreProduct pid)) (Inr current),
                Api (PUT (StoreProduct pid)
                  \<lparr>pl_name = name, pl_thumbnail = design_url us,
                   pl_sync_variants = existing @ new_variants\<rparr>) (Inr resp)]\<rparr>)"
  using assms by (simp add: add_variants_batch_def io_bind_def api_call_def lift_def ret_def)

lemma py_range_21: "py_range 0 21 10 = [0, 10, 20]"
  by code_simp

lemma py_range_11: "py_range 0 11 10 = [0, 10]"
  by code_simp

lemmas clean_loop_eval_simps =
  add_variants_batch_def existing_ids_def build_variants_payload_def build_files_config_def
  files_of_def clean_file_for_def clean_slot_url_def truthy_def clean_batch_def py_slice_def
  gildan_5000_placements io_simps reply_def collect_all_Inr sample_variants_def
  product_state_def upt_rec List.map_filter_simps sample_urls_def

lemma counting_vendor_clean_run:
  "fst (add_batches counting_vendor 7 ''cat - Gildan 5000'' ''gildan_5000'' (sample_variants 21)
          sample_urls [0, 10, 20] (start 0)) = Inr ()"
  "update_ref_counts (trace (snd (add_batches counting_vendor 7 ''cat - Gildan 5000''
          ''gildan_5000'' (sample_variants 21) sample_urls [0, 10, 20] (start 0)))) = [2, 2, 3]"
  "map method_of (api_calls (trace (snd (add_batches counting_vendor 7 ''cat - Gildan 5000''
          ''gildan_5000'' (sample_variants 21) sample_urls [0, 10, 20] (start 0)))))
   = [''GET'', ''PUT'', ''GET'', ''PUT'', ''GET'', ''PUT'']"
  by (simp_all add: clean_loop_eval_simps update_ref_counts_def api_calls_def)

lemma update_raises_clean_batch:
  "fst (add_variants_batch (scripted []) 7 ''cat - Gildan 5000'' ''gildan_5000''
          (clean_batch (sample_variants 11) 0) sample_urls (start update_raises))
   = Inl (Raised ''Timeout'')"
  by (simp add: clean_loop_eval_simps update_raises_def)

text \<open>
  Claim C1, as amended. In the modular builder every update (PUT) of the append loop is
  made of the references of the variant list last confirmed by a success-coded read,
  followed by the new variants of its batch, and no update is sent before a read has
  confirmed a list. An update answered with a non-success code does not end the loop:
  when the vendor answers every call (no call raises, success-coded reads carry a result)
  and the product type is configured, every batch sends its update and the loop returns a
  variant list. No exception is caught per batch: an exception raised by the update call
  of a batch ends the loop there, no later batch is sent, and the build turns it into a
  failed result in its outer handler. In the clean builder every update is preceded by a
  read of its own, made after the previous update, and is made of the references of that
  read followed by the new variants of its batch; the reply to an update is not looked
  at, so the loop goes on to the next batch whatever its code; an exception raised
  inside a batch ends the loop as well.
\<close>

theorem append_loop_behaviour:
  "(add_remaining_variants_batch env pid remaining pt us name d w = (r, w') \<longrightarrow>
      (\<exists>tr. trace w' = trace w @ tr \<and> confirmed_updates code_ok False None tr))
   \<and> (answers env \<and> get_product_placements_m pt = Inr ps \<longrightarrow>
      (\<exists>vs w1. append_loop env pid remaining pt us name d batch_nums cur w = (Inr vs, w1)
          \<and> update_count (trace w1) = update_count (trace w) + length batch_nums))
   \<and> (get_product_placements_m pt = Inr ps
       \<and> api_request env (PUT (StoreProduct pid)
           \<lparr>pl_name = name, pl_thumbnail = d,
            pl_sync_variants = existing_refs cur @
              map (\<lambda>v. NewVariant (Fmt2 (price v)) (variant_id v)
                  (variant_files_of ps (design_url us) (logo_url us) (upscaled_url us)))
                (modular_batch remaining b)\<rparr>) (ext w) = (Inl e, s1) \<longrightarrow>
      append_loop env pid remaining pt us name d (b # rest) cur w
         = (Inl e, w\<lparr>ext := s1, trace := trace w @ [Api (PUT (StoreProduct pid)
           \<lparr>pl_name = name, pl_thumbnail = d,
            pl_sync_variants = existing_refs cur @
              map (\<lambda>v. NewVariant (Fmt2 (price v)) (variant_id v)
                  (variant_files_of ps (design_url us) (logo_url us) (upscaled_url us)))
                (modular_batch remaining b)\<rparr>) (Inl e)]\<rparr>))
   \<and> (build_single_product_body env design_file pt w = (Inl e, w2) \<longrightarrow>
        build_single_product env design_file pt w = (BuildFailed (Uncaught e), w2))
   \<and> (add_batches env pid name pt remaining us starts w = (cr, cw') \<longrightarrow>
      (\<exists>tr. trace cw' = trace w @ tr \<and> confirmed_updates (\<lambda>resp. True) True None tr))
   \<and> (api_request env (GET (StoreProduct pid)) (ext w) = (Inr current, s3)
       \<and> existing_ids current = Inr existing
       \<and> build_variants_payload pt (clean_batch remaining i) us = Inr new_variants
       \<and> api_request env (PUT (StoreProduct pid)
           \<lparr>pl_name = name, pl_thumbnail = design_url us,
            pl_sync_variants = existing @ new_variants\<rparr>) s3 = (Inr resp, s4) \<longrightarrow>
      add_batches env pid name pt remaining us (i # rest) w
      = add_batches env pid name pt remaining us rest
          (w\<lparr>ext := s4,
             trace := trace w @ [Api (GET (StoreProduct pid)) (Inr current),
               Api (PUT (StoreProduct pid)
                 \<lparr>pl_name = name, pl_thumbnail = design_url us,
                  pl_sync_variants = existing @ new_variants\<rparr>) (Inr resp)]\<rparr>))
   \<and> (add_variants_batch env pid name pt (clean_batch remaining i) us w = (Inl e, cw_stop) \<longrightarrow>
        add_batches env pid name pt remaining us (i # rest) w = (Inl e, cw_stop))"
proof (intro conjI impI)
  assume "add_remaining_variants_batch env pid remaining pt us name d w = (r, w')"
  then show "\<exists>tr. trace w' = trace w @ tr \<and> confirmed_updates code_ok False None tr"
    by (rule add_remaining_trace)
next
  assume "answers env \<and> get_product_placements_m pt = Inr ps"
  then have "answers env" "get_product_placements_m pt = Inr ps" by simp_all
  then show "\<exists>vs w1. append_loop env pid remaining pt us name d batch_nums cur w = (Inr vs, w1)
          \<and> update_count (trace w1) = update_count (trace w) + length batch_nums"
    by (rule append_loop_runs_all)
next
  assume "get_product_placements_m pt = Inr ps
       \<and> api_request env (PUT (StoreProduct pid)
           \<lparr>pl_name = name, pl_thumbnail = d,
            pl_sync_variants = existing_refs cur @
              map (\<lambda>v. NewVariant (Fmt2 (price v)) (variant_id v)
                  (variant_files_of ps (design_url us) (logo_url us) (upscaled_url us)))
                (modular_batch remaining b)\<rparr>) (ext w) = (Inl e, s1)"
  then have p: "get_product_placements_m pt = Inr ps"
    and q: "api_request env (PUT (StoreProduct pid)
           \<lparr>pl_name = name, pl_thumbnail = d,
            pl_sync_variants = existing_refs cur @
              map (\<lambda>v. NewVariant (Fmt2 (price v)) (variant_id v)
                  (variant_files_of ps (design_url us) (logo_url us) (upscaled_url us)))
                (modular_batch remaining b)\<rparr>) (ext w) = (Inl e, s1)"
    by simp_all
  show "append_loop env pid remaining pt us name d (b # rest) cur w
         = (Inl e, w\<lparr>ext := s1, trace := trace w @ [Api (PUT (StoreProduct pid)
           \<lparr>pl_name = name, pl_thumbnail = d,
            pl_sync_variants = existing_refs cur @
              map (\<lambda>v. NewVariant (Fmt2 (price v)) (variant_id v)
                  (variant_files_of ps (design_url us) (logo_url us) (upscaled_url us)))
                (modular_batch remaining b)\<rparr>) (Inl e)]\<rparr>)"
    by (rule append_loop_update_raises [OF p q])
next
  assume "build_single_product_body env design_file pt w = (Inl e, w2)"
  then show "build_single_product env design_file pt w = (BuildFailed (Uncaught e), w2)"
    by (simp add: build_single_product_def)
next
  assume "add_batches env pid name pt remaining us starts w = (cr, cw')"
  from add_batches_trace [OF this]
  show "\<exists>tr. trace cw' = trace w @ tr \<and> confirmed_updates (\<lambda>resp. True) True None tr" by blast
next
  assume a: "api_request env (GET (StoreProduct pid)) (ext w) = (Inr current, s3)
       \<and> existing_ids current = Inr existing
       \<and> build_variants_payload pt (clean_batch remaining i) us = Inr new_variants
       \<and> api_request env (PUT (StoreProduct pid)
           \<lparr>pl_name = name, pl_thumbnail = design_url us,
            pl_sync_variants = existing @ new_variants\<rparr>) s3 = (Inr resp, s4)"
  have "add_variants_batch env pid name pt (clean_batch remaining i) us w
         = (Inr (), w\<lparr>ext := s4,
              trace := trace w @ [Api (GET (StoreProduct pid)) (Inr current),
                Api (PUT (StoreProduct pid)
                  \<lparr>pl_name = name, pl_thumbnail = design_url us,
                   pl_sync_variants = existing @ new_variants\<rparr>) (Inr resp)]\<rparr>)"
    by (rule add_variants_batch_returns [OF a [THEN conjunct1]
          a [THEN conjunct2, THEN conjunct1] a [THEN conjunct2, THEN conjunct2, THEN conjunct1]
          a [THEN conjunct2, THEN conjunct2, THEN conjunct2]])
  then show "add_batches env pid name pt remaining us (i # rest) w
      = add_batches env pid name pt remaining us rest
          (w\<lparr>ext := s4,
             trace := trace w @ [Api (GET (StoreProduct pid)) (Inr current),
               Api (PUT (StoreProduct pid)
                 \<lparr>pl_name = name, pl_thumbnail = design_url us,
                  pl_sync_variants = existing @ new_variants\<rparr>) (Inr resp)]\<rparr>)"
    by (simp add: io_bind_def)
next
  assume "add_variants_batch env pid name pt (clean_batch remaining i) us w = (Inl e, cw_stop)"
  then show "add_batches env pid name pt remaining us (i # rest) w = (Inl e, cw_stop)"
    by (rule add_batches_raise)
qed

theorem append_loop_behaviour_witness:
  "answers counting_vendor
   \<and> \<not> isl (get_product_placements_m ''gildan_5000'')
   \<and> (\<exists>vs w1. append_loop counting_vendor 7 (sample_variants 21) ''gildan_5000'' sample_urls
         ''cat - Gildan 5000'' ''https://img/cat'' [0 ..< 3] [] (start 0) = (Inr vs, w1)
       \<and> update_count (trace w1) = 3)
   \<and> (\<exists>tr. trace (snd (add_remaining_variants_batch counting_vendor 7 (sample_variants 21)
         ''gildan_5000'' sample_urls ''cat - Gildan 5000'' ''https://img/cat'' (start 0)))
         = trace (start (0::nat)) @ tr
       \<and> confirmed_updates code_ok False None tr)
   \<and> fst (add_remaining_variants_batch counting_vendor 7 (sample_variants 21) ''gildan_5000''
          sample_urls ''cat - Gildan 5000'' ''https://img/cat'' (start 0))
     = Inr [\<lparr>rv_id = Some 1000\<rparr>, \<lparr>rv_id = Some 1001\<rparr>, \<lparr>rv_id = Some 1002\<rparr>]
   \<and> update_ref_counts (trace (snd (add_remaining_variants_batch counting_vendor 7
          (sample_variants 21) ''gildan_5000'' sample_urls ''cat - Gildan 5000''
          ''https://img/cat'' (start 0)))) = [2, 2, 3]
   \<and> (\<exists>tr. trace (snd (add_batches counting_vendor 7 ''cat - Gildan 5000'' ''gildan_5000''
          (sample_variants 21) sample_urls [0, 10, 20] (start 0)))
         = trace (start (0::nat)) @ tr
       \<and> confirmed_updates (\<lambda>resp. True) True None tr)
   \<and> clean_batch_starts (sample_variants 21) = [0, 10, 20]
   \<and> update_ref_counts (trace (snd (add_batches counting_vendor 7 ''cat - Gildan 5000''
          ''gildan_5000'' (sample_variants 21) sample_urls [0, 10, 20] (start 0)))) = [2, 2, 3]
   \<and> fst (add_batches (scripted []) 7 ''cat - Gildan 5000'' ''gildan_5000'' (sample_variants 11)
          sample_urls [0, 10] (start update_raises)) = Inl (Raised ''Timeout'')"
proof -
  let ?run = "add_remaining_variants_batch counting_vendor 7 (sample_variants 21) ''gildan_5000''
          sample_urls ''cat - Gildan 5000'' ''https://img/cat'' (start 0)"
  let ?crun = "add_batches counting_vendor 7 ''cat - Gildan 5000'' ''gildan_5000''
          (sample_variants 21) sample_urls [0, 10, 20] (start 0)"
  let ?batch = "add_variants_batch (scripted []) 7 ''cat - Gildan 5000'' ''gildan_5000''
          (clean_batch (sample_variants 11) 0) sample_urls (start update_raises)"
  have cfg: "\<not> isl (get_product_placements_m ''gildan_5000'')"
    by (simp add: gildan_5000_placements_m)
  have pair: "?run = (fst ?run, snd ?run)" by simp
  have cpair: "?crun = (fst ?crun, snd ?crun)" by simp
  have bpair: "?batch = (Inl (Raised ''Timeout''), snd ?batch)"
    using update_raises_clean_batch by (simp add: prod_eq_iff)
  note t = append_loop_behaviour [of counting_vendor 7 "sample_variants 21" "''gildan_5000''"
      sample_urls "''cat - Gildan 5000''" "''https://img/cat''" "start 0" "fst ?run" "snd ?run"
      _ "[0 ..< 3]" "[]"]
  have 1: "\<exists>tr. trace (snd ?run) = trace (start (0::nat)) @ tr
         \<and> confirmed_updates code_ok False None tr"
    by (rule t [THEN conjunct1, THEN mp, OF pair])
  have "\<exists>vs w1. append_loop counting_vendor 7 (sample_variants 21) ''gildan_5000'' sample_urls
         ''cat - Gildan 5000'' ''https://img/cat'' [0 ..< 3] [] (start 0) = (Inr vs, w1)
       \<and> update_count (trace w1) = update_count (trace (start (0::nat))) + length [0 ..< 3]"
    by (rule t [THEN conjunct2, THEN conjunct1, THEN mp,
          OF conjI [OF answers_counting_vendor gildan_5000_placements_m]])
  then have 2: "\<exists>vs w1. append_loop counting_vendor 7 (sample_variants 21) ''gildan_5000''
         sample_urls ''cat - Gildan 5000'' ''https://img/cat'' [0 ..< 3] [] (start 0) = (Inr vs, w1)
       \<and> update_count (trace w1) = 3"
    by (simp add: start_def del: append_loop.simps)
  note c = append_loop_behaviour [where env = counting_vendor and pid = 7
      and name = "''cat - Gildan 5000''" and pt = "''gildan_5000''"
      and remaining = "sample_variants 21" and us = sample_urls and starts = "[0, 10, 20]"
      and w = "start 0" and cr = "fst ?crun" and cw' = "snd ?crun"]
  have 3: "\<exists>tr. trace (snd ?crun) = trace (start (0::nat)) @ tr
         \<and> confirmed_updates (\<lambda>resp. True) True None tr"
    by (rule c [THEN conjunct2, THEN conjunct2, THEN conjunct2, THEN conjunct2, THEN conjunct1,
          THEN mp, OF cpair])
  have starts: "clean_batch_starts (sample_variants 21) = [0, 10, 20]"
    by (simp add: clean_batch_starts_def sample_variants_def py_range_21)
  note x = append_loop_behaviour [where env = "scripted []" and pid = 7
      and name = "''cat - Gildan 5000''" and pt = "''gildan_5000''"
      and remaining = "sample_variants 11" and us = sample_urls and i = 0 and rest = "[10]"
      and w = "start update_raises" and e = "Raised ''Timeout''" and cw_stop = "snd ?batch"]
  have "add_batches (scripted []) 7 ''cat - Gildan 5000'' ''gildan_5000'' (sample_variants 11)
          sample_urls [0, 10] (start update_raises) = (Inl (Raised ''Timeout''), snd ?batch)"
    by (rule x [THEN conjunct2, THEN conjunct2, THEN conjunct2, THEN conjunct2, THEN conjunct2,
          THEN conjunct2, THEN mp, OF bpair])
  then have 4: "fst (add_batches (scripted []) 7 ''cat - Gildan 5000'' ''gildan_5000''
          (sample_variants 11) sample_urls [0, 10] (start update_raises)) = Inl (Raised ''Timeout'')"
    by (simp only: fst_conv)
  from answers_counting_vendor cfg 2 1 counting_vendor_run(1) counting_vendor_run(2) 3 starts
    counting_vendor_clean_run(2) 4
  show ?thesis by (intro conjI)
qed

text \<open>
  The claim as stated fails: with 31 variants two append batches are due; the update of
  the first raises, no second update is sent, and the build ends as a failure.
\<close>

theorem update_exception_ends_loop:
  "total_batches (modular_remaining_variants (sample_variants 31)) = 2
   \<and> update_count (trace (snd (build_single_product (scripted [''designs/cat.png''])
        ''designs/cat.png'' ''gildan_5000'' (start update_raises_in_build)))) = 1
   \<and> fst (build_single_product (scripted [''designs/cat.png'']) ''designs/cat.png''
         ''gildan_5000'' (start update_raises_in_build))
     = BuildFailed (Uncaught (Raised ''Timeout''))"
proof (intro conjI)
  show "total_batches (modular_remaining_variants (sample_variants 31)) = 2"
    by (simp add: total_batches_def modular_remaining_variants_def sample_variants_def)
  show "update_count (trace (snd (build_single_product (scripted [''designs/cat.png''])
        ''designs/cat.png'' ''gildan_5000'' (start update_raises_in_build)))) = 1"
    by (simp add: modular_build_simps loop_eval_simps cat_design_name
        update_raises_in_build_def)
  show "fst (build_single_product (scripted [''designs/cat.png'']) ''designs/cat.png''
         ''gildan_5000'' (start update_raises_in_build))
     = BuildFailed (Uncaught (Raised ''Timeout''))"
    by (simp add: modular_build_simps loop_eval_simps cat_design_name
        update_raises_in_build_def)
qed

end
